(* ===== verification/Prelude.thy ===== *)
theory Prelude
  imports Complex_Main
begin

text \<open>
  Shared vocabulary of the development. Python exceptions raised by the scripts
  (a missing dictionary key, an unbound name, a failed conversion, a method
  called on \<open>None\<close>, a file that cannot be opened, a call with arguments the
  callee does not take) are values of
  \<open>py_error\<close>; a computation that may raise returns \<open>py_error + 'a\<close>, with
  \<open>Inl\<close> the exception. \<open>rbind\<close> sequences two such computations the way a
  raised exception aborts the rest of a Python function, and \<open>rmap\<close> is a list
  comprehension whose body may raise. Python dictionaries keyed by strings are maps
  \<open>string \<rightharpoonup> 'v\<close>, read by \<open>getitem\<close>.
\<close>

named_theorems result_simps "rewrite rules for the result combinators"

datatype py_error =
    KeyError string
  | NameError string
  | ValueError string
  | AttributeError string
  | IOError string
  | TypeError string

type_synonym 'a result = "py_error + 'a"

type_synonym 'v dict = "string \<rightharpoonup> 'v"

definition rbind :: "'a result \<Rightarrow> ('a \<Rightarrow> 'b result) \<Rightarrow> 'b result" where
  "rbind r f = (case r of Inl e \<Rightarrow> Inl e | Inr a \<Rightarrow> f a)"

fun rmap :: "('a \<Rightarrow> 'b result) \<Rightarrow> 'a list \<Rightarrow> 'b list result" where
  "rmap f [] = Inr []"
| "rmap f (x # xs) = rbind (f x) (\<lambda>y. rbind (rmap f xs) (\<lambda>ys. Inr (y # ys)))"

definition getitem :: "'v dict \<Rightarrow> string \<Rightarrow> 'v result" where
  "getitem d k = (case d k of None \<Rightarrow> Inl (KeyError k) | Some v \<Rightarrow> Inr v)"

lemma rbind_Inl [simp, result_simps]: "rbind (Inl e) f = Inl e"
  by (simp add: rbind_def)

lemma rbind_Inr [simp, result_simps]: "rbind (Inr a) f = f a"
  by (simp add: rbind_def)

lemma rbind_eq_Inr_iff [result_simps]:
  "rbind r f = Inr b \<longleftrightarrow> (\<exists>a. r = Inr a \<and> f a = Inr b)"
  by (cases r) auto

lemma rbind_assoc [result_simps]: "rbind (rbind r f) g = rbind r (\<lambda>a. rbind (f a) g)"
  by (cases r) simp_all

lemma rbind_Inr_ex_iff [result_simps]: "(\<exists>b. rbind r (\<lambda>a. Inr (g a)) = Inr b) \<longleftrightarrow> (\<exists>a. r = Inr a)"
  by (cases r) simp_all

lemma getitem_Some [simp, result_simps]: "d k = Some v \<Longrightarrow> getitem d k = Inr v"
  by (simp add: getitem_def)

lemma getitem_None [simp, result_simps]: "d k = None \<Longrightarrow> getitem d k = Inl (KeyError k)"
  by (simp add: getitem_def)

lemma getitem_eq_Inr_iff [result_simps]: "getitem d k = Inr v \<longleftrightarrow> d k = Some v"
  by (simp add: getitem_def split: option.split)

text \<open>A comprehension succeeds exactly when its body succeeds on every element,
  and then it is the list of the results.\<close>

lemma rmap_eq_Inr_iff:
  "rmap f xs = Inr ys \<longleftrightarrow> list_all2 (\<lambda>x y. f x = Inr y) xs ys"
proof (induction xs arbitrary: ys)
  case Nil
  then show ?case by auto
next
  case (Cons x xs)
  then show ?case
    by (cases ys) (auto simp: rbind_eq_Inr_iff)
qed

lemma rmap_Inr_map [simp]: "rmap (\<lambda>x. Inr (g x)) xs = Inr (map g xs)"
  by (induction xs) simp_all

lemma rmap_Inr_length: "rmap f xs = Inr ys \<Longrightarrow> length ys = length xs"
  by (simp add: rmap_eq_Inr_iff list_all2_lengthD)

lemma rmap_Inr_nth:
  "rmap f xs = Inr ys \<Longrightarrow> i < length xs \<Longrightarrow> f (xs ! i) = Inr (ys ! i)"
  by (auto simp: rmap_eq_Inr_iff dest: list_all2_nthD)

lemma rmap_Inl_iff: "(\<exists>e. rmap f xs = Inl e) \<longleftrightarrow> (\<exists>x\<in>set xs. \<exists>e. f x = Inl e)"
proof (induction xs)
  case Nil
  then show ?case by simp
next
  case (Cons x xs)
  show ?case
  proof (cases "f x")
    case (Inl e)
    then show ?thesis by simp
  next
    case (Inr y)
    with Cons.IH show ?thesis by (cases "rmap f xs") auto
  qed
qed

lemma rmap_Inr_ex_iff: "(\<exists>ys. rmap f xs = Inr ys) \<longleftrightarrow> (\<forall>x\<in>set xs. \<exists>y. f x = Inr y)"
proof (induction xs)
  case Nil
  then show ?case by simp
next
  case (Cons x xs)
  then show ?case by (auto simp: rbind_eq_Inr_iff)
qed

lemma rmap_cong [fundef_cong]:
  "xs = ys \<Longrightarrow> (\<And>x. x \<in> set ys \<Longrightarrow> f x = g x) \<Longrightarrow> rmap f xs = rmap g ys"
  by (induction ys arbitrary: xs) auto

text \<open>Position of the first occurrence of a value in a list (the list's length
  when absent), as \<open>list.index\<close> finds it.\<close>

fun index_of :: "'a list \<Rightarrow> 'a \<Rightarrow> nat" where
  "index_of [] x = 0"
| "index_of (y # ys) x = (if y = x then 0 else Suc (index_of ys x))"

lemma index_of_nth: "distinct xs \<Longrightarrow> i < length xs \<Longrightarrow> index_of xs (xs ! i) = i"
proof (induction xs arbitrary: i)
  case Nil
  then show ?case by simp
next
  case (Cons y ys)
  show ?case
  proof (cases i)
    case 0
    then show ?thesis by simp
  next
    case (Suc j)
    with Cons.prems have "ys ! j \<in> set ys" and "y \<notin> set ys" and "j < length ys" by auto
    then have "y \<noteq> ys ! j" by auto
    with Suc Cons show ?thesis by simp
  qed
qed


subsection \<open>Loops whose body may raise, and the nested dictionaries\<close>

text \<open>A \<open>for\<close> loop over a list threading a state through a body that may
  raise: the first exception ends the loop.\<close>

fun rfold :: "('a \<Rightarrow> 's \<Rightarrow> 's result) \<Rightarrow> 'a list \<Rightarrow> 's \<Rightarrow> 's result" where
  "rfold f [] s = Inr s"
| "rfold f (x # xs) s = rbind (f x s) (rfold f xs)"

text \<open>The histogram maps are three-level dictionaries \<open>d[region][shift][name]\<close>.
  Reading a missing level gives \<open>None\<close>; the assignment
  \<open>d[r][s][k] = v\<close> raises \<open>KeyError\<close> on a missing region or shift, and
  otherwise updates the innermost dictionary.\<close>

type_synonym 'v dict3 = "'v dict dict dict"

definition lookup3 :: "'v dict3 \<Rightarrow> string \<Rightarrow> string \<Rightarrow> string \<Rightarrow> 'v option" where
  "lookup3 d r s k = (case d r of None \<Rightarrow> None | Some dr \<Rightarrow> (case dr s of None \<Rightarrow> None | Some ds \<Rightarrow> ds k))"

definition has_slot :: "'v dict3 \<Rightarrow> string \<Rightarrow> string \<Rightarrow> bool" where
  "has_slot d r s \<longleftrightarrow> (case d r of None \<Rightarrow> False | Some dr \<Rightarrow> dr s \<noteq> None)"

definition setitem3 :: "'v dict3 \<Rightarrow> string \<Rightarrow> string \<Rightarrow> string \<Rightarrow> 'v \<Rightarrow> 'v dict3 result" where
  "setitem3 d r s k v =
     rbind (getitem d r) (\<lambda>dr. rbind (getitem dr s) (\<lambda>ds. Inr (d(r \<mapsto> dr(s \<mapsto> ds(k \<mapsto> v))))))"

text \<open>A sequence of assignments \<open>d[r][s][k] = v\<close> into one region, in order.\<close>

definition store_all :: "'v dict3 \<Rightarrow> string \<Rightarrow> (string \<times> string \<times> 'v) list \<Rightarrow> 'v dict3 result" where
  "store_all d r es = rfold (\<lambda>e d. setitem3 d r (fst e) (fst (snd e)) (snd (snd e))) es d"

lemma rfold_append: "rfold f (xs @ ys) s = rbind (rfold f xs s) (rfold f ys)"
proof (induction xs arbitrary: s)
  case Nil
  then show ?case by simp
next
  case (Cons x xs)
  have "rfold f (xs @ ys) = (\<lambda>s. rbind (rfold f xs s) (rfold f ys))"
    using Cons.IH by (rule ext)
  then show ?case by (simp add: rbind_assoc)
qed

text \<open>An invariant of the state kept by every step of a loop that returns.\<close>

lemma rfold_invariant:
  assumes "rfold f xs s = Inr s'" and "P s"
    and "\<And>x t t'. x \<in> set xs \<Longrightarrow> f x t = Inr t' \<Longrightarrow> P t \<Longrightarrow> P t'"
  shows "P s'"
  using assms
proof (induction xs arbitrary: s)
  case Nil
  then show ?case by simp
next
  case (Cons x xs)
  then obtain t where "f x s = Inr t" and "rfold f xs t = Inr s'"
    by (auto simp: rbind_eq_Inr_iff)
  with Cons show ?case by (metis list.set_intros(1) list.set_intros(2))
qed

lemma store_all_append: "store_all d r (xs @ ys) = rbind (store_all d r xs) (\<lambda>d'. store_all d' r ys)"
  by (simp add: store_all_def rfold_append)

lemma store_all_Nil [simp]: "store_all d r [] = Inr d"
  by (simp add: store_all_def)

lemma setitem3_Inr:
  assumes "has_slot d r s"
  shows "\<exists>d'. setitem3 d r s k v = Inr d' \<and>
           (\<forall>r' s' k'. lookup3 d' r' s' k' = (if r' = r \<and> s' = s \<and> k' = k then Some v else lookup3 d r' s' k')) \<and>
           (\<forall>r' s'. has_slot d' r' s' = has_slot d r' s')"
  using assms by (auto simp: setitem3_def has_slot_def lookup3_def split: option.splits if_splits)

text \<open>Reading \<open>d[r][s][k]\<close> with three subscripts.\<close>

lemma getitem3_Some:
  fixes d :: "'v dict3" and f :: "'v \<Rightarrow> 'b result"
  assumes "lookup3 d r s k = Some v"
  shows "rbind (getitem d r) (\<lambda>hr. rbind (getitem hr s) (\<lambda>hs. rbind (getitem hs k) f)) = f v"
proof -
  obtain hr hs where "d r = Some hr" "hr s = Some hs" "hs k = Some v"
    using assms by (auto simp: lookup3_def split: option.split_asm)
  then show ?thesis by simp
qed

lemma setitem3_KeyError:
  "\<not> has_slot d r s \<Longrightarrow> setitem3 d r s k v = Inl (KeyError (if d r = None then r else s))"
  by (auto simp: setitem3_def has_slot_def split: option.splits)

text \<open>The stores succeed when every slot they write exists; afterwards the last
  value stored under a key wins and every other entry and every slot is kept.\<close>

definition store_keys :: "(string \<times> string \<times> 'v) list \<Rightarrow> (string \<times> string) \<rightharpoonup> 'v" where
  "store_keys es = map_of (rev (map (\<lambda>e. ((fst e, fst (snd e)), snd (snd e))) es))"

lemma store_all_Inr:
  assumes "\<forall>e\<in>set es. has_slot d r (fst e)"
  shows "\<exists>d'. store_all d r es = Inr d' \<and>
           (\<forall>r' s k. lookup3 d' r' s k =
              (if r' = r then (case store_keys es (s, k) of None \<Rightarrow> lookup3 d r' s k | Some v \<Rightarrow> Some v)
               else lookup3 d r' s k)) \<and>
           (\<forall>r' s. has_slot d' r' s = has_slot d r' s)"
  using assms
proof (induction es arbitrary: d)
  case Nil
  then show ?case by (simp add: store_keys_def)
next
  case (Cons e es)
  obtain d1 where s1: "setitem3 d r (fst e) (fst (snd e)) (snd (snd e)) = Inr d1"
    and l1: "\<forall>r' s' k'. lookup3 d1 r' s' k' =
               (if r' = r \<and> s' = fst e \<and> k' = fst (snd e) then Some (snd (snd e)) else lookup3 d r' s' k')"
    and h1: "\<forall>r' s'. has_slot d1 r' s' = has_slot d r' s'"
    using setitem3_Inr [of d r "fst e" "fst (snd e)" "snd (snd e)"] Cons.prems by auto
  from Cons.prems h1 have "\<forall>e\<in>set es. has_slot d1 r (fst e)" by simp
  from Cons.IH [OF this] obtain d' where s2: "store_all d1 r es = Inr d'"
    and l2: "\<forall>r' s k. lookup3 d' r' s k =
              (if r' = r then (case store_keys es (s, k) of None \<Rightarrow> lookup3 d1 r' s k | Some v \<Rightarrow> Some v)
               else lookup3 d1 r' s k)"
    and h2: "\<forall>r' s. has_slot d' r' s = has_slot d1 r' s" by blast
  have "store_all d r (e # es) = Inr d'" using s1 s2 by (simp add: store_all_def)
  moreover have "store_keys (e # es) = (store_keys es ++ [(fst e, fst (snd e)) \<mapsto> snd (snd e)]) ++ store_keys es"
    by (simp add: store_keys_def map_add_def fun_eq_iff split: option.splits)
  ultimately show ?case
    using l1 l2 h1 h2 by (auto simp: map_add_def split: option.splits)
qed

lemma store_keys_Nil [simp]: "store_keys [] = Map.empty"
  by (simp add: store_keys_def)

lemma store_keys_Cons:
  "store_keys (e # es) k =
     (case store_keys es k of None \<Rightarrow> (if k = (fst e, fst (snd e)) then Some (snd (snd e)) else None)
      | Some v \<Rightarrow> Some v)"
  by (simp add: store_keys_def map_add_def split: option.splits)

lemma store_keys_None_iff:
  "store_keys es k = None \<longleftrightarrow> (\<forall>e\<in>set es. (fst e, fst (snd e)) \<noteq> k)"
  by (induction es) (auto simp: store_keys_Cons split: option.splits)

text \<open>When every store under a key writes the same value, that value is read.\<close>

lemma store_keys_uniform:
  assumes "\<forall>e\<in>set es. (fst e, fst (snd e)) = k \<longrightarrow> snd (snd e) = v"
    and "\<exists>e\<in>set es. (fst e, fst (snd e)) = k"
  shows "store_keys es k = Some v"
  using assms
proof (induction es)
  case Nil
  then show ?case by simp
next
  case (Cons e es)
  show ?case
  proof (cases "\<exists>e\<in>set es. (fst e, fst (snd e)) = k")
    case True
    with Cons show ?thesis by (simp add: store_keys_Cons)
  next
    case False
    then have "store_keys es k = None" by (simp add: store_keys_None_iff)
    with Cons.prems False show ?thesis by (auto simp: store_keys_Cons)
  qed
qed

text \<open>A loop whose body may raise or run forever (a \<open>'s result option\<close>, with
  \<open>None\<close> for a body that does not return).\<close>

fun ofold :: "('a \<Rightarrow> 's \<Rightarrow> 's result option) \<Rightarrow> 'a list \<Rightarrow> 's \<Rightarrow> 's result option" where
  "ofold f [] s = Some (Inr s)"
| "ofold f (x # xs) s =
     (case f x s of None \<Rightarrow> None | Some (Inl e) \<Rightarrow> Some (Inl e) | Some (Inr s') \<Rightarrow> ofold f xs s')"

definition obind :: "'a result option \<Rightarrow> ('a \<Rightarrow> 'b result option) \<Rightarrow> 'b result option" where
  "obind r f = (case r of None \<Rightarrow> None | Some (Inl e) \<Rightarrow> Some (Inl e) | Some (Inr a) \<Rightarrow> f a)"

lemma obind_simps [simp]:
  "obind None f = None" "obind (Some (Inl e)) f = Some (Inl e)" "obind (Some (Inr a)) f = f a"
  by (simp_all add: obind_def)

lemma obind_eq_Inr_iff:
  "obind r f = Some (Inr b) \<longleftrightarrow> (\<exists>a. r = Some (Inr a) \<and> f a = Some (Inr b))"
  by (auto simp: obind_def split: option.splits sum.splits)

lemma ofold_append: "ofold f (xs @ ys) s = obind (ofold f xs s) (ofold f ys)"
  by (induction xs arbitrary: s) (auto simp: obind_def split: option.splits sum.splits)

text \<open>A loop whose every step returns returns.\<close>

lemma ofold_all_Inr:
  assumes "\<forall>x\<in>set xs. \<forall>s. \<exists>s'. f x s = Some (Inr s')"
  shows "\<exists>s'. ofold f xs s = Some (Inr s')"
  using assms
proof (induction xs arbitrary: s)
  case Nil
  then show ?case by simp
next
  case (Cons x xs)
  from Cons.prems have "\<forall>s. \<exists>s'. f x s = Some (Inr s')" by simp
  then obtain s' where "f x s = Some (Inr s')" by blast
  with Cons.IH Cons.prems show ?case by simp
qed

text \<open>A loop whose steps before \<open>y\<close> all return and whose step \<open>y\<close> raises
  raises that error.\<close>

lemma ofold_stops:
  assumes "\<forall>x\<in>set xs. \<forall>s. \<exists>s'. f x s = Some (Inr s')" and "\<forall>s. f y s = Some (Inl e)"
  shows "ofold f (xs @ y # ys) s = Some (Inl e)"
  using assms(1)
proof (induction xs arbitrary: s)
  case Nil
  then show ?case using assms(2) by simp
next
  case (Cons x xs)
  from Cons.prems have "\<forall>s. \<exists>s'. f x s = Some (Inr s')" by simp
  then obtain s' where "f x s = Some (Inr s')" by blast
  with Cons.IH Cons.prems show ?case by simp
qed

text \<open>An invariant of the state kept by every step of a loop that returns.\<close>

lemma ofold_invariant:
  assumes "ofold f xs s = Some (Inr s')" and "P s"
    and "\<And>x t t'. x \<in> set xs \<Longrightarrow> f x t = Some (Inr t') \<Longrightarrow> P t \<Longrightarrow> P t'"
  shows "P s'"
  using assms
proof (induction xs arbitrary: s)
  case Nil
  then show ?case by simp
next
  case (Cons x xs)
  then obtain t where "f x s = Some (Inr t)" and "ofold f xs t = Some (Inr s')"
    by (auto split: option.splits sum.splits)
  with Cons show ?case by (metis list.set_intros(1) list.set_intros(2))
qed

end
