(* ===== verification/Python.thy ===== *)
theory Python
  imports Prelude
begin

text \<open>
  The Python builtins the scripts apply to strings and numbers, written out as
  executable HOL functions: \<open>str()\<close> of an integer (\<open>int_str\<close>), \<open>float()\<close> of a
  decimal string (\<open>py_float\<close>), \<open>str.replace\<close> of one character by another,
  \<open>str.find\<close> (\<open>py_find\<close>, -1 when absent) and the slice \<open>s[a:b]\<close>
  (\<open>py_slice\<close>, with Python's clamping and negative indices). They are the
  language's semantics, not code of the repository. The central fact is the round
  trip \<open>py_float (int_str i) = Inr (of_int i)\<close>: the mass labels of the grid,
  printed and parsed again, give back their value.
\<close>

subsection \<open>Decimal printing\<close>

definition digit_chr :: "nat \<Rightarrow> char" where
  "digit_chr d = char_of (48 + d)"

fun nat_str :: "nat \<Rightarrow> string" where
  "nat_str n = (if n < 10 then [digit_chr n] else nat_str (n div 10) @ [digit_chr (n mod 10)])"

declare nat_str.simps [simp del]

definition int_str :: "int \<Rightarrow> string" where
  "int_str i = (if i < 0 then CHR ''-'' # nat_str (nat (- i)) else nat_str (nat i))"

subsection \<open>Decimal parsing\<close>

definition is_dec_digit :: "char \<Rightarrow> bool" where
  "is_dec_digit c \<longleftrightarrow> (48::nat) \<le> of_char c \<and> of_char c \<le> (57::nat)"

definition digit_val :: "char \<Rightarrow> nat" where
  "digit_val c = of_char c - (48::nat)"

definition digits_val :: "string \<Rightarrow> nat option" where
  "digits_val s =
     (if s \<noteq> [] \<and> list_all is_dec_digit s
      then Some (foldl (\<lambda>acc c. 10 * acc + digit_val c) 0 s) else None)"

text \<open>\<open>float(s)\<close> on an optionally signed decimal string \<open>d[.d]\<close>; any other
  string raises ValueError. Exponent and special syntaxes that Python also accepts
  never occur among the strings the scripts convert.\<close>

definition unsigned_float :: "string \<Rightarrow> real option" where
  "unsigned_float s =
     (let ip = takeWhile (\<lambda>c. c \<noteq> CHR ''.'') s; rest = dropWhile (\<lambda>c. c \<noteq> CHR ''.'') s in
      case digits_val ip of
        None \<Rightarrow> None
      | Some a \<Rightarrow>
          (if rest = [] then Some (real a)
           else case digits_val (tl rest) of
                  None \<Rightarrow> None
                | Some b \<Rightarrow> Some (real a + real b / 10 ^ length (tl rest))))"

definition py_float :: "string \<Rightarrow> real result" where
  "py_float s =
     (case (if s \<noteq> [] \<and> hd s = CHR ''-'' then map_option uminus (unsigned_float (tl s))
            else unsigned_float s) of
        None \<Rightarrow> Inl (ValueError s)
      | Some r \<Rightarrow> Inr r)"

definition replace_char :: "char \<Rightarrow> char \<Rightarrow> string \<Rightarrow> string" where
  "replace_char a b s = map (\<lambda>c. if c = a then b else c) s"

text \<open>\<open>int(x)\<close> of a float truncates towards zero.\<close>

definition py_int :: "real \<Rightarrow> int" where
  "py_int x = (if 0 \<le> x then \<lfloor>x\<rfloor> else \<lceil>x\<rceil>)"

subsection \<open>Searching and slicing\<close>

fun find_at :: "string \<Rightarrow> string \<Rightarrow> nat \<Rightarrow> int" where
  "find_at [] sub i = (if sub = [] then int i else -1)"
| "find_at (c # cs) sub i = (if take (length sub) (c # cs) = sub then int i else find_at cs sub (Suc i))"

definition py_find :: "string \<Rightarrow> string \<Rightarrow> int" where
  "py_find s sub = find_at s sub 0"

definition slice_index :: "int \<Rightarrow> nat \<Rightarrow> nat" where
  "slice_index i n = nat (if i < 0 then max 0 (int n + i) else min (int n) i)"

definition py_slice :: "'a list \<Rightarrow> int \<Rightarrow> int \<Rightarrow> 'a list" where
  "py_slice xs a b =
     (let i = slice_index a (length xs); j = slice_index b (length xs) in take (j - i) (drop i xs))"

subsection \<open>Lemmas\<close>

text \<open>The ten digit characters, so that \<open>simp\<close> prints numerals.\<close>

lemma digit_chr_values [simp]:
  "digit_chr 0 = CHR ''0''" "digit_chr 1 = CHR ''1''" "digit_chr 2 = CHR ''2''"
  "digit_chr 3 = CHR ''3''" "digit_chr 4 = CHR ''4''" "digit_chr 5 = CHR ''5''"
  "digit_chr 6 = CHR ''6''" "digit_chr 7 = CHR ''7''" "digit_chr 8 = CHR ''8''"
  "digit_chr 9 = CHR ''9''"
  by code_simp+

lemma replace_char_Nil [simp]: "replace_char a b [] = []"
  by (simp add: replace_char_def)

lemma replace_char_Cons [simp]:
  "replace_char a b (c # s) = (if c = a then b else c) # replace_char a b s"
  by (simp add: replace_char_def)

lemma of_char_digit_chr [simp]: "d < 10 \<Longrightarrow> of_char (digit_chr d) = 48 + d"
  by (simp add: digit_chr_def)

lemma is_dec_digit_digit_chr [simp]: "d < 10 \<Longrightarrow> is_dec_digit (digit_chr d)"
  by (simp add: is_dec_digit_def)

lemma digit_val_digit_chr [simp]: "d < 10 \<Longrightarrow> digit_val (digit_chr d) = d"
  by (simp add: digit_val_def)

lemma nat_str_nonempty [simp]: "nat_str n \<noteq> []"
  by (subst nat_str.simps) simp

lemma nat_str_digits: "list_all is_dec_digit (nat_str n)"
proof (induction n rule: nat_str.induct)
  case (1 n)
  then show ?case by (subst nat_str.simps) auto
qed

lemma foldl_nat_str:
  "foldl (\<lambda>acc c. 10 * acc + digit_val c) 0 (nat_str n) = n"
proof (induction n rule: nat_str.induct)
  case (1 n)
  show ?case
  proof (cases "n < 10")
    case True
    then show ?thesis by (subst nat_str.simps) simp
  next
    case False
    with "1.IH" show ?thesis by (subst nat_str.simps) simp
  qed
qed

text \<open>Printing and parsing digits are inverse.\<close>

lemma digits_val_nat_str [simp]: "digits_val (nat_str n) = Some n"
  by (simp add: digits_val_def nat_str_digits foldl_nat_str)

lemma nat_str_no_dot: "CHR ''.'' \<notin> set (nat_str n)"
proof -
  have "\<forall>c\<in>set (nat_str n). is_dec_digit c" using nat_str_digits by (simp add: list_all_iff)
  moreover have "\<not> is_dec_digit (CHR ''.'')" by (simp add: is_dec_digit_def)
  ultimately show ?thesis by blast
qed

lemma nat_str_not_minus: "hd (nat_str n) \<noteq> CHR ''-''"
proof -
  have "\<forall>c\<in>set (nat_str n). is_dec_digit c" using nat_str_digits by (simp add: list_all_iff)
  then have "is_dec_digit (hd (nat_str n))" by simp
  then show ?thesis by (auto simp: is_dec_digit_def)
qed

lemma unsigned_float_nat_str [simp]: "unsigned_float (nat_str n) = Some (real n)"
proof -
  have t: "takeWhile (\<lambda>c. c \<noteq> CHR ''.'') (nat_str n) = nat_str n"
    using nat_str_no_dot by (simp add: takeWhile_eq_all_conv) blast
  have d: "dropWhile (\<lambda>c. c \<noteq> CHR ''.'') (nat_str n) = []"
    using nat_str_no_dot by (simp add: dropWhile_eq_Nil_conv) blast
  show ?thesis by (simp add: unsigned_float_def Let_def t d)
qed

text \<open>The round trip \<open>float(str(i)) = i\<close> for every Python integer.\<close>

lemma py_float_int_str [simp]: "py_float (int_str i) = Inr (of_int i)"
proof (cases "i < 0")
  case True
  then show ?thesis by (simp add: py_float_def int_str_def)
next
  case False
  then show ?thesis by (simp add: py_float_def int_str_def nat_str_not_minus)
qed

text \<open>Distinct integers print differently: \<open>str()\<close> is injective on integers.\<close>

lemma int_str_eq_iff [simp]: "int_str i = int_str j \<longleftrightarrow> i = j"
proof
  assume "int_str i = int_str j"
  then have "py_float (int_str i) = py_float (int_str j)" by simp
  then show "i = j" by simp
qed simp

lemma find_at_bounds: "find_at s sub i = -1 \<or> (int i \<le> find_at s sub i \<and> find_at s sub i \<le> int (i + length s))"
  by (induction s sub i rule: find_at.induct) auto

end
