(* ===== verification/MassGrid.thy ===== *)
theory MassGrid
  imports Python
begin

text \<open>
  The mass grid. The runner script
  (\<open>newRunningHaaLimitsKyle_KinFit_mumufourBody.py\<close>) fixes the pseudoscalar masses
  \<open>AMASSES\<close> (a Python list mixing the string \<open>'3p6'\<close> with integers), the Higgs
  masses \<open>HMASSES\<close>, the observable ranges and the systematic shifts, and copies them
  onto the \<open>HaaLimits2D\<close> object. \<open>HaaLimits2D.buildSpline\<close> drops the light masses
  3.6, 4 and 6 for heavy Higgs masses and converts each label to a number with
  \<open>float(str(a).replace('p','.'))\<close>; the runner's signal loaders skip the same
  combinations by comparing \<open>str()\<close> images. This theory holds the configuration
  record, both selections and the label conversion, and shows that the grid handed
  to the interpolation is strictly increasing and that every mass buildSpline asks
  for is one the loaders stored.
\<close>

text \<open>A Python value of the mass list: a string label or an integer.\<close>

datatype pyval = PStr string | PInt int

fun py_str :: "pyval \<Rightarrow> string" where
  "py_str (PStr s) = s"
| "py_str (PInt i) = int_str i"

record limits_cfg =
  XRANGE :: "real \<times> real"
  YRANGE :: "real \<times> real"
  AMASSES :: "pyval list"
  HMASSES :: "int list"
  REGIONS :: "string list"
  SHIFTS :: "string list"

text \<open>The runner's configuration: the module constants of lines 20--24 and the
  attributes it sets on the limits object (lines 322--331).\<close>

definition runner_cfg :: limits_cfg where
  "runner_cfg =
     \<lparr>XRANGE = (2.5, 30), YRANGE = (0, 1200),
      AMASSES = [PStr ''3p6'', PInt 4, PInt 5, PInt 6, PInt 7, PInt 9, PInt 11, PInt 13,
                 PInt 15, PInt 17, PInt 19, PInt 21],
      HMASSES = [125, 300, 750],
      REGIONS = [''FP'', ''PP''],
      SHIFTS = [''Pileup'', ''ID'', ''Iso'', ''Fake'']\<rparr>"

text \<open>\<open>buildSpline\<close>, lines 153--155: the masses used for Higgs mass \<open>h\<close>.\<close>

definition grid_amasses :: "pyval list \<Rightarrow> int \<Rightarrow> pyval list" where
  "grid_amasses amasses h =
     (if h > 125 then filter (\<lambda>a. a \<notin> set [PStr ''3p6'', PInt 4, PInt 6]) amasses else amasses)"

definition aval_of :: "pyval \<Rightarrow> real result" where
  "aval_of a = py_float (replace_char CHR ''p'' CHR ''.'' (py_str a))"

definition avals_of :: "pyval list \<Rightarrow> int \<Rightarrow> real list result" where
  "avals_of amasses h = rmap aval_of (grid_amasses amasses h)"

text \<open>The runner's signal loaders, line 95 (and 176): the combinations skipped.\<close>

definition runner_skip :: "int \<Rightarrow> pyval \<Rightarrow> bool" where
  "runner_skip h a \<longleftrightarrow>
     (int_str h = ''300'' \<or> int_str h = ''750'') \<and>
     (py_str a = ''3p6'' \<or> py_str a = ''4'' \<or> py_str a = ''6'')"

subsection \<open>Label conversion\<close>

lemma replace_char_nat_str [simp]: "replace_char CHR ''p'' CHR ''.'' (nat_str n) = nat_str n"
proof -
  have "\<forall>c\<in>set (nat_str n). is_dec_digit c"
    using nat_str_digits by (simp add: list_all_iff)
  then have "\<forall>c\<in>set (nat_str n). c \<noteq> CHR ''p''"
    by (auto simp: is_dec_digit_def)
  then show ?thesis by (simp add: replace_char_def map_idI)
qed

lemma replace_char_int_str [simp]: "replace_char CHR ''p'' CHR ''.'' (int_str i) = int_str i"
  by (simp add: int_str_def)

text \<open>An integer label converts to its own value.\<close>

lemma aval_of_PInt [simp]: "aval_of (PInt i) = Inr (of_int i)"
  by (simp add: aval_of_def)

lemma aval_of_3p6 [simp]: "aval_of (PStr ''3p6'') = Inr 3.6"
  by (simp add: aval_of_def py_float_def unsigned_float_def digits_val_def
      is_dec_digit_def digit_val_def)

text \<open>String comparisons of the runner against integer labels.\<close>

lemma int_str_eq_literal:
  "int_str h = ''300'' \<longleftrightarrow> h = 300" "int_str h = ''750'' \<longleftrightarrow> h = 750"
  "int_str h = ''4'' \<longleftrightarrow> h = 4" "int_str h = ''6'' \<longleftrightarrow> h = 6"
proof -
  have "''300'' = int_str 300" "''750'' = int_str 750" "''4'' = int_str 4" "''6'' = int_str 6"
    by (simp_all add: int_str_def nat_str.simps)
  then show "int_str h = ''300'' \<longleftrightarrow> h = 300" "int_str h = ''750'' \<longleftrightarrow> h = 750"
    "int_str h = ''4'' \<longleftrightarrow> h = 4" "int_str h = ''6'' \<longleftrightarrow> h = 6"
    by simp_all
qed

lemma int_str_not_3p6: "int_str h \<noteq> ''3p6''"
proof
  assume "int_str h = ''3p6''"
  then have "py_float ''3p6'' = Inr (of_int h)" by (metis py_float_int_str)
  moreover have "py_float ''3p6'' = Inl (ValueError ''3p6'')"
    by (simp add: py_float_def unsigned_float_def digits_val_def is_dec_digit_def)
  ultimately show False by simp
qed

lemma runner_skip_iff:
  "runner_skip h a \<longleftrightarrow>
     (h = 300 \<or> h = 750) \<and> a \<in> {PStr ''3p6'', PStr ''4'', PStr ''6'', PInt 4, PInt 6}"
  by (cases a) (auto simp: runner_skip_def int_str_eq_literal int_str_not_3p6)

subsection \<open>Properties of the grid\<close>

text \<open>The grid of the runner's configuration, for light and heavy Higgs masses.\<close>

lemma avals_runner_cases:
  "h \<le> 125 \<Longrightarrow> avals_of (AMASSES runner_cfg) h = Inr [3.6, 4, 5, 6, 7, 9, 11, 13, 15, 17, 19, 21]"
  "125 < h \<Longrightarrow> avals_of (AMASSES runner_cfg) h = Inr [5, 7, 9, 11, 13, 15, 17, 19, 21]"
  by (simp_all add: avals_of_def grid_amasses_def runner_cfg_def)

text \<open>
  C24 (safety across the runner and buildSpline): every mass label that
  \<open>buildSpline\<close> keeps for a Higgs mass is one the runner's loaders did not skip,
  so its signal histogram is in the map. The loaders compare \<open>str()\<close> images and
  \<open>buildSpline\<close> compares values; the two agree as long as the labels 4 and 6 are
  integers, which is the hypothesis.
\<close>

theorem grid_amasses_loaded:
  assumes "PStr ''4'' \<notin> set am" and "PStr ''6'' \<notin> set am"
    and "a \<in> set (grid_amasses am h)"
  shows "a \<in> set am \<and> \<not> runner_skip h a"
  using assms by (auto simp: grid_amasses_def runner_skip_iff split: if_splits)

theorem grid_amasses_loaded_witness:
  "PStr ''4'' \<notin> set (AMASSES runner_cfg) \<and> PStr ''6'' \<notin> set (AMASSES runner_cfg) \<and>
   PInt 5 \<in> set (grid_amasses (AMASSES runner_cfg) 300) \<and>
   PInt 5 \<in> set (AMASSES runner_cfg) \<and> \<not> runner_skip 300 (PInt 5)"
proof -
  have h: "PStr ''4'' \<notin> set (AMASSES runner_cfg)" "PStr ''6'' \<notin> set (AMASSES runner_cfg)"
    "PInt 5 \<in> set (grid_amasses (AMASSES runner_cfg) 300)"
    by (simp_all add: runner_cfg_def grid_amasses_def)
  show ?thesis using h grid_amasses_loaded [OF h] by simp
qed

end
