(* ===== verification/Loaders.thy ===== *)
theory Loaders
  imports MassGrid
begin

text \<open>
  The loaders of the runner script
  (\<open>newRunningHaaLimitsKyle_KinFit_mumufourBody.py\<close>, lines 29--306): they open ROOT
  files, read datasets or histograms by name and store them in the three-level
  histogram map \<open>dictionary[region][shift][process]\<close> that \<open>HaaLimits2D\<close> receives.
  A stored object is described by its provenance (\<open>rootobj\<close>): the file and key it
  was read from, wrapped by \<open>getDataset\<close> (lines 29--39, a RooDataSet with the
  given weight, selection and ranges) or by \<open>getTH1F\<close> (lines 41--56, a copy of a
  histogram with the bins outside a window emptied). The bin loop of \<open>getTH1F\<close> is
  modelled on a uniform histogram (\<open>th1\<close>), which is what the code assumes when
  it reads the width of bin 3 for every bin.
\<close>

datatype rootobj =
    FileGet string string
  | DataSet rootobj string string "real list" "real list"
  | TH1Copy rootobj real real

text \<open>\<open>getDataset(ds, weight='w', selection='1', xRange=[], yRange=[])\<close>.\<close>

definition getDataset :: "rootobj \<Rightarrow> string \<Rightarrow> string \<Rightarrow> real list \<Rightarrow> real list \<Rightarrow> rootobj" where
  "getDataset ds weight selection xRange yRange = DataSet ds weight selection xRange yRange"

subsection \<open>The bin loop of getTH1F\<close>

record th1 =
  th1_nbins :: nat
  th1_xmin :: real
  th1_xmax :: real
  th1_content :: "nat \<Rightarrow> real"
  th1_error :: "nat \<Rightarrow> real"

definition bin_width :: "th1 \<Rightarrow> real" where
  "bin_width hist = (th1_xmax hist - th1_xmin hist) / real (th1_nbins hist)"

text \<open>\<open>GetBinCenter(i)\<close> of a uniform axis; bin 0 is the underflow bin.\<close>

definition bin_center :: "th1 \<Rightarrow> nat \<Rightarrow> real" where
  "bin_center hist i = th1_xmin hist + (real i - 1 / 2) * bin_width hist"

text \<open>Lines 42--55: a new, empty histogram with the same axis, then
  \<open>for i in range(hist.GetNbinsX())\<close> copy bin \<open>i\<close> when it overlaps
  \<open>(xMin, xMax)\<close> and clear it otherwise.\<close>

definition getTH1F_step :: "th1 \<Rightarrow> real \<Rightarrow> real \<Rightarrow> th1 \<Rightarrow> nat \<Rightarrow> th1" where
  "getTH1F_step hist xMin xMax newHist i =
     (let width = bin_width hist;
          upperEdge = bin_center hist i + width / 2;
          lowerEdge = bin_center hist i - width / 2 in
      if upperEdge > xMin \<and> lowerEdge < xMax
      then newHist\<lparr>th1_content := (th1_content newHist)(i := th1_content hist i),
                   th1_error := (th1_error newHist)(i := th1_error hist i)\<rparr>
      else newHist\<lparr>th1_content := (th1_content newHist)(i := 0),
                   th1_error := (th1_error newHist)(i := 0)\<rparr>)"

definition getTH1F_hist :: "th1 \<Rightarrow> real \<Rightarrow> real \<Rightarrow> th1" where
  "getTH1F_hist hist xMin xMax =
     foldl (getTH1F_step hist xMin xMax)
       \<lparr>th1_nbins = th1_nbins hist, th1_xmin = th1_xmin hist, th1_xmax = th1_xmax hist,
        th1_content = (\<lambda>i. 0), th1_error = (\<lambda>i. 0)\<rparr>
       [0..<th1_nbins hist]"

text \<open>Line 56: the copy is stored as \<open>dic[region][shift][name]\<close>.\<close>

definition getTH1F :: "rootobj \<Rightarrow> rootobj dict3 \<Rightarrow> real \<Rightarrow> real \<Rightarrow> string \<Rightarrow> string \<Rightarrow> string \<Rightarrow>
    rootobj dict3 result" where
  "getTH1F hist dic xMin xMax shift name region = setitem3 dic region shift name (TH1Copy hist xMin xMax)"

subsection \<open>The data loaders\<close>

text \<open>The module constants the loaders read (lines 20--24) and the selection string
  \<open>'x <= ' + str(XRANGE[1]) + ' && x >= ' + str(XRANGE[0])\<close>, with
  \<open>str(30) = '30'\<close> and \<open>str(2.5) = '2.5'\<close>.\<close>

definition runner_xrange :: "real list" where
  "runner_xrange = [2.5, 30]"

definition runner_yrange :: "real list" where
  "runner_yrange = [0, 1200]"

definition data_selection :: string where
  "data_selection = ''x <= '' @ int_str 30 @ '' && x >= '' @ ''2.5''"

definition f_FRC :: string where
  "f_FRC = ''/eos/cms/store/user/ktos/ShapeDifferences/FINAL_RooDataSet_MiniAOD_SingleMu_MedIsoMu2_TauDMAntiMedIso_SEP2_AFromB_Plots.root''"

definition f_FRD :: string where
  "f_FRD = ''/eos/cms/store/user/ktos/ShapeDifferences/FINAL_RooDataSet_MiniAOD_SingleMu_MedIsoMu2_TauDMAntiMedIso_SEP2_AFromBDOWN_Plots.root''"

definition f_FRU :: string where
  "f_FRU = ''/eos/cms/store/user/ktos/ShapeDifferences/FINAL_RooDataSet_MiniAOD_SingleMu_MedIsoMu2_TauDMAntiMedIso_SEP2_AFromBUP_Plots.root''"

definition f_RegionB :: string where
  "f_RegionB = ''/eos/cms/store/user/ktos/ShapeDifferences/MiniAOD_SingleMu_MedIsoMu2_TauDMAntiMedIso_SEP2_BItself_Plots.root''"

text \<open>The stores of a data loader: the same objects as \<open>data\<close> and \<open>dataNoSig\<close>.\<close>

definition data_entries :: "rootobj \<Rightarrow> rootobj \<Rightarrow> rootobj \<Rightarrow> (string \<times> string \<times> rootobj) list" where
  "data_entries c u d =
     [('''', ''data'', c), (''FakeUp'', ''data'', u), (''FakeDown'', ''data'', d),
      ('''', ''dataNoSig'', c), (''FakeUp'', ''dataNoSig'', u), (''FakeDown'', ''dataNoSig'', d)]"

text \<open>\<open>GetPPData\<close>, lines 58--85. In the histogram branch the \<open>FakeUp\<close>
  histogram is read from \<open>f_FRC\<close>, the central file (line 79).\<close>

definition GetPPData :: "rootobj dict3 \<Rightarrow> real list \<Rightarrow> real list \<Rightarrow> bool \<Rightarrow> rootobj dict3 result" where
  "GetPPData dictionary xRange yRange rooDataSet =
     (if rooDataSet then
        (let C = getDataset (FileGet f_FRC ''mumufourBodymass_dataset'') ''w'' data_selection xRange yRange;
             D = getDataset (FileGet f_FRD ''mumufourBodymass_dataset'') ''w'' data_selection xRange yRange;
             U = getDataset (FileGet f_FRU ''mumufourBodymass_dataset'') ''w'' data_selection xRange yRange in
         store_all dictionary ''PP'' (data_entries C U D))
      else
        (let C = FileGet f_FRC ''mumu_Mass''; D = FileGet f_FRD ''mumu_Mass''; U = FileGet f_FRC ''mumu_Mass'' in
         rfold (\<lambda>c d. getTH1F (fst c) d (runner_xrange ! 0) (runner_xrange ! 1) (fst (snd c)) (snd (snd c)) ''PP'')
           [(C, '''', ''data''), (D, ''FakeDown'', ''data''), (U, ''FakeUp'', ''data''),
            (C, '''', ''dataNoSig''), (D, ''FakeDown'', ''dataNoSig''), (U, ''FakeUp'', ''dataNoSig'')]
           dictionary))"

text \<open>\<open>GetFPData\<close>, lines 147--166: one file for all three shifts.\<close>

definition GetFPData :: "rootobj dict3 \<Rightarrow> real list \<Rightarrow> real list \<Rightarrow> bool \<Rightarrow> rootobj dict3 result" where
  "GetFPData dictionary xRange yRange rooDataSet =
     (if rooDataSet then
        (let B = getDataset (FileGet f_RegionB ''mumufourBodymass_dataset'') ''w'' data_selection xRange yRange in
         store_all dictionary ''FP'' (data_entries B B B))
      else
        (let B = FileGet f_RegionB ''mumu_Mass'' in
         rfold (\<lambda>c d. getTH1F B d (runner_xrange ! 0) (runner_xrange ! 1) (fst c) (snd c) ''FP'')
           [('''', ''data''), (''FakeUp'', ''data''), (''FakeDown'', ''data''),
            ('''', ''dataNoSig''), (''FakeUp'', ''dataNoSig''), (''FakeDown'', ''dataNoSig'')]
           dictionary))"

subsection \<open>The signal loaders\<close>

text \<open>The signal process name \<open>"HToAAH" + str(hMass) + "A" + str(aMass)\<close> and the
  object \<open>"SIG_h" + str(hMass) + "a" + str(aMass) + "_" + sel + "_SEP2_" + tag +
  "_Plots_fourBody"\<close> read for a systematic variation \<open>tag\<close>.\<close>

definition sig_name :: "int \<Rightarrow> pyval \<Rightarrow> string" where
  "sig_name h a = ''HToAAH'' @ int_str h @ ''A'' @ py_str a"

definition sig_obj :: "string \<Rightarrow> int \<Rightarrow> pyval \<Rightarrow> string \<Rightarrow> string" where
  "sig_obj sel h a tag = ''SIG_h'' @ int_str h @ ''a'' @ py_str a @ ''_'' @ sel @ ''_SEP2_'' @ tag @ ''_Plots_fourBody''"

text \<open>The shift under which each variation is stored: in the dataset branch all
  thirteen (lines 118--144), in the histogram branch the seven passed to
  \<open>getTH1F\<close> (lines 110--116).\<close>

definition roo_tags :: "(string \<times> string) list" where
  "roo_tags = [('''', ''Central''), (''IDUp'', ''IDUP''), (''IDDown'', ''IDDOWN''), (''IsoUp'', ''IsoUP''),
     (''IsoDown'', ''IsoDOWN''), (''PileupUp'', ''PileupUP''), (''PileupDown'', ''PileupDOWN''),
     (''QCD1'', ''QCD1''), (''QCD2'', ''QCD2''), (''QCD3'', ''QCD3''), (''QCD4'', ''QCD4''),
     (''QCD6'', ''QCD6''), (''QCD8'', ''QCD8'')]"

definition th1_tags :: "(string \<times> string) list" where
  "th1_tags = [('''', ''Central''), (''IDDown'', ''IDDOWN''), (''IDUp'', ''IDUP''), (''IsoDown'', ''IsoDOWN''),
     (''IsoUp'', ''IsoUP''), (''PileupDown'', ''PileupDOWN''), (''PileupUp'', ''PileupUP'')]"

text \<open>Lines 91--93: the \<open>y\<close> range of the datasets of a Higgs mass; for any other
  mass the value of the previous iteration (or the argument) is kept.\<close>

definition signal_yrange :: "real list \<Rightarrow> int \<Rightarrow> real list" where
  "signal_yrange yRange hMass =
     (if hMass = 125 then [20, 150] else if hMass = 300 then [40, 360]
      else if hMass = 750 then [140, 900] else yRange)"

text \<open>The stores of one mass point (lines 95--144).\<close>

definition sig_entries :: "string \<Rightarrow> string \<Rightarrow> bool \<Rightarrow> real list \<Rightarrow> int \<Rightarrow> pyval \<Rightarrow>
    (string \<times> string \<times> rootobj) list" where
  "sig_entries file sel rooDataSet yRange h a =
     (if \<not> rooDataSet
      then map (\<lambda>st. (fst st, sig_name h a, TH1Copy (FileGet file (sig_obj sel h a (snd st))) 0 30)) th1_tags
      else map (\<lambda>st. (fst st, sig_name h a,
                      getDataset (FileGet file (sig_obj sel h a (snd st))) ''w'' '''' [0, 30] yRange)) roo_tags)"

text \<open>The loop nest of \<open>GetPPSignal\<close> and \<open>GetFPSignal\<close>: over the Higgs masses,
  updating the \<open>y\<close> range, and over the pseudoscalar masses, skipping the
  combinations of line 95.\<close>

fun signal_loop :: "string \<Rightarrow> string \<Rightarrow> string \<Rightarrow> pyval list \<Rightarrow> bool \<Rightarrow> int list \<Rightarrow> real list \<Rightarrow>
    rootobj dict3 \<Rightarrow> rootobj dict3 result" where
  "signal_loop region file sel am rooDataSet [] yRange d = Inr d"
| "signal_loop region file sel am rooDataSet (h # hs) yRange d =
     (let yRange' = signal_yrange yRange h in
      rbind (rfold (\<lambda>a d. if runner_skip h a then Inr d
                         else store_all d region (sig_entries file sel rooDataSet yRange' h a)) am d)
        (signal_loop region file sel am rooDataSet hs yRange'))"

definition pp_signal_file :: string where
  "pp_signal_file = ''/eos/cms/store/user/ktos/ShapeDifferences/FINAL_AllRooDataSet_MedIsoMu2_TauDMMedIso_SEP2_WithQCD.root''"

definition fp_signal_file :: string where
  "fp_signal_file = ''/eos/cms/store/user/ktos/ShapeDifferences/FINAL_AllRooDataSet_MedIsoMu2_TauDMAntiMedIso_SEP2_WithQCD.root''"

definition GetPPSignal :: "limits_cfg \<Rightarrow> rootobj dict3 \<Rightarrow> real list \<Rightarrow> bool \<Rightarrow> rootobj dict3 result" where
  "GetPPSignal cfg dictionary yRange rooDataSet =
     signal_loop ''PP'' pp_signal_file ''MedIsoMu2_TauDMMedIso'' (AMASSES cfg) rooDataSet (HMASSES cfg) yRange dictionary"

definition GetFPSignal :: "limits_cfg \<Rightarrow> rootobj dict3 \<Rightarrow> real list \<Rightarrow> bool \<Rightarrow> rootobj dict3 result" where
  "GetFPSignal cfg dictionary yRange rooDataSet =
     signal_loop ''FP'' fp_signal_file ''MedIsoMu2_TauDMAntiMedIso'' (AMASSES cfg) rooDataSet (HMASSES cfg) yRange dictionary"

subsection \<open>The runner's histogram map\<close>

text \<open>Lines 229--306: every region starts with the fifteen shifts, each an empty
  dictionary; with \<open>IFCONTROL\<close> a region \<open>control\<close> holds the control dataset.\<close>

definition shift_keys :: "string list" where
  "shift_keys = ['''', ''IDUp'', ''IDDown'', ''PileupUp'', ''PileupDown'', ''IsoUp'', ''IsoDown'',
     ''FakeUp'', ''FakeDown'', ''QCD1'', ''QCD2'', ''QCD3'', ''QCD4'', ''QCD6'', ''QCD8'']"

definition empty_shifts :: "rootobj dict dict" where
  "empty_shifts = map_of (map (\<lambda>s. (s, Map.empty)) shift_keys)"

definition control_file :: string where
  "control_file = ''/eos/cms/store/user/ktos/ShapeDifferences/control.root''"

definition runner_dictionary :: "bool \<Rightarrow> rootobj dict3 result" where
  "runner_dictionary IFCONTROL =
     (if \<not> IFCONTROL then Inr [''PP'' \<mapsto> empty_shifts, ''FP'' \<mapsto> empty_shifts]
      else
        (let control = FileGet control_file ''mmMass'';
             d = [''PP'' \<mapsto> empty_shifts, ''FP'' \<mapsto> empty_shifts, ''control'' \<mapsto> ['''' \<mapsto> Map.empty]] in
         rbind (setitem3 d ''control'' '''' ''data'' control) (\<lambda>d.
           setitem3 d ''control'' '''' ''dataNoSig'' control)))"

text \<open>Lines 311--314: the four loaders, in the runner's order, all in the dataset
  branch.\<close>

definition runner_histmap :: "rootobj dict3 result" where
  "runner_histmap =
     rbind (runner_dictionary True) (\<lambda>d.
     rbind (GetPPSignal runner_cfg d runner_yrange True) (\<lambda>d.
     rbind (GetPPData d runner_xrange runner_yrange True) (\<lambda>d.
     rbind (GetFPData d runner_xrange runner_yrange True) (\<lambda>d.
     GetFPSignal runner_cfg d runner_yrange True))))"

subsection \<open>The bins of the copy\<close>

lemma getTH1F_step_axis [simp]:
  "th1_nbins (getTH1F_step hist xMin xMax nh i) = th1_nbins nh"
  "th1_xmin (getTH1F_step hist xMin xMax nh i) = th1_xmin nh"
  "th1_xmax (getTH1F_step hist xMin xMax nh i) = th1_xmax nh"
  by (simp_all add: getTH1F_step_def Let_def)

text \<open>The edges the loop computes from the centre and the width of bin 3 are the
  bin's true edges on a uniform axis.\<close>

lemma bin_edges:
  "bin_center hist i + bin_width hist / 2 = th1_xmin hist + real i * bin_width hist"
  "bin_center hist i - bin_width hist / 2 = th1_xmin hist + (real i - 1) * bin_width hist"
  by (simp_all add: bin_center_def algebra_simps)

lemma getTH1F_loop_content:
  "th1_content (foldl (getTH1F_step hist xMin xMax) nh [0..<n]) i =
     (if i < n then
        (if xMin < th1_xmin hist + real i * bin_width hist \<and> th1_xmin hist + (real i - 1) * bin_width hist < xMax
         then th1_content hist i else 0)
      else th1_content nh i)"
  by (induction n) (auto simp: getTH1F_step_def Let_def bin_edges)

text \<open>
  C22 (functional behaviour of \<open>getTH1F\<close>): bin \<open>i\<close> of the copy holds the
  original content exactly when \<open>i\<close> is below the number of bins and the bin
  overlaps the window \<open>(xMin, xMax)\<close>; every other bin is empty. The loop
  \<open>for i in range(hist.GetNbinsX())\<close> visits bins 0 to \<open>n - 1\<close>: it copies the
  underflow bin 0 when its edge lies in the window and never copies the last
  regular bin \<open>n\<close>, which stays empty whatever it held.
\<close>

theorem getTH1F_hist_content:
  "th1_content (getTH1F_hist hist xMin xMax) i =
     (if i < th1_nbins hist \<and> xMin < th1_xmin hist + real i * bin_width hist \<and>
         th1_xmin hist + (real i - 1) * bin_width hist < xMax
      then th1_content hist i else 0)"
  by (simp add: getTH1F_hist_def getTH1F_loop_content)

subsection \<open>The signal loop nest as one sequence of stores\<close>

text \<open>The assignments of the loop nest, in the order it performs them.\<close>

fun signal_entries :: "string \<Rightarrow> string \<Rightarrow> pyval list \<Rightarrow> bool \<Rightarrow> int list \<Rightarrow> real list \<Rightarrow>
    (string \<times> string \<times> rootobj) list" where
  "signal_entries file sel am rooDataSet [] yRange = []"
| "signal_entries file sel am rooDataSet (h # hs) yRange =
     (let yRange' = signal_yrange yRange h in
      concat (map (\<lambda>a. if runner_skip h a then [] else sig_entries file sel rooDataSet yRange' h a) am) @
      signal_entries file sel am rooDataSet hs yRange')"

lemma skip_loop_store_all:
  "rfold (\<lambda>a d. if P a then Inr d else store_all d r (f a)) am d =
   store_all d r (concat (map (\<lambda>a. if P a then [] else f a) am))"
proof (induction am arbitrary: d)
  case Nil
  then show ?case by simp
next
  case (Cons a am)
  have "rfold (\<lambda>a d. if P a then Inr d else store_all d r (f a)) am =
        (\<lambda>d. store_all d r (concat (map (\<lambda>a. if P a then [] else f a) am)))"
    using Cons.IH by (rule ext)
  then show ?case by (simp add: store_all_append)
qed

lemma signal_loop_flat:
  "signal_loop region file sel am rooDataSet hs yRange d =
   store_all d region (signal_entries file sel am rooDataSet hs yRange)"
proof (induction hs arbitrary: yRange d)
  case Nil
  then show ?case by simp
next
  case (Cons h hs)
  have "signal_loop region file sel am rooDataSet hs (signal_yrange yRange h) =
        (\<lambda>d. store_all d region (signal_entries file sel am rooDataSet hs (signal_yrange yRange h)))"
    using Cons.IH by (rule ext)
  then show ?case by (simp add: Let_def skip_loop_store_all store_all_append)
qed

subsection \<open>What the signal loaders store\<close>

lemma int_str_no_A: "CHR ''A'' \<notin> set (int_str h)"
proof -
  have "\<forall>c\<in>set (nat_str n). is_dec_digit c" for n using nat_str_digits by (simp add: list_all_iff)
  moreover have "\<not> is_dec_digit (CHR ''A'')" by (simp add: is_dec_digit_def)
  ultimately show ?thesis by (auto simp: int_str_def)
qed

text \<open>Distinct mass points have distinct process names.\<close>

lemma sig_name_inj: "sig_name h a = sig_name h' a' \<Longrightarrow> h = h' \<and> py_str a = py_str a'"
proof -
  assume "sig_name h a = sig_name h' a'"
  then have e: "int_str h @ CHR ''A'' # py_str a = int_str h' @ CHR ''A'' # py_str a'"
    by (simp add: sig_name_def)
  have tw: "takeWhile (\<lambda>c. c \<noteq> CHR ''A'') (int_str g @ CHR ''A'' # x) = int_str g" for g x
  proof -
    have "\<And>c. c \<in> set (int_str g) \<Longrightarrow> c \<noteq> CHR ''A''" using int_str_no_A [of g] by blast
    then show ?thesis by (subst takeWhile_append2) simp_all
  qed
  from e have "int_str h = int_str h'" using tw [of h "py_str a"] tw [of h' "py_str a'"] by metis
  with e show ?thesis by simp
qed

lemma sig_obj_py_str: "py_str a = py_str a' \<Longrightarrow> sig_obj sel h a tag = sig_obj sel h a' tag"
  by (simp add: sig_obj_def)

lemma signal_yrange_fixed: "h \<in> {125, 300, 750} \<Longrightarrow> signal_yrange y h = signal_yrange y' h"
  by (auto simp: signal_yrange_def)

lemma roo_tags_fun: "(s, t) \<in> set roo_tags \<Longrightarrow> (s, t') \<in> set roo_tags \<Longrightarrow> t = t'"
  by (auto simp: roo_tags_def)

lemma signal_entries_cases:
  "e \<in> set (signal_entries file sel am rooDataSet hs yRange) \<Longrightarrow>
   \<exists>h\<in>set hs. \<exists>a\<in>set am. \<exists>y. \<not> runner_skip h a \<and> e \<in> set (sig_entries file sel rooDataSet (signal_yrange y h) h a)"
  by (induction hs arbitrary: yRange) (auto simp: Let_def split: if_splits)

lemma signal_entries_mem:
  assumes "h \<in> set hs" and "h \<in> {125, 300, 750}" and "a \<in> set am" and "\<not> runner_skip h a"
    and "e \<in> set (sig_entries file sel rooDataSet (signal_yrange [] h) h a)"
  shows "e \<in> set (signal_entries file sel am rooDataSet hs yRange)"
  using assms(1)
proof (induction hs arbitrary: yRange)
  case Nil
  then show ?case by simp
next
  case (Cons h0 hs)
  show ?case
  proof (cases "h0 = h")
    case True
    then have "e \<in> set (sig_entries file sel rooDataSet (signal_yrange yRange h0) h0 a)"
      using assms(5) signal_yrange_fixed [OF assms(2), of yRange "[]"] by simp
    with True assms(3,4) show ?thesis by (auto simp: Let_def)
  next
    case False
    with Cons show ?thesis by (simp add: Let_def)
  qed
qed

text \<open>In the dataset branch, the name of a mass point under a shift of
  \<open>roo_tags\<close> holds the dataset of the matching variation, with the \<open>y\<close> range of
  its Higgs mass.\<close>

lemma signal_store_keys:
  assumes "set hs \<subseteq> {125, 300, 750}" and "h \<in> set hs" and "a \<in> set am" and "\<not> runner_skip h a"
    and "(s, tag) \<in> set roo_tags"
  shows "store_keys (signal_entries file sel am True hs yRange) (s, sig_name h a) =
         Some (getDataset (FileGet file (sig_obj sel h a tag)) ''w'' '''' [0, 30] (signal_yrange [] h))"
proof (rule store_keys_uniform)
  have hf: "h \<in> {125, 300, 750}" using assms(1,2) by blast
  show "\<exists>e\<in>set (signal_entries file sel am True hs yRange). (fst e, fst (snd e)) = (s, sig_name h a)"
  proof
    let ?e = "(s, sig_name h a, getDataset (FileGet file (sig_obj sel h a tag)) ''w'' '''' [0, 30] (signal_yrange [] h))"
    have "?e \<in> set (sig_entries file sel True (signal_yrange [] h) h a)"
      using assms(5) by (force simp: sig_entries_def)
    then show "?e \<in> set (signal_entries file sel am True hs yRange)"
      by (rule signal_entries_mem [OF assms(2) hf assms(3,4)])
  qed simp
  show "\<forall>e\<in>set (signal_entries file sel am True hs yRange). (fst e, fst (snd e)) = (s, sig_name h a) \<longrightarrow>
          snd (snd e) = getDataset (FileGet file (sig_obj sel h a tag)) ''w'' '''' [0, 30] (signal_yrange [] h)"
  proof (intro ballI impI)
    fix e assume e: "e \<in> set (signal_entries file sel am True hs yRange)"
      and k: "(fst e, fst (snd e)) = (s, sig_name h a)"
    from signal_entries_cases [OF e] obtain h' a' y st where
      "h' \<in> set hs" and st: "st \<in> set roo_tags"
      and ee: "e = (fst st, sig_name h' a', getDataset (FileGet file (sig_obj sel h' a' (snd st))) ''w'' '''' [0, 30]
                   (signal_yrange y h'))"
      by (auto simp: sig_entries_def)
    from k ee have "fst st = s" and "sig_name h' a' = sig_name h a" by simp_all
    then have hh: "h' = h" and aa: "py_str a' = py_str a" and tt: "snd st = tag"
      using sig_name_inj roo_tags_fun [of s "snd st" tag] st assms(5) by (metis prod.collapse)+
    show "snd (snd e) = getDataset (FileGet file (sig_obj sel h a tag)) ''w'' '''' [0, 30] (signal_yrange [] h)"
      using ee hh tt sig_obj_py_str [OF aa] signal_yrange_fixed [OF hf, of y "[]"] by simp
  qed
qed

lemma signal_store_keys_None:
  "s \<notin> fst ` set roo_tags \<Longrightarrow> store_keys (signal_entries file sel am True hs yRange) (s, k) = None"
  by (auto simp: store_keys_None_iff sig_entries_def dest!: signal_entries_cases)

lemma signal_store_keys_dataNoSig:
  "store_keys (signal_entries file sel am True hs yRange) (s, ''dataNoSig'') = None"
  by (auto simp: store_keys_None_iff sig_entries_def sig_name_def dest!: signal_entries_cases)

subsection \<open>The runner's histogram map\<close>

lemma map_of_const: "map_of (map (\<lambda>s. (s, v)) xs) s = (if s \<in> set xs then Some v else None)"
  by (induction xs) auto

lemma runner_dictionary_True:
  obtains d where "runner_dictionary True = Inr d"
    and "\<forall>r s. has_slot d r s \<longleftrightarrow> (r \<in> {''PP'', ''FP''} \<and> s \<in> set shift_keys) \<or> (r = ''control'' \<and> s = '''')"
    and "\<forall>r s k. lookup3 d r s k =
           (if r = ''control'' \<and> s = '''' \<and> (k = ''data'' \<or> k = ''dataNoSig'')
            then Some (FileGet control_file ''mmMass'') else None)"
  by (auto simp: runner_dictionary_def setitem3_def has_slot_def lookup3_def empty_shifts_def map_of_const Let_def)

lemma roo_tags_shifts: "fst ` set roo_tags \<subseteq> set shift_keys"
  by (simp add: roo_tags_def shift_keys_def)

lemma signal_entries_slots:
  "\<forall>s\<in>set shift_keys. has_slot d r s \<Longrightarrow>
   \<forall>e\<in>set (signal_entries file sel am True hs yRange). has_slot d r (fst e)"
  using roo_tags_shifts by (fastforce simp: sig_entries_def dest!: signal_entries_cases)

lemma data_entries_slots:
  "\<forall>s\<in>set shift_keys. has_slot d r s \<Longrightarrow> \<forall>e\<in>set (data_entries c u dn). has_slot d r (fst e)"
  by (simp add: data_entries_def shift_keys_def)

text \<open>The data of the runner, as \<open>GetPPData\<close> and \<open>GetFPData\<close> read them in the
  dataset branch.\<close>

definition runner_data :: "string \<Rightarrow> rootobj" where
  "runner_data file = getDataset (FileGet file ''mumufourBodymass_dataset'') ''w'' data_selection runner_xrange runner_yrange"

abbreviation pp_sig_entries :: "(string \<times> string \<times> rootobj) list" where
  "pp_sig_entries \<equiv> signal_entries pp_signal_file ''MedIsoMu2_TauDMMedIso'' (AMASSES runner_cfg) True (HMASSES runner_cfg) runner_yrange"

abbreviation fp_sig_entries :: "(string \<times> string \<times> rootobj) list" where
  "fp_sig_entries \<equiv> signal_entries fp_signal_file ''MedIsoMu2_TauDMAntiMedIso'' (AMASSES runner_cfg) True (HMASSES runner_cfg) runner_yrange"

lemma runner_histmap_Inr:
  obtains hm where "runner_histmap = Inr hm"
    and "\<forall>r s. has_slot hm r s \<longleftrightarrow> (r \<in> {''PP'', ''FP''} \<and> s \<in> set shift_keys) \<or> (r = ''control'' \<and> s = '''')"
    and "\<forall>s k. lookup3 hm ''PP'' s k =
           (case store_keys (data_entries (runner_data f_FRC) (runner_data f_FRU) (runner_data f_FRD)) (s, k) of
              Some v \<Rightarrow> Some v | None \<Rightarrow> store_keys pp_sig_entries (s, k))"
    and "\<forall>s k. lookup3 hm ''FP'' s k =
           (case store_keys fp_sig_entries (s, k) of
              Some v \<Rightarrow> Some v | None \<Rightarrow> store_keys (data_entries (runner_data f_RegionB) (runner_data f_RegionB) (runner_data f_RegionB)) (s, k))"
    and "\<forall>k. lookup3 hm ''control'' [] k =
           (if k = ''data'' \<or> k = ''dataNoSig'' then Some (FileGet control_file ''mmMass'') else None)"
proof -
  obtain d0 where r0: "runner_dictionary True = Inr d0"
    and h0: "\<forall>r s. has_slot d0 r s \<longleftrightarrow> (r \<in> {''PP'', ''FP''} \<and> s \<in> set shift_keys) \<or> (r = ''control'' \<and> s = '''')"
    and l0: "\<forall>r s k. lookup3 d0 r s k =
           (if r = ''control'' \<and> s = '''' \<and> (k = ''data'' \<or> k = ''dataNoSig'')
            then Some (FileGet control_file ''mmMass'') else None)"
    by (rule runner_dictionary_True)
  have pp0: "\<forall>s\<in>set shift_keys. has_slot d0 ''PP'' s" and fp0: "\<forall>s\<in>set shift_keys. has_slot d0 ''FP'' s"
    using h0 by simp_all
  obtain d1 where r1: "store_all d0 ''PP'' pp_sig_entries = Inr d1"
    and l1: "\<forall>r' s k. lookup3 d1 r' s k = (if r' = ''PP'' then (case store_keys pp_sig_entries (s, k) of
               None \<Rightarrow> lookup3 d0 r' s k | Some v \<Rightarrow> Some v) else lookup3 d0 r' s k)"
    and h1: "\<forall>r' s. has_slot d1 r' s = has_slot d0 r' s"
    using store_all_Inr [OF signal_entries_slots [OF pp0]] by blast
  let ?PD = "data_entries (runner_data f_FRC) (runner_data f_FRU) (runner_data f_FRD)"
  obtain d2 where r2: "store_all d1 ''PP'' ?PD = Inr d2"
    and l2: "\<forall>r' s k. lookup3 d2 r' s k = (if r' = ''PP'' then (case store_keys ?PD (s, k) of
               None \<Rightarrow> lookup3 d1 r' s k | Some v \<Rightarrow> Some v) else lookup3 d1 r' s k)"
    and h2: "\<forall>r' s. has_slot d2 r' s = has_slot d1 r' s"
  proof -
    have "\<forall>s\<in>set shift_keys. has_slot d1 ''PP'' s" using pp0 h1 by simp
    from store_all_Inr [OF data_entries_slots [OF this]] show ?thesis using that by blast
  qed
  let ?FD = "data_entries (runner_data f_RegionB) (runner_data f_RegionB) (runner_data f_RegionB)"
  obtain d3 where r3: "store_all d2 ''FP'' ?FD = Inr d3"
    and l3: "\<forall>r' s k. lookup3 d3 r' s k = (if r' = ''FP'' then (case store_keys ?FD (s, k) of
               None \<Rightarrow> lookup3 d2 r' s k | Some v \<Rightarrow> Some v) else lookup3 d2 r' s k)"
    and h3: "\<forall>r' s. has_slot d3 r' s = has_slot d2 r' s"
  proof -
    have "\<forall>s\<in>set shift_keys. has_slot d2 ''FP'' s" using fp0 h1 h2 by simp
    from store_all_Inr [OF data_entries_slots [OF this]] show ?thesis using that by blast
  qed
  obtain d4 where r4: "store_all d3 ''FP'' fp_sig_entries = Inr d4"
    and l4: "\<forall>r' s k. lookup3 d4 r' s k = (if r' = ''FP'' then (case store_keys fp_sig_entries (s, k) of
               None \<Rightarrow> lookup3 d3 r' s k | Some v \<Rightarrow> Some v) else lookup3 d3 r' s k)"
    and h4: "\<forall>r' s. has_slot d4 r' s = has_slot d3 r' s"
  proof -
    have "\<forall>s\<in>set shift_keys. has_slot d3 ''FP'' s" using fp0 h1 h2 h3 by simp
    from store_all_Inr [OF signal_entries_slots [OF this]] show ?thesis using that by blast
  qed
  have "runner_histmap = Inr d4"
    using r0 r1 r2 r3 r4
    by (simp add: runner_histmap_def GetPPSignal_def GetFPSignal_def GetPPData_def GetFPData_def signal_loop_flat runner_data_def Let_def)
  moreover have "\<forall>r s. has_slot d4 r s \<longleftrightarrow> (r \<in> {''PP'', ''FP''} \<and> s \<in> set shift_keys) \<or> (r = ''control'' \<and> s = '''')"
    using h0 h1 h2 h3 h4 by simp
  moreover have "\<forall>s k. lookup3 d4 ''PP'' s k =
           (case store_keys ?PD (s, k) of Some v \<Rightarrow> Some v | None \<Rightarrow> store_keys pp_sig_entries (s, k))"
    using l0 l1 l2 l3 l4 by (auto split: option.splits)
  moreover have "\<forall>s k. lookup3 d4 ''FP'' s k =
           (case store_keys fp_sig_entries (s, k) of Some v \<Rightarrow> Some v | None \<Rightarrow> store_keys ?FD (s, k))"
    using l0 l1 l2 l3 l4 by (auto split: option.splits)
  moreover have "\<forall>k. lookup3 d4 ''control'' [] k =
           (if k = ''data'' \<or> k = ''dataNoSig'' then Some (FileGet control_file ''mmMass'') else None)"
    using l0 l1 l2 l3 l4 by simp
  ultimately show ?thesis by (rule that)
qed

lemma lookup3_no_slot: "\<not> has_slot d r s \<Longrightarrow> lookup3 d r s k = None"
  by (simp add: has_slot_def lookup3_def split: option.splits)

lemma data_store_keys_sig_name: "store_keys (data_entries c u dn) (s, sig_name h a) = None"
  by (simp add: store_keys_None_iff data_entries_def sig_name_def)

text \<open>
  C21 (functional behaviour of the runner's signal loaders): the runner's loaders
  return without raising, and for each region, Higgs mass, pseudoscalar mass the
  loop does not skip and shift of the dataset branch, the map holds under
  \<open>HToAAH{h}A{a}\<close> the dataset read from that region's signal file under the
  name of the matching systematic variation (\<open>IDUp\<close> from \<open>..._IDUP_...\<close>, and
  so on), restricted to \<open>x\<close> in [0, 30] and to the \<open>y\<close> range of its Higgs mass.
\<close>

theorem runner_histmap_signal:
  assumes "r \<in> {''PP'', ''FP''}" and "h \<in> set (HMASSES runner_cfg)" and "a \<in> set (AMASSES runner_cfg)"
    and "\<not> runner_skip h a" and "(s, tag) \<in> set roo_tags"
  shows "\<exists>hm. runner_histmap = Inr hm \<and>
           lookup3 hm r s (sig_name h a) =
             Some (getDataset
                     (FileGet (if r = ''PP'' then pp_signal_file else fp_signal_file)
                        (sig_obj (if r = ''PP'' then ''MedIsoMu2_TauDMMedIso'' else ''MedIsoMu2_TauDMAntiMedIso'') h a tag))
                     ''w'' '''' [0, 30] (signal_yrange [] h))"
proof -
  have hs: "set (HMASSES runner_cfg) \<subseteq> {125, 300, 750}" by (simp add: runner_cfg_def)
  obtain hm where r: "runner_histmap = Inr hm"
    and pp: "\<forall>s k. lookup3 hm ''PP'' s k =
           (case store_keys (data_entries (runner_data f_FRC) (runner_data f_FRU) (runner_data f_FRD)) (s, k) of
              Some v \<Rightarrow> Some v | None \<Rightarrow> store_keys pp_sig_entries (s, k))"
    and fp: "\<forall>s k. lookup3 hm ''FP'' s k =
           (case store_keys fp_sig_entries (s, k) of
              Some v \<Rightarrow> Some v | None \<Rightarrow> store_keys (data_entries (runner_data f_RegionB) (runner_data f_RegionB) (runner_data f_RegionB)) (s, k))"
    by (rule runner_histmap_Inr) blast+
  note sk = signal_store_keys [OF hs assms(2,3,4,5)]
  have lpp: "lookup3 hm ''PP'' s (sig_name h a) =
      Some (getDataset (FileGet pp_signal_file (sig_obj ''MedIsoMu2_TauDMMedIso'' h a tag)) ''w'' '''' [0, 30] (signal_yrange [] h))"
    using pp [rule_format, of s "sig_name h a"] sk [of pp_signal_file "''MedIsoMu2_TauDMMedIso''" runner_yrange]
    by (simp add: data_store_keys_sig_name)
  have lfp: "lookup3 hm ''FP'' s (sig_name h a) =
      Some (getDataset (FileGet fp_signal_file (sig_obj ''MedIsoMu2_TauDMAntiMedIso'' h a tag)) ''w'' '''' [0, 30] (signal_yrange [] h))"
    using fp [rule_format, of s "sig_name h a"] sk [of fp_signal_file "''MedIsoMu2_TauDMAntiMedIso''" runner_yrange]
    by simp
  have "r = ''PP'' \<or> r = ''FP''" using assms(1) by simp
  then show ?thesis
  proof
    assume "r = ''PP''"
    then show ?thesis using r lpp by (intro exI [of _ hm]) simp
  next
    assume "r = ''FP''"
    then show ?thesis using r lfp by (intro exI [of _ hm]) simp
  qed
qed

theorem runner_histmap_signal_witness:
  "\<exists>hm. runner_histmap = Inr hm \<and>
     lookup3 hm ''PP'' ''IDUp'' (sig_name 125 (PStr ''3p6'')) =
       Some (getDataset (FileGet pp_signal_file (sig_obj ''MedIsoMu2_TauDMMedIso'' 125 (PStr ''3p6'') ''IDUP''))
               ''w'' '''' [0, 30] [20, 150])"
proof -
  have h1: "''PP'' \<in> {''PP'', ''FP''}" and h2: "125 \<in> set (HMASSES runner_cfg)"
    and h3: "PStr ''3p6'' \<in> set (AMASSES runner_cfg)" and h4: "\<not> runner_skip 125 (PStr ''3p6'')"
    and h5: "(''IDUp'', ''IDUP'') \<in> set roo_tags"
    by (simp_all add: runner_cfg_def runner_skip_iff roo_tags_def)
  show ?thesis using runner_histmap_signal [OF h1 h2 h3 h4 h5] by (simp add: signal_yrange_def)
qed

text \<open>
  C20 (the data a shifted signal model needs): in the runner's map the shifts
  \<open>FakeUp\<close> and \<open>FakeDown\<close> exist in both regions and hold the data (the
  \<open>FakeUp\<close> and \<open>FakeDown\<close> files in \<open>PP\<close>, region B in \<open>FP\<close>), but no signal
  process is stored under them in any region: the signal loaders store only the
  thirteen variations of \<open>roo_tags\<close>, while the runner lists \<open>Fake\<close> among the
  signal shifts (line 326).
\<close>

theorem runner_histmap_fake_no_signal:
  "\<exists>hm. runner_histmap = Inr hm \<and>
     has_slot hm ''PP'' ''FakeUp'' \<and> has_slot hm ''FP'' ''FakeUp'' \<and>
     lookup3 hm ''PP'' ''FakeUp'' ''data'' = Some (runner_data f_FRU) \<and>
     lookup3 hm ''FP'' ''FakeUp'' ''data'' = Some (runner_data f_RegionB) \<and>
     has_slot hm ''PP'' ''FakeDown'' \<and> has_slot hm ''FP'' ''FakeDown'' \<and>
     lookup3 hm ''PP'' ''FakeDown'' ''data'' = Some (runner_data f_FRD) \<and>
     lookup3 hm ''FP'' ''FakeDown'' ''data'' = Some (runner_data f_RegionB) \<and>
     (\<forall>r h a. lookup3 hm r ''FakeUp'' (sig_name h a) = None \<and> lookup3 hm r ''FakeDown'' (sig_name h a) = None)"
proof -
  obtain hm where r: "runner_histmap = Inr hm"
    and sl: "\<forall>r s. has_slot hm r s \<longleftrightarrow> (r \<in> {''PP'', ''FP''} \<and> s \<in> set shift_keys) \<or> (r = ''control'' \<and> s = '''')"
    and pp: "\<forall>s k. lookup3 hm ''PP'' s k =
           (case store_keys (data_entries (runner_data f_FRC) (runner_data f_FRU) (runner_data f_FRD)) (s, k) of
              Some v \<Rightarrow> Some v | None \<Rightarrow> store_keys pp_sig_entries (s, k))"
    and fp: "\<forall>s k. lookup3 hm ''FP'' s k =
           (case store_keys fp_sig_entries (s, k) of
              Some v \<Rightarrow> Some v | None \<Rightarrow> store_keys (data_entries (runner_data f_RegionB) (runner_data f_RegionB) (runner_data f_RegionB)) (s, k))"
    by (rule runner_histmap_Inr) blast+
  have nf: "''FakeUp'' \<notin> fst ` set roo_tags" "''FakeDown'' \<notin> fst ` set roo_tags"
    by (auto simp: roo_tags_def)
  have "lookup3 hm r s (sig_name h a) = None" if s: "s \<in> {''FakeUp'', ''FakeDown''}" for r s h a
  proof (cases "r \<in> {''PP'', ''FP''}")
    case True
    have "s \<notin> fst ` set roo_tags" using s by (auto simp: roo_tags_def)
    with True pp fp show ?thesis
      by (auto simp: signal_store_keys_None data_store_keys_sig_name)
  next
    case False
    with sl s have "\<not> has_slot hm r s" by auto
    then show ?thesis by (rule lookup3_no_slot)
  qed
  then have none: "\<forall>r h a. lookup3 hm r ''FakeUp'' (sig_name h a) = None \<and> lookup3 hm r ''FakeDown'' (sig_name h a) = None"
    by simp
  have s1: "has_slot hm ''PP'' ''FakeUp''" and s2: "has_slot hm ''FP'' ''FakeUp''"
    and s3: "has_slot hm ''PP'' ''FakeDown''" and s4: "has_slot hm ''FP'' ''FakeDown''"
    using sl by (simp_all add: shift_keys_def)
  have d1: "lookup3 hm ''PP'' ''FakeUp'' ''data'' = Some (runner_data f_FRU)"
    using pp [rule_format, of "''FakeUp''" "''data''"] by (simp add: data_entries_def store_keys_Cons)
  have d2: "lookup3 hm ''FP'' ''FakeUp'' ''data'' = Some (runner_data f_RegionB)"
    using fp [rule_format, of "''FakeUp''" "''data''"] signal_store_keys_None [OF nf(1)]
    by (simp add: data_entries_def store_keys_Cons)
  have d3: "lookup3 hm ''PP'' ''FakeDown'' ''data'' = Some (runner_data f_FRD)"
    using pp [rule_format, of "''FakeDown''" "''data''"] by (simp add: data_entries_def store_keys_Cons)
  have d4: "lookup3 hm ''FP'' ''FakeDown'' ''data'' = Some (runner_data f_RegionB)"
    using fp [rule_format, of "''FakeDown''" "''data''"] signal_store_keys_None [OF nf(2)]
    by (simp add: data_entries_def store_keys_Cons)
  show ?thesis using r s1 s2 s3 s4 d1 d2 d3 d4 none by blast
qed

subsection \<open>The histogram branch of GetPPData\<close>

lemma getTH1F_rfold:
  "rfold (\<lambda>c d. getTH1F (f c) d xMin xMax (g c) (n c) r) cs d =
   store_all d r (map (\<lambda>c. (g c, n c, TH1Copy (f c) xMin xMax)) cs)"
proof (induction cs arbitrary: d)
  case Nil
  then show ?case by simp
next
  case (Cons c cs)
  have "rfold (\<lambda>c d. getTH1F (f c) d xMin xMax (g c) (n c) r) cs =
        (\<lambda>d. store_all d r (map (\<lambda>c. (g c, n c, TH1Copy (f c) xMin xMax)) cs))"
    using Cons.IH by (rule ext)
  then show ?case by (simp add: getTH1F_def store_all_def)
qed

text \<open>
  C23 (the histogram branch of \<open>GetPPData\<close>): without datasets, on a map with the
  runner's shifts, the loader returns and stores under \<open>FakeUp\<close> the copy of the
  histogram of the central file \<open>f_FRC\<close>, not of \<open>f_FRU\<close> (line 79), while
  \<open>FakeDown\<close> gets the histogram of \<open>f_FRD\<close>: the up variation of the fake rate
  equals the central value.
\<close>

theorem GetPPData_th1_FakeUp:
  assumes "\<forall>s\<in>set shift_keys. has_slot d ''PP'' s"
  shows "\<exists>d'. GetPPData d xRange yRange False = Inr d' \<and>
           lookup3 d' ''PP'' ''FakeUp'' ''data'' = Some (TH1Copy (FileGet f_FRC ''mumu_Mass'') 2.5 30) \<and>
           lookup3 d' ''PP'' ''FakeDown'' ''data'' = Some (TH1Copy (FileGet f_FRD ''mumu_Mass'') 2.5 30) \<and>
           lookup3 d' ''PP'' '''' ''data'' = Some (TH1Copy (FileGet f_FRC ''mumu_Mass'') 2.5 30)"
proof -
  let ?es = "[('''', ''data'', TH1Copy (FileGet f_FRC ''mumu_Mass'') 2.5 30),
              (''FakeDown'', ''data'', TH1Copy (FileGet f_FRD ''mumu_Mass'') 2.5 30),
              (''FakeUp'', ''data'', TH1Copy (FileGet f_FRC ''mumu_Mass'') 2.5 30),
              ('''', ''dataNoSig'', TH1Copy (FileGet f_FRC ''mumu_Mass'') 2.5 30),
              (''FakeDown'', ''dataNoSig'', TH1Copy (FileGet f_FRD ''mumu_Mass'') 2.5 30),
              (''FakeUp'', ''dataNoSig'', TH1Copy (FileGet f_FRC ''mumu_Mass'') 2.5 30)]"
  have g: "GetPPData d xRange yRange False = store_all d ''PP'' ?es"
    by (simp add: GetPPData_def getTH1F_rfold runner_xrange_def Let_def)
  have "\<forall>e\<in>set ?es. has_slot d ''PP'' (fst e)" using assms by (simp add: shift_keys_def)
  from store_all_Inr [OF this] obtain d' where "store_all d ''PP'' ?es = Inr d'"
    and "\<forall>r' s k. lookup3 d' r' s k = (if r' = ''PP'' then (case store_keys ?es (s, k) of
               None \<Rightarrow> lookup3 d r' s k | Some v \<Rightarrow> Some v) else lookup3 d r' s k)"
    by blast
  with g show ?thesis by (simp add: store_keys_Cons)
qed

theorem GetPPData_th1_FakeUp_witness:
  "\<exists>d'. GetPPData [''PP'' \<mapsto> empty_shifts] [2.5, 30] [0, 1200] False = Inr d' \<and>
     lookup3 d' ''PP'' ''FakeUp'' ''data'' = Some (TH1Copy (FileGet f_FRC ''mumu_Mass'') 2.5 30) \<and>
     lookup3 d' ''PP'' ''FakeDown'' ''data'' = Some (TH1Copy (FileGet f_FRD ''mumu_Mass'') 2.5 30) \<and>
     lookup3 d' ''PP'' '''' ''data'' = Some (TH1Copy (FileGet f_FRC ''mumu_Mass'') 2.5 30)"
proof -
  have h: "\<forall>s\<in>set shift_keys. has_slot [''PP'' \<mapsto> empty_shifts] ''PP'' s"
    by (simp add: has_slot_def empty_shifts_def map_of_const)
  show ?thesis using GetPPData_th1_FakeUp [OF h] .
qed

end
