(* ===== verification/ShapeTables.thy ===== *)
theory ShapeTables
  imports MassGrid
begin

text \<open>
  The signal-shape bookkeeping of \<open>HaaLimits2D.buildSpline\<close> (HaaLimits2D.py).
  For each pseudoscalar mass the code builds a Voigtian in the dimuon mass
  \<open>x\<close> (\<open>sigx\<close>, lines 174--179) and a shape in the second observable \<open>y\<close>
  (\<open>sigy\<close>) chosen by the string \<open>yFitFunc\<close>: around the Higgs mass when
  \<open>YRANGE[1] > 100\<close> (lines 180--227), around the pseudoscalar mass otherwise
  (lines 233--281). Every parameter is declared \<open>[initial, low, high]\<close>. The later
  stages read the fitted parameters back by name: the polynomial order per parameter
  (\<open>fitFuncs\<close>, lines 333--391) and the list of \<open>y\<close> parameters
  (\<open>yparameters\<close>, lines 404--409).

  The datatypes \<open>family\<close> and \<open>model\<close> stand for the classes of the
  \<open>CombineLimits.Limits.Models\<close> module, which is not under src/: a model is a
  named shape of one family over one variable with its parameter declarations, a
  product or a recursive sum of named components.

  The lemmas show when every declared initial value lies inside its range
  (\<open>params_in_range\<close>), and that the three tables name the same parameters.
\<close>

datatype yfunc = G | V | CB | DCB | DG | DV

text \<open>The \<open>if/elif\<close> chains on \<open>yFitFunc\<close>; no branch matches any other string.\<close>

definition yfunc_of :: "string \<Rightarrow> yfunc option" where
  "yfunc_of s =
     (if s = ''G'' then Some G else if s = ''V'' then Some V else if s = ''CB'' then Some CB
      else if s = ''DCB'' then Some DCB else if s = ''DG'' then Some DG
      else if s = ''DV'' then Some DV else None)"

record par =
  pname :: string
  pinit :: real
  plo :: real
  phi :: real

definition mk_par :: "string \<Rightarrow> real \<Rightarrow> real \<Rightarrow> real \<Rightarrow> par" where
  "mk_par n i l u = \<lparr>pname = n, pinit = i, plo = l, phi = u\<rparr>"

datatype family =
    Exponential | Erf | Gaussian | Voigtian | CrystalBall | DoubleCrystalBall
  | DoubleSidedGaussian | DoubleSidedVoigtian

datatype model =
    Shape string family string "par list"
  | Prod string "string list"
  | Sum string "par list" bool

subsection \<open>The shapes of one mass point\<close>

text \<open>Lines 174--178.\<close>

definition sigx_model :: "real \<Rightarrow> model" where
  "sigx_model aval =
     Shape ''sigx'' Voigtian ''x''
       [mk_par ''mean'' aval 0 30, mk_par ''width'' (0.01 * aval) 0.001 5,
        mk_par ''sigma'' (0.01 * aval) 0.001 5]"

text \<open>Lines 181--227: \<open>y\<close> is the four-body mass, centred on the Higgs mass.\<close>

fun sigy_h :: "yfunc \<Rightarrow> real \<Rightarrow> model" where
  "sigy_h G h = Shape ''sigy'' Gaussian ''y''
     [mk_par ''mean'' h 0 (1.25 * h), mk_par ''sigma'' (0.1 * h) 0.01 (0.5 * h)]"
| "sigy_h V h = Shape ''sigy'' Voigtian ''y''
     [mk_par ''mean'' h 0.1 1000, mk_par ''width'' (0.1 * h) 0.01 (0.5 * h),
      mk_par ''sigma'' (0.1 * h) 0.01 (0.5 * h)]"
| "sigy_h CB h = Shape ''sigy'' CrystalBall ''y''
     [mk_par ''mean'' h 0.1 1000, mk_par ''sigma'' (0.1 * h) 0.01 (0.5 * h),
      mk_par ''a'' 1.0 0.5 5, mk_par ''n'' 0.5 0.1 1.5]"
| "sigy_h DCB h = Shape ''sigy'' DoubleCrystalBall ''y''
     [mk_par ''mean'' h 0.1 1000, mk_par ''sigma'' (0.1 * h) 0.01 (0.5 * h),
      mk_par ''a1'' 1.0 0.1 6, mk_par ''n1'' 0.9 0.1 6,
      mk_par ''a2'' 2.0 0.1 10, mk_par ''n2'' 1.5 0.1 10]"
| "sigy_h DG h = Shape ''sigy'' DoubleSidedGaussian ''y''
     [mk_par ''mean'' h 0.1 1000, mk_par ''sigma1'' (0.03 * h) 0.01 (0.5 * h),
      mk_par ''sigma2'' (0.06 * h) 0.01 (0.5 * h)]"
| "sigy_h DV h = Shape ''sigy'' DoubleSidedVoigtian ''y''
     [mk_par ''mean'' h 0.01 1000, mk_par ''sigma1'' (0.03 * h) 0.01 (0.5 * h),
      mk_par ''sigma2'' (0.06 * h) 0.01 (0.5 * h), mk_par ''width1'' (0.03 * h) 0.01 (0.5 * h),
      mk_par ''width2'' (0.06 * h) 0.01 (0.5 * h)]"

text \<open>Lines 235--281: \<open>y\<close> is the ditau mass, centred on the pseudoscalar mass.\<close>

fun sigy_tt :: "yfunc \<Rightarrow> real \<Rightarrow> model" where
  "sigy_tt G a = Shape ''sigy'' Gaussian ''y''
     [mk_par ''mean'' a 0 (1.25 * a), mk_par ''sigma'' (0.1 * a) 0.01 (0.5 * a)]"
| "sigy_tt V a = Shape ''sigy'' Voigtian ''y''
     [mk_par ''mean'' a 0 30, mk_par ''width'' (0.1 * a) 0.01 5, mk_par ''sigma'' (0.1 * a) 0.01 5]"
| "sigy_tt CB a = Shape ''sigy'' CrystalBall ''y''
     [mk_par ''mean'' a 0 30, mk_par ''sigma'' (0.1 * a) 0 5,
      mk_par ''a'' 1.0 0.5 5, mk_par ''n'' 0.5 0.1 1.5]"
| "sigy_tt DCB a = Shape ''sigy'' DoubleCrystalBall ''y''
     [mk_par ''mean'' a 0 30, mk_par ''sigma'' (0.1 * a) 0 5,
      mk_par ''a1'' 1.0 0.1 6, mk_par ''n1'' 0.9 0.1 6,
      mk_par ''a2'' 2.0 0.1 10, mk_par ''n2'' 1.5 0.1 10]"
| "sigy_tt DG a = Shape ''sigy'' DoubleSidedGaussian ''y''
     [mk_par ''mean'' a 0 30, mk_par ''sigma1'' (0.1 * a) 0.5 (0.4 * a),
      mk_par ''sigma2'' (0.3 * a) 0.5 (0.4 * a)]"
| "sigy_tt DV a = Shape ''sigy'' DoubleSidedVoigtian ''y''
     [mk_par ''mean'' a 0 30, mk_par ''sigma1'' (0.1 * a) 0.01 5,
      mk_par ''sigma2'' (0.3 * a) 0.01 5, mk_par ''width1'' (0.1 * a) 0.01 5,
      mk_par ''width2'' (0.3 * a) 0.01 5]"

subsection \<open>Parameter tables of the interpolation\<close>

text \<open>Lines 333--391: the polynomial fitted to each parameter across the grid.\<close>

fun fitFuncs :: "yfunc \<Rightarrow> (string \<times> string) list" where
  "fitFuncs V = [(''xmean'', ''pol1''), (''xwidth'', ''pol2''), (''xsigma'', ''pol2''),
     (''ymean'', ''pol1''), (''ywidth'', ''pol2''), (''ysigma'', ''pol2'')]"
| "fitFuncs G = [(''xmean'', ''pol1''), (''xwidth'', ''pol2''), (''xsigma'', ''pol2''),
     (''ymean'', ''pol1''), (''ysigma'', ''pol2'')]"
| "fitFuncs CB = [(''xmean'', ''pol1''), (''xwidth'', ''pol2''), (''xsigma'', ''pol2''),
     (''ymean'', ''pol1''), (''ysigma'', ''pol2''), (''ya'', ''pol2''), (''yn'', ''pol2'')]"
| "fitFuncs DCB = [(''xmean'', ''pol1''), (''xwidth'', ''pol2''), (''xsigma'', ''pol2''),
     (''ymean'', ''pol1''), (''ysigma'', ''pol2''), (''ya1'', ''pol2''), (''yn1'', ''pol2''),
     (''ya2'', ''pol2''), (''yn2'', ''pol2'')]"
| "fitFuncs DG = [(''xmean'', ''pol1''), (''xwidth'', ''pol2''), (''xsigma'', ''pol2''),
     (''ymean'', ''pol1''), (''ysigma1'', ''pol2''), (''ysigma2'', ''pol2'')]"
| "fitFuncs DV = [(''xmean'', ''pol1''), (''xwidth'', ''pol2''), (''xsigma'', ''pol2''),
     (''ymean'', ''pol1''), (''ysigma1'', ''pol2''), (''ysigma2'', ''pol2''),
     (''ywidth1'', ''pol2''), (''ywidth2'', ''pol2'')]"

text \<open>Lines 404--409 and the fixed list of line 410.\<close>

fun yparameters :: "yfunc \<Rightarrow> string list" where
  "yparameters V = [''mean'', ''width'', ''sigma'']"
| "yparameters G = [''mean'', ''sigma'']"
| "yparameters CB = [''mean'', ''sigma'', ''a'', ''n'']"
| "yparameters DCB = [''mean'', ''sigma'', ''a1'', ''n1'', ''a2'', ''n2'']"
| "yparameters DG = [''mean'', ''sigma1'', ''sigma2'']"
| "yparameters DV = [''mean'', ''sigma1'', ''sigma2'', ''width1'', ''width2'']"

definition xparameters :: "string list" where
  "xparameters = [''mean'', ''width'', ''sigma'']"

subsection \<open>Declared ranges\<close>

definition par_in_range :: "par \<Rightarrow> bool" where
  "par_in_range p \<longleftrightarrow> plo p \<le> pinit p \<and> pinit p \<le> phi p"

fun model_params :: "model \<Rightarrow> par list" where
  "model_params (Shape _ _ _ ps) = ps"
| "model_params (Prod _ _) = []"
| "model_params (Sum _ ps _) = ps"

definition params_in_range :: "model \<Rightarrow> bool" where
  "params_in_range m \<longleftrightarrow> list_all par_in_range (model_params m)"

lemma par_in_range_mk_par [simp]: "par_in_range (mk_par n i l u) \<longleftrightarrow> l \<le> i \<and> i \<le> u"
  by (simp add: par_in_range_def mk_par_def)

lemma pname_mk_par [simp]: "pname (mk_par n i l u) = n"
  by (simp add: mk_par_def)

lemmas shape_simps = params_in_range_def sigx_model_def

subsection \<open>Initial values against their ranges\<close>

text \<open>
  C26 (bounds): in the four-body branch (\<open>YRANGE[1] > 100\<close>) every parameter of
  every \<open>y\<close> shape starts inside its declared range for any Higgs mass between
  1/3 and 1000 GeV; the runner's masses 125, 300 and 750 are among them.
\<close>

theorem sigy_h_params_in_range:
  assumes "1/3 \<le> h" and "h \<le> 1000"
  shows "params_in_range (sigy_h yf h)"
  using assms by (cases yf) (simp_all add: shape_simps)

theorem sigy_h_params_in_range_witness:
  "1/3 \<le> (750::real) \<and> (750::real) \<le> 1000 \<and> params_in_range (sigy_h DV 750)"
proof -
  have h: "1/3 \<le> (750::real)" "(750::real) \<le> 1000" by simp_all
  show ?thesis using h sigy_h_params_in_range [where yf = DV, OF h] by simp
qed

text \<open>
  C27 (bounds): every parameter of the \<open>x\<close> Voigtian starts inside its range for
  every pseudoscalar mass between 0.1 and 30 GeV, which holds the whole grid.
\<close>

theorem sigx_params_in_range:
  assumes "1/10 \<le> a" and "a \<le> 30"
  shows "params_in_range (sigx_model a)"
  using assms by (simp add: shape_simps)

theorem sigx_params_in_range_witness:
  "1/10 \<le> (3.6::real) \<and> (3.6::real) \<le> 30 \<and> params_in_range (sigx_model 3.6)"
proof -
  have h: "1/10 \<le> (3.6::real)" "(3.6::real) \<le> 30" by simp_all
  show ?thesis using h sigx_params_in_range [OF h] by simp
qed

text \<open>
  C25 (bounds): in the ditau branch (\<open>YRANGE[1] \<le> 100\<close>) the declarations are
  consistent for G, V, CB and DCB on the whole mass range, but not for the two
  double-sided shapes: DG's \<open>sigma1 = [0.1a, 0.5, 0.4a]\<close> starts below its lower
  bound unless \<open>a \<ge> 5\<close>, and DV's \<open>sigma2\<close> and \<open>width2 = [0.3a, 0.01, 5]\<close>
  start above their upper bound once \<open>a > 50/3\<close>. The grid masses 3.6 and 4 (DG)
  and 17, 19 and 21 (DV) are affected.
\<close>

theorem sigy_tt_params_in_range_iff:
  assumes "1/10 \<le> a" and "a \<le> 30"
  shows "params_in_range (sigy_tt yf a) \<longleftrightarrow> (yf = DG \<longrightarrow> 5 \<le> a) \<and> (yf = DV \<longrightarrow> a \<le> 50/3)"
  using assms by (cases yf) (auto simp: shape_simps)

theorem sigy_tt_params_in_range_iff_witness:
  "1/10 \<le> (4::real) \<and> (4::real) \<le> 30 \<and> \<not> params_in_range (sigy_tt DG 4)"
proof -
  have h: "1/10 \<le> (4::real)" "(4::real) \<le> 30" by simp_all
  show ?thesis using h sigy_tt_params_in_range_iff [OF h, of DG] by simp
qed

end
