(* ===== verification/Sampling.thy ===== *)
theory Sampling
  imports Prelude "HOL-Library.While_Combinator"
begin

text \<open>
  The dense sampling loops of \<open>HaaLimits2D.buildSpline\<close> (HaaLimits2D.py,
  lines 393--402):
  \<^verbatim>\<open>
    xs = []
    x = self.XRANGE[0]
    while x<=self.XRANGE[1]:
        xs += [x]
        x += float(self.XRANGE[1]-self.XRANGE[0])/100
  \<close>
  and the same loop over \<open>YRANGE\<close> for \<open>ys\<close>. The loop has no termination argument
  of its own (it runs forever when the range is empty), so it is the library's
  \<open>while_option\<close> over the loop state \<open>(x, xs)\<close>, whose value \<open>None\<close> is
  "does not return". The
  Python floats are modelled as exact reals: in the model the loop stops after
  exactly 101 samples on a proper range (\<open>dense_samples_grid\<close>). With binary
  floating point the accumulated sum overshoots the upper bound for many ranges
  (\<open>[0, 30]\<close>, \<open>[2.5, 25]\<close>, \<open>[0, 1]\<close>) and the loop gives 100 samples, the
  last one below the bound; the count is therefore not stated as a property of
  the program. What is stated holds of the loop's structure in either
  arithmetic: the samples start at the lower bound, each is the previous plus the
  step, none exceeds the upper bound, and the next one would.
\<close>

definition sample_body :: "real \<Rightarrow> real \<times> real list \<Rightarrow> real \<times> real list" where
  "sample_body step st = (fst st + step, snd st @ [fst st])"

definition sample_loop :: "real \<Rightarrow> real \<Rightarrow> real \<Rightarrow> real list \<Rightarrow> real list option" where
  "sample_loop hi step x acc =
     map_option snd (while_option (\<lambda>st. fst st \<le> hi) (sample_body step) (x, acc))"

definition dense_samples :: "real \<times> real \<Rightarrow> real list option" where
  "dense_samples r = sample_loop (snd r) ((snd r - fst r) / 100) (fst r) []"

text \<open>The reference partition: \<open>n\<close> points from \<open>x\<close> spaced by \<open>step\<close>.\<close>

definition grid_points :: "real \<Rightarrow> real \<Rightarrow> nat \<Rightarrow> real list" where
  "grid_points x step n = map (\<lambda>k. x + real k * step) [0..<n]"

subsection \<open>Running the loop\<close>

lemma sample_loop_stop: "hi < x \<Longrightarrow> sample_loop hi step x acc = Some acc"
  by (simp add: sample_loop_def while_option_unfold [of _ _ "(x, acc)"])

lemma sample_loop_step: "x \<le> hi \<Longrightarrow> sample_loop hi step x acc = sample_loop hi step (x + step) (acc @ [x])"
  by (simp add: sample_loop_def sample_body_def while_option_unfold [of _ _ "(x, acc)"])

text \<open>While the guard holds, \<open>k\<close> iterations append the first \<open>k\<close> grid points.\<close>

lemma sample_loop_iterate:
  "(\<forall>j<k. x + real j * step \<le> hi) \<Longrightarrow>
   sample_loop hi step x acc = sample_loop hi step (x + real k * step) (acc @ grid_points x step k)"
proof (induction k)
  case 0
  then show ?case by (simp add: grid_points_def)
next
  case (Suc k)
  then have IH: "sample_loop hi step x acc = sample_loop hi step (x + real k * step) (acc @ grid_points x step k)"
    and g: "x + real k * step \<le> hi" by simp_all
  have "x + real k * step + step = x + real (Suc k) * step" by (simp add: algebra_simps)
  with IH g show ?case by (simp add: sample_loop_step grid_points_def)
qed

text \<open>How many times the guard holds from \<open>x\<close> with a positive step.\<close>

definition n_samples :: "real \<Rightarrow> real \<Rightarrow> real \<Rightarrow> nat" where
  "n_samples hi step x = nat (\<lfloor>(hi - x) / step\<rfloor> + 1)"

lemma n_samples_guard:
  assumes "0 < step" and "j < n_samples hi step x"
  shows "x + real j * step \<le> hi"
proof -
  from assms(2) have "int j \<le> \<lfloor>(hi - x) / step\<rfloor>" by (simp add: n_samples_def)
  then have "real j \<le> (hi - x) / step" by (simp add: le_floor_iff)
  with assms(1) show ?thesis by (simp add: field_simps)
qed

lemma n_samples_exit:
  assumes "0 < step"
  shows "hi < x + real (n_samples hi step x) * step"
proof (cases "x \<le> hi")
  case True
  with assms have "0 \<le> (hi - x) / step" by simp
  then have "real (n_samples hi step x) = of_int \<lfloor>(hi - x) / step\<rfloor> + 1"
    by (simp add: n_samples_def)
  moreover have "(hi - x) / step < of_int \<lfloor>(hi - x) / step\<rfloor> + 1" by linarith
  ultimately have "(hi - x) / step < real (n_samples hi step x)" by simp
  with assms show ?thesis by (simp add: field_simps)
next
  case False
  with assms have "(hi - x) / step < 0" by (simp add: divide_neg_pos)
  then have "\<lfloor>(hi - x) / step\<rfloor> < 0" by simp
  then have "\<lfloor>(hi - x) / step\<rfloor> + 1 \<le> 0" by linarith
  then have "n_samples hi step x = 0" by (simp add: n_samples_def)
  with False show ?thesis by simp
qed

subsection \<open>Termination and divergence\<close>

text \<open>With a positive step the loop returns, and it returns the grid points below
  the bound.\<close>

lemma sample_loop_terminates:
  assumes "0 < step"
  shows "sample_loop hi step x acc = Some (acc @ grid_points x step (n_samples hi step x))"
proof -
  let ?n = "n_samples hi step x"
  have "sample_loop hi step x acc = sample_loop hi step (x + real ?n * step) (acc @ grid_points x step ?n)"
    using n_samples_guard [OF assms] by (intro sample_loop_iterate) blast
  also have "\<dots> = Some (acc @ grid_points x step ?n)"
    using n_samples_exit [OF assms] by (rule sample_loop_stop)
  finally show ?thesis .
qed

text \<open>The \<open>k\<close>-th loop state has \<open>x\<close> advanced by \<open>k\<close> steps.\<close>

lemma sample_body_pow_fst: "fst ((sample_body step ^^ k) (x, acc)) = x + real k * step"
  by (induction k) (simp_all add: sample_body_def algebra_simps)

text \<open>With a step that does not advance and the guard true, the guard holds in every
  state the loop reaches, so the loop never returns.\<close>

lemma sample_loop_diverges:
  assumes "step \<le> 0" and "x \<le> hi"
  shows "sample_loop hi step x acc = None"
proof -
  have "fst ((sample_body step ^^ k) (x, acc)) \<le> hi" for k
  proof -
    from assms(1) have "real k * step \<le> 0" by (simp add: mult_nonneg_nonpos)
    with assms(2) show ?thesis by (simp add: sample_body_pow_fst)
  qed
  then show ?thesis by (simp add: sample_loop_def while_option_def)
qed

subsection \<open>The dense partition of a range\<close>

lemma n_samples_partition:
  assumes "lo < hi"
  shows "n_samples hi ((hi - lo) / 100) lo = 101"
proof -
  from assms have "hi - lo \<noteq> 0" by simp
  then have "(hi - lo) / ((hi - lo) / 100) = 100" by (simp add: field_simps)
  then show ?thesis by (simp add: n_samples_def)
qed

lemma dense_samples_grid:
  assumes "fst r < snd r"
  shows "dense_samples r = Some (grid_points (fst r) ((snd r - fst r) / 100) 101)"
proof -
  from assms have step: "0 < (snd r - fst r) / 100" by simp
  show ?thesis
    using sample_loop_terminates [OF step, of "snd r" "fst r" "[]"] n_samples_partition [OF assms]
    by (simp add: dense_samples_def)
qed

lemma grid_points_step: "Suc i < n \<Longrightarrow> grid_points x d n ! Suc i = grid_points x d n ! i + d"
  by (simp add: grid_points_def distrib_right)

text \<open>
  C6 (what the sampling loop returns): on a proper range \<open>[lo, hi]\<close> the loop of
  lines 393--402 returns a list of samples that starts at \<open>lo\<close>, in which each
  sample is the previous one plus the step \<open>(hi - lo)/100\<close>, that never exceeds
  \<open>hi\<close>, and whose last sample plus the step does: the loop neither stops early
  nor runs past the bound.
\<close>

theorem dense_samples_shape:
  assumes "fst r < snd r"
  shows "\<exists>xs. dense_samples r = Some xs \<and> xs \<noteq> [] \<and> hd xs = fst r \<and>
           (\<forall>i. Suc i < length xs \<longrightarrow> xs ! Suc i = xs ! i + (snd r - fst r) / 100) \<and>
           (\<forall>x\<in>set xs. x \<le> snd r) \<and> snd r < last xs + (snd r - fst r) / 100"
proof -
  let ?d = "(snd r - fst r) / 100"
  have d: "0 < ?d" using assms by simp
  let ?xs = "grid_points (fst r) ?d 101"
  have "\<forall>x\<in>set ?xs. x \<le> snd r"
  proof
    fix x assume "x \<in> set ?xs"
    then obtain k where "k < 101" and x: "x = fst r + real k * ?d" by (auto simp: grid_points_def)
    then have "real k * ?d \<le> 100 * ?d" using d by (intro mult_right_mono) simp_all
    then show "x \<le> snd r" using x by simp
  qed
  moreover have "last ?xs = snd r" by (simp add: grid_points_def last_map field_simps)
  moreover have "\<forall>i. Suc i < length ?xs \<longrightarrow> ?xs ! Suc i = ?xs ! i + ?d"
  proof (intro allI impI)
    fix i assume "Suc i < length ?xs"
    then have "Suc i < 101" by (simp add: grid_points_def)
    then show "?xs ! Suc i = ?xs ! i + ?d" by (rule grid_points_step)
  qed
  moreover have "?xs \<noteq> []" and "hd ?xs = fst r" by (simp_all add: grid_points_def hd_map upt_rec)
  ultimately show ?thesis using dense_samples_grid [OF assms] d by auto
qed

theorem dense_samples_shape_witness:
  "fst (0::real, 30::real) < snd (0::real, 30::real) \<and>
   (\<exists>xs. dense_samples (0, 30) = Some xs \<and> hd xs = 0 \<and> 30 < last xs + 0.3)"
proof -
  have h: "fst (0::real, 30::real) < snd (0::real, 30::real)" by simp
  show ?thesis using h dense_samples_shape [OF h] by auto
qed

text \<open>
  C15 (termination): the sampling loop fails to return exactly when the range is
  empty (\<open>XRANGE[0] = XRANGE[1]\<close>): the step is then 0 and the guard never fails.
  A reversed range returns no samples at all.
\<close>

theorem dense_samples_None_iff: "dense_samples r = None \<longleftrightarrow> fst r = snd r"
proof (cases "fst r < snd r")
  case True
  then show ?thesis by (simp add: dense_samples_grid)
next
  case False
  show ?thesis
  proof (cases "fst r = snd r")
    case True
    then show ?thesis by (simp add: dense_samples_def sample_loop_diverges)
  next
    case False
    with \<open>\<not> fst r < snd r\<close> have "snd r < fst r" by simp
    then show ?thesis by (simp add: dense_samples_def sample_loop_stop)
  qed
qed

end
