(* ===== verification/Spline.thy ===== *)
theory Spline
  imports ShapeTables Sampling
begin

text \<open>
  \<open>HaaLimits2D.buildSpline\<close> (HaaLimits2D.py, lines 144--572): the grid
  interpolator. For one Higgs mass, region and shift it fits the signal shape at
  every grid mass, reads the fitted parameters back by name, and builds a
  continuous signal template (a "spline" in the pseudoscalar mass) either directly
  from the grid values (\<open>fit=False\<close>) or from polynomials fitted to them across the
  grid and sampled on the dense partition of the observable ranges
  (\<open>fit=True\<close>). It adds four objects to the workspace: the \<open>x\<close> spline, the
  \<open>y\<close> spline, their product with the signal integrals and the integral function.

  Everything the code delegates to ROOT, RooFit and the \<open>Models\<close> module is the
  interface record \<open>ext\<close>, over the type \<open>'h\<close> of histograms or datasets: the
  two-dimensional fit of one mass point (\<open>fit2D\<close>, returning the values and errors
  of the floating parameters by name), the polynomial fit of a \<open>TGraphErrors\<close>
  followed by \<open>GetFunction(...).Eval\<close> (\<open>graphFit\<close>), the signal integral and
  the \<open>SPLINENAME\<close> format of the base class. The lemmas are stated for every
  such interface; where they need the fit to report each parameter of the model it
  was given, that is the hypothesis \<open>fit_reports_params\<close>.

  A raised exception ends the script, so a computation that raises returns the
  exception and no state; the dense sampling loops may run forever, so the whole
  call returns \<open>wsobj dict result option\<close>, with \<open>None\<close> for divergence.
\<close>

record 'h ext =
  fit2D :: "model list \<Rightarrow> 'h \<Rightarrow> real dict \<times> real dict"
  graphFit :: "string \<Rightarrow> real list \<Rightarrow> real list \<Rightarrow> real list \<Rightarrow> real \<Rightarrow> real"
  integral :: "'h \<Rightarrow> real"
  SPLINENAME :: "int \<Rightarrow> string"

text \<open>\<open>SIGNAME = 'HToAAH{h}A{a}'\<close>, as the class docstring requires (line 42) and the
  runner's loaders store the signal histograms.\<close>

definition SIGNAME :: "int \<Rightarrow> pyval \<Rightarrow> string" where
  "SIGNAME h a = ''HToAAH'' @ int_str h @ ''A'' @ py_str a"

record spline_opts =
  fit :: bool
  ygausOnly :: bool
  doBackgroundSignal :: bool

subsection \<open>The model of one mass point\<close>

fun model_name :: "model \<Rightarrow> string" where
  "model_name (Shape n _ _ _) = n"
| "model_name (Prod n _) = n"
| "model_name (Sum n _ _) = n"

text \<open>Lines 285--322: in the ditau branch the \<open>y\<close> shape of a non-PP region can be
  summed with a background shape when \<open>doBackgroundSignal\<close> is set.\<close>

definition bgsig_models :: "model list" where
  "bgsig_models =
     [Shape ''conty'' Exponential ''y'' [mk_par ''lamb'' (-0.25) (-1) (-0.001)],
      Shape ''erfy'' Erf ''y'' [mk_par ''erfScale'' 0.1 0.01 10, mk_par ''erfShift'' 2 0 10],
      Prod ''erfcy'' [''erfy'', ''conty''],
      Sum ''bgsigy'' [mk_par ''erfcy'' 0.5 0 1, mk_par ''sigy'' 0.5 0 1] True,
      Prod ''sig'' [''sigx'', ''bgsigy'']]"

text \<open>Lines 174--325: the models built, in order, into the local workspace of one
  mass point; the last one is the model that is fitted.\<close>

definition sig_point :: "limits_cfg \<Rightarrow> string \<Rightarrow> spline_opts \<Rightarrow> yfunc \<Rightarrow> real \<Rightarrow> real \<Rightarrow> model list" where
  "sig_point cfg region opts yf h aval =
     sigx_model aval #
     (if snd (YRANGE cfg) > 100 then [sigy_h yf h, Prod ''sig'' [''sigx'', ''sigy'']]
      else sigy_tt yf aval #
           (if region = ''PP'' \<or> \<not> doBackgroundSignal opts then [Prod ''sig'' [''sigx'', ''sigy'']]
            else bgsig_models))"

text \<open>Lines 163--329: convert the label, build the models, look the signal up, fit.\<close>

definition fit_point :: "'h ext \<Rightarrow> limits_cfg \<Rightarrow> 'h dict \<Rightarrow> string \<Rightarrow> spline_opts \<Rightarrow> yfunc \<Rightarrow>
    int \<Rightarrow> pyval \<Rightarrow> (real dict \<times> real dict) result" where
  "fit_point E cfg hm region opts yf h a =
     rbind (aval_of a) (\<lambda>aval.
     rbind (getitem hm (SIGNAME h a)) (\<lambda>hist.
     Inr (fit2D E (sig_point cfg region opts yf (of_int h) aval) hist)))"

subsection \<open>Parameter curves\<close>

text \<open>\<open>[results[h][a][key] for a in amasses]\<close> and the same over \<open>errors\<close>.\<close>

definition res_column :: "(real dict \<times> real dict) list \<Rightarrow> string \<Rightarrow> real list result" where
  "res_column pts key = rmap (\<lambda>re. getitem (fst re) key) pts"

definition err_column :: "(real dict \<times> real dict) list \<Rightarrow> string \<Rightarrow> real list result" where
  "err_column pts key = rmap (\<lambda>re. getitem (snd re) key) pts"

text \<open>Lines 410--426 (\<open>ax = ''x''\<close>, sampled at \<open>xs\<close>) and 428--444
  (\<open>ax = ''y''\<close>, sampled at \<open>ys\<close>): for each parameter read its values and
  errors over the grid and, when fitting, fit the polynomial named in
  \<open>fitFuncs\<close> and store its values at the samples in \<open>fittedParams\<close>.\<close>

fun param_curves :: "'h ext \<Rightarrow> bool \<Rightarrow> (string \<times> string) list \<Rightarrow> string \<Rightarrow> real list \<Rightarrow>
    (real dict \<times> real dict) list \<Rightarrow> real list \<Rightarrow> string list \<Rightarrow> real list dict \<Rightarrow> real list dict result" where
  "param_curves E fitp ff ax avals pts smp [] fp = Inr fp"
| "param_curves E fitp ff ax avals pts smp (p # ps) fp =
     rbind (res_column pts (p @ ''_sig'' @ ax)) (\<lambda>vals.
     rbind (err_column pts (p @ ''_sig'' @ ax)) (\<lambda>errs.
       if fitp then
         rbind (getitem (map_of ff) (ax @ p)) (\<lambda>fn.
           param_curves E fitp ff ax avals pts smp ps
             (fp(ax @ p \<mapsto> map (graphFit E fn avals vals errs) smp)))
       else param_curves E fitp ff ax avals pts smp ps fp))"

subsection \<open>Splines and the workspace\<close>

text \<open>A \<open>Models.*Spline\<close> object: its family, the observable passed as
  \<open>x=\<close> (\<open>None\<close> when the call leaves the module's default), the masses it is
  keyed by, and one column of values per shape parameter, named by the keyword.\<close>

datatype spline = Spline family "string option" "real list" "(string \<times> real list) list"

text \<open>The objects of the RooWorkspace: the splines, their product with its
  integrals and the integral function built here, the variables the code creates
  with \<open>workspace.factory('name[value,min,max]')\<close>, the models built with
  \<open>Models.*.build\<close>, and the models the base class builds (by name).\<close>

datatype wsobj =
    WSpline spline
  | WProdSpline string string "real list" "real list"
  | WIntegral string
  | WVar real real real
  | WPdf model
  | WBasePdf string

fun spline_masses :: "spline \<Rightarrow> real list" where
  "spline_masses (Spline _ _ ms _) = ms"

fun spline_var :: "spline \<Rightarrow> string option" where
  "spline_var (Spline _ v _ _) = v"

fun spline_cols :: "spline \<Rightarrow> (string \<times> real list) list" where
  "spline_cols (Spline _ _ _ cs) = cs"

text \<open>Lines 449--466: the \<open>x\<close> spline, a Voigtian in both modes.\<close>

definition spline_x :: "bool \<Rightarrow> real list \<Rightarrow> real list \<Rightarrow> (real dict \<times> real dict) list \<Rightarrow>
    real list dict \<Rightarrow> spline result" where
  "spline_x fitp xs avals pts fp =
     (if fitp then
        rbind (getitem fp ''xmean'') (\<lambda>ms. rbind (getitem fp ''xwidth'') (\<lambda>ws.
        rbind (getitem fp ''xsigma'') (\<lambda>ss.
          Inr (Spline Voigtian None xs [(''means'', ms), (''widths'', ws), (''sigmas'', ss)]))))
      else
        rbind (res_column pts ''mean_sigx'') (\<lambda>ms. rbind (res_column pts ''width_sigx'') (\<lambda>ws.
        rbind (res_column pts ''sigma_sigx'') (\<lambda>ss.
          Inr (Spline Voigtian None avals [(''means'', ms), (''widths'', ws), (''sigmas'', ss)])))))"

text \<open>Lines 468--538: the \<open>y\<close> spline. When fitting, a Gaussian or Voigtian over
  \<open>y\<close> sampled at \<open>ys\<close> from \<open>fittedParams\<close>; otherwise the family of
  \<open>yFitFunc\<close> keyed by the grid masses, whose call passes no \<open>x=\<close>.\<close>

definition direct_cols :: "(real dict \<times> real dict) list \<Rightarrow> (string \<times> string) list \<Rightarrow>
    (string \<times> real list) list result" where
  "direct_cols pts kws = rmap (\<lambda>kk. rbind (res_column pts (snd kk)) (\<lambda>col. Inr (fst kk, col))) kws"

fun direct_y :: "yfunc \<Rightarrow> family \<times> (string \<times> string) list" where
  "direct_y V = (Voigtian, [(''means'', ''mean_sigy''), (''widths'', ''width_sigy''), (''sigmas'', ''sigma_sigy'')])"
| "direct_y G = (Gaussian, [(''means'', ''mean_sigy''), (''sigmas'', ''sigma_sigy'')])"
| "direct_y CB = (CrystalBall, [(''means'', ''mean_sigy''), (''sigmas'', ''sigma_sigy''),
     (''a_s'', ''a_sigy''), (''n_s'', ''n_sigy'')])"
| "direct_y DCB = (DoubleCrystalBall, [(''means'', ''mean_sigy''), (''sigmas'', ''sigma_sigy''),
     (''a1s'', ''a1_sigy''), (''n1s'', ''n1_sigy''), (''a2s'', ''a2_sigy''), (''n2s'', ''n2_sigy'')])"
| "direct_y DG = (DoubleSidedGaussian, [(''means'', ''mean_sigy''), (''sigma1s'', ''sigma1_sigy''),
     (''sigma2s'', ''sigma2_sigy'')])"
| "direct_y DV = (DoubleSidedVoigtian, [(''means'', ''mean_sigy''), (''sigma1s'', ''sigma1_sigy''),
     (''sigma2s'', ''sigma2_sigy''), (''width1s'', ''width1_sigy''), (''width2s'', ''width2_sigy'')])"

definition spline_y :: "yfunc \<Rightarrow> bool \<Rightarrow> bool \<Rightarrow> real list \<Rightarrow> real list \<Rightarrow>
    (real dict \<times> real dict) list \<Rightarrow> real list dict \<Rightarrow> spline result" where
  "spline_y yf fitp gaus ys avals pts fp =
     (if fitp then
        rbind (getitem fp ''ymean'') (\<lambda>ms.
        rbind (if gaus then Inr [] else getitem fp ''ywidth'') (\<lambda>ws.
        rbind (getitem fp ''ysigma'') (\<lambda>ss.
          Inr (Spline (if gaus then Gaussian else Voigtian) (Some ''y'') ys
                 [(''means'', ms), (''widths'', ws), (''sigmas'', ss)]))))
      else
        rbind (direct_cols pts (snd (direct_y yf))) (\<lambda>cs.
          Inr (Spline (fst (direct_y yf)) None avals cs)))"

text \<open>The workspace names of line 157 and lines 467, 539, 571 and 572.\<close>

definition spline_tag :: "string \<Rightarrow> string \<Rightarrow> string" where
  "spline_tag region shift = region @ (if shift = [] then [] else ''_'' @ shift)"

definition spline_name :: "'h ext \<Rightarrow> int \<Rightarrow> string \<Rightarrow> string" where
  "spline_name E h tag = SPLINENAME E h @ ''_'' @ tag"

text \<open>The four workspace objects of lines 467, 539, 540--543 and 569--572: the two
  splines, their product carrying the integrals, and the integral function.\<close>

definition add_templates :: "'h ext \<Rightarrow> wsobj dict \<Rightarrow> int \<Rightarrow> string \<Rightarrow> real list \<Rightarrow> real list \<Rightarrow>
    spline \<Rightarrow> spline \<Rightarrow> wsobj dict" where
  "add_templates E ws h tag avals ints sx sy =
     (let n = spline_name E h tag; nx = n @ ''_x''; ny = n @ ''_y'' in
      ws(nx \<mapsto> WSpline sx, ny \<mapsto> WSpline sy, n \<mapsto> WProdSpline nx ny avals ints,
         ''integral_'' @ n \<mapsto> WIntegral n))"

text \<open>Lines 407--572 after the two sampling loops: the curves, both splines, the
  signal integrals of line 546 and the four workspace objects.\<close>

definition build_templates :: "'h ext \<Rightarrow> 'h dict \<Rightarrow> wsobj dict \<Rightarrow> int \<Rightarrow> string \<Rightarrow> yfunc \<Rightarrow>
    spline_opts \<Rightarrow> pyval list \<Rightarrow> real list \<Rightarrow> (real dict \<times> real dict) list \<Rightarrow> real list \<Rightarrow> real list \<Rightarrow>
    wsobj dict result" where
  "build_templates E hm ws h tag yf opts amasses avals pts xs ys =
     rbind (param_curves E (fit opts) (fitFuncs yf) ''x'' avals pts xs xparameters Map.empty) (\<lambda>fp.
     rbind (param_curves E (fit opts) (fitFuncs yf) ''y'' avals pts ys (yparameters yf) fp) (\<lambda>fp.
     rbind (spline_x (fit opts) xs avals pts fp) (\<lambda>sx.
     rbind (spline_y yf (fit opts) (ygausOnly opts) ys avals pts fp) (\<lambda>sy.
     rbind (rmap (\<lambda>a. rbind (getitem hm (SIGNAME h a)) (\<lambda>hist. Inr (integral E hist))) amasses) (\<lambda>ints.
       Inr (add_templates E ws h tag avals ints sx sy))))))"

text \<open>The whole call. Lines 153--157 convert the grid and select the histograms of
  the region and shift; lines 163--329 fit each mass point, raising \<open>NameError\<close> on
  an unknown \<open>yFitFunc\<close> at the first point (with an empty grid the first unbound
  name read is \<open>fitFuncs\<close> or \<open>yparameters\<close>, after the sampling loops);
  lines 393--402 sample the ranges.\<close>

definition buildSpline :: "'h ext \<Rightarrow> limits_cfg \<Rightarrow> 'h dict dict dict \<Rightarrow> wsobj dict \<Rightarrow> int \<Rightarrow>
    string \<Rightarrow> string \<Rightarrow> string \<Rightarrow> spline_opts \<Rightarrow> wsobj dict result option" where
  "buildSpline E cfg histMap ws h region shift yFitFunc opts =
     (let amasses = grid_amasses (AMASSES cfg) h; tag = spline_tag region shift in
      case rbind (avals_of (AMASSES cfg) h) (\<lambda>avals.
             rbind (getitem histMap region) (\<lambda>hr. rbind (getitem hr shift) (\<lambda>hm. Inr (avals, hm)))) of
        Inl e \<Rightarrow> Some (Inl e)
      | Inr (avals, hm) \<Rightarrow>
          (case yfunc_of yFitFunc of
             None \<Rightarrow>
               (if amasses \<noteq> []
                then Some (Inl (NameError (if snd (YRANGE cfg) > 100 then ''modely'' else ''modely_sig'')))
                else (case (dense_samples (XRANGE cfg), dense_samples (YRANGE cfg)) of
                        (Some _, Some _) \<Rightarrow> Some (Inl (NameError (if fit opts then ''fitFuncs'' else ''yparameters'')))
                      | _ \<Rightarrow> None))
           | Some yf \<Rightarrow>
               (case rmap (fit_point E cfg hm region opts yf h) amasses of
                  Inl e \<Rightarrow> Some (Inl e)
                | Inr pts \<Rightarrow>
                    (case (dense_samples (XRANGE cfg), dense_samples (YRANGE cfg)) of
                       (Some xs, Some ys) \<Rightarrow> Some (build_templates E hm ws h tag yf opts amasses avals pts xs ys)
                     | _ \<Rightarrow> None))))"

subsection \<open>The contract of the fit and the keys it reports\<close>

text \<open>The names under which \<open>fit2D\<close> reports the floating parameters of a shape:
  \<open>'{param}_{model}'\<close>, the names the code reads back (lines 413, 431, 462, 484).\<close>

fun shape_keys :: "model \<Rightarrow> string list" where
  "shape_keys (Shape n _ _ ps) = map (\<lambda>p. pname p @ ''_'' @ n) ps"
| "shape_keys (Prod _ _) = []"
| "shape_keys (Sum _ _ _) = []"

definition fit_reports_params :: "'h ext \<Rightarrow> bool" where
  "fit_reports_params E \<longleftrightarrow>
     (\<forall>ms hist. \<forall>m\<in>set ms. \<forall>k\<in>set (shape_keys m).
        fst (fit2D E ms hist) k \<noteq> None \<and> snd (fit2D E ms hist) k \<noteq> None)"

definition needed_keys :: "yfunc \<Rightarrow> string list" where
  "needed_keys yf = map (\<lambda>p. p @ ''_sigx'') xparameters @ map (\<lambda>p. p @ ''_sigy'') (yparameters yf)"

definition has_keys :: "string list \<Rightarrow> real dict \<times> real dict \<Rightarrow> bool" where
  "has_keys ks re \<longleftrightarrow> (\<forall>k\<in>set ks. fst re k \<noteq> None \<and> snd re k \<noteq> None)"

text \<open>Every parameter the interpolation reads is a parameter of the model that was
  fitted, in both branches of the \<open>y\<close> observable and with or without the
  background-plus-signal sum.\<close>

lemma needed_keys_point:
  "set (needed_keys yf) \<subseteq> set (concat (map shape_keys (sig_point cfg region opts yf h aval)))"
  by (cases yf) (auto simp: needed_keys_def xparameters_def sig_point_def sigx_model_def
      bgsig_models_def)

lemma fit_point_Inr:
  "aval_of a = Inr aval \<Longrightarrow> hm (SIGNAME h a) = Some hist \<Longrightarrow>
   fit_point E cfg hm region opts yf h a = Inr (fit2D E (sig_point cfg region opts yf (of_int h) aval) hist)"
  by (simp add: fit_point_def)

lemma fit_point_has_keys:
  assumes "fit_reports_params E" and "fit_point E cfg hm region opts yf h a = Inr re"
  shows "has_keys (needed_keys yf) re"
proof -
  from assms(2) obtain aval hist where
    re: "re = fit2D E (sig_point cfg region opts yf (of_int h) aval) hist"
    by (auto simp: fit_point_def rbind_eq_Inr_iff)
  have "\<exists>m\<in>set (sig_point cfg region opts yf (of_int h) aval). k \<in> set (shape_keys m)"
    if "k \<in> set (needed_keys yf)" for k
    using that needed_keys_point [of yf cfg region opts "of_int h" aval] by auto
  with assms(1) re show ?thesis
    unfolding has_keys_def fit_reports_params_def by blast
qed

lemma fit_points_has_keys:
  assumes "fit_reports_params E" and "rmap (fit_point E cfg hm region opts yf h) am = Inr pts"
  shows "\<forall>re\<in>set pts. has_keys (needed_keys yf) re"
proof
  fix re assume "re \<in> set pts"
  then obtain i where i: "i < length pts" "pts ! i = re" by (auto simp: in_set_conv_nth)
  from assms(2) have "length pts = length am" by (rule rmap_Inr_length)
  with assms(2) i have "fit_point E cfg hm region opts yf h (am ! i) = Inr re"
    by (metis rmap_Inr_nth)
  with assms(1) show "has_keys (needed_keys yf) re" by (rule fit_point_has_keys)
qed

subsection \<open>Columns and curves\<close>

lemma res_column_Inr:
  "\<forall>re\<in>set pts. fst re k \<noteq> None \<Longrightarrow> \<exists>c. res_column pts k = Inr c"
  by (auto simp: res_column_def rmap_Inr_ex_iff getitem_def split: option.split)

lemma err_column_Inr:
  "\<forall>re\<in>set pts. snd re k \<noteq> None \<Longrightarrow> \<exists>c. err_column pts k = Inr c"
  by (auto simp: err_column_def rmap_Inr_ex_iff getitem_def split: option.split)

lemma res_column_nth:
  "res_column pts k = Inr c \<Longrightarrow> i < length pts \<Longrightarrow> fst (pts ! i) k = Some (c ! i)"
  by (auto simp: res_column_def getitem_eq_Inr_iff dest: rmap_Inr_nth)

lemma res_column_length: "res_column pts k = Inr c \<Longrightarrow> length c = length pts"
  by (simp add: res_column_def rmap_Inr_length)

lemma fitFuncs_x: "p \<in> set xparameters \<Longrightarrow> map_of (fitFuncs yf) (''x'' @ p) \<noteq> None"
  by (cases yf) (auto simp: xparameters_def)

lemma fitFuncs_y: "p \<in> set (yparameters yf) \<Longrightarrow> map_of (fitFuncs yf) (''y'' @ p) \<noteq> None"
  by (cases yf) auto

text \<open>The curve loop succeeds when every column it reads is present and, when
  fitting, every parameter has a polynomial; it then adds one curve per parameter.\<close>

lemma param_curves_Inr:
  assumes "\<forall>p\<in>set ps. \<forall>re\<in>set pts. fst re (p @ ''_sig'' @ ax) \<noteq> None \<and> snd re (p @ ''_sig'' @ ax) \<noteq> None"
    and "fitp \<longrightarrow> (\<forall>p\<in>set ps. map_of ff (ax @ p) \<noteq> None)"
  shows "\<exists>fp'. param_curves E fitp ff ax avals pts smp ps fp = Inr fp' \<and>
           dom fp' = dom fp \<union> (if fitp then (\<lambda>p. ax @ p) ` set ps else {})"
  using assms
proof (induction ps arbitrary: fp)
  case Nil
  then show ?case by simp
next
  case (Cons p ps)
  from Cons.prems(1) have "\<forall>re\<in>set pts. fst re (p @ ''_sig'' @ ax) \<noteq> None"
    and "\<forall>re\<in>set pts. snd re (p @ ''_sig'' @ ax) \<noteq> None" by auto
  then obtain vals errs where v: "res_column pts (p @ ''_sig'' @ ax) = Inr vals"
    and e: "err_column pts (p @ ''_sig'' @ ax) = Inr errs"
    using res_column_Inr err_column_Inr by blast
  from Cons.prems have cols: "\<forall>p\<in>set ps. \<forall>re\<in>set pts. fst re (p @ ''_sig'' @ ax) \<noteq> None \<and> snd re (p @ ''_sig'' @ ax) \<noteq> None"
    and ffs: "fitp \<longrightarrow> (\<forall>p\<in>set ps. map_of ff (ax @ p) \<noteq> None)" by auto
  show ?case
  proof (cases fitp)
    case True
    with Cons.prems(2) obtain fn where fn: "map_of ff (ax @ p) = Some fn" by auto
    let ?fp = "fp(ax @ p \<mapsto> map (graphFit E fn avals vals errs) smp)"
    from Cons.IH [OF cols ffs, of ?fp] obtain fp' where
      r: "param_curves E fitp ff ax avals pts smp ps ?fp = Inr fp'"
      and d: "dom fp' = dom ?fp \<union> (if fitp then (\<lambda>p. ax @ p) ` set ps else {})" by blast
    from True v e fn r have "param_curves E fitp ff ax avals pts smp (p # ps) fp = Inr fp'" by simp
    moreover from True d have "dom fp' = dom fp \<union> (\<lambda>p. ax @ p) ` set (p # ps)" by auto
    ultimately show ?thesis using True by auto
  next
    case False
    from Cons.IH [OF cols ffs, of fp] False obtain fp' where
      r: "param_curves E fitp ff ax avals pts smp ps fp = Inr fp'" and d: "dom fp' = dom fp" by auto
    from False v e r have "param_curves E fitp ff ax avals pts smp (p # ps) fp = Inr fp'" by simp
    with d False show ?thesis by simp
  qed
qed

text \<open>Every curve the loop adds is a polynomial fitted over the grid and evaluated
  at the sample points.\<close>

lemma param_curves_values:
  "param_curves E fitp ff ax avals pts smp ps fp = Inr fp' \<Longrightarrow> fp' k \<noteq> fp k \<Longrightarrow>
   \<exists>fn vals errs. fp' k = Some (map (graphFit E fn avals vals errs) smp)"
proof (induction ps arbitrary: fp)
  case Nil
  then show ?case by simp
next
  case (Cons p ps)
  from Cons.prems(1) obtain vals errs where
    v: "res_column pts (p @ ''_sig'' @ ax) = Inr vals" and e: "err_column pts (p @ ''_sig'' @ ax) = Inr errs"
    by (auto simp: rbind_eq_Inr_iff)
  show ?case
  proof (cases fitp)
    case True
    with Cons.prems(1) v e obtain fn where fn: "map_of ff (ax @ p) = Some fn"
      and r: "param_curves E fitp ff ax avals pts smp ps (fp(ax @ p \<mapsto> map (graphFit E fn avals vals errs) smp)) = Inr fp'"
      by (auto simp: rbind_eq_Inr_iff getitem_eq_Inr_iff)
    show ?thesis
    proof (cases "fp' k = (fp(ax @ p \<mapsto> map (graphFit E fn avals vals errs) smp)) k")
      case True
      with Cons.prems(2) show ?thesis by (auto split: if_splits)
    next
      case False
      with Cons.IH r show ?thesis by blast
    qed
  next
    case False
    with Cons.prems v e Cons.IH show ?thesis by simp
  qed
qed

subsection \<open>When the templates are built\<close>

lemma direct_y_keys: "set (map snd (snd (direct_y yf))) \<subseteq> set (needed_keys yf)"
  by (cases yf) (auto simp: needed_keys_def xparameters_def)

lemma has_keys_column:
  "\<forall>re\<in>set pts. has_keys ks re \<Longrightarrow> k \<in> set ks \<Longrightarrow>
   (\<forall>re\<in>set pts. fst re k \<noteq> None) \<and> (\<forall>re\<in>set pts. snd re k \<noteq> None)"
  by (auto simp: has_keys_def)

lemma direct_cols_Inr:
  assumes "\<forall>re\<in>set pts. has_keys ks re" and "set (map snd kws) \<subseteq> set ks"
  shows "\<exists>cs. direct_cols pts kws = Inr cs"
proof -
  have "\<exists>c. res_column pts k = Inr c" if "k \<in> set (map snd kws)" for k
    using that assms has_keys_column res_column_Inr by blast
  then have "\<exists>y. rbind (res_column pts (snd kk)) (\<lambda>col. Inr (fst kk, col)) = Inr y"
    if "kk \<in> set kws" for kk
    using that by fastforce
  then show ?thesis
    by (simp add: direct_cols_def rmap_Inr_ex_iff)
qed

lemma spline_x_Inr:
  assumes "\<forall>re\<in>set pts. has_keys (needed_keys yf) re"
    and "fitp \<longrightarrow> {''xmean'', ''xwidth'', ''xsigma''} \<subseteq> dom fp"
  shows "\<exists>sx. spline_x fitp xs avals pts fp = Inr sx"
proof (cases fitp)
  case True
  with assms(2) show ?thesis by (auto simp: spline_x_def)
next
  case False
  have "k \<in> set (needed_keys yf) \<Longrightarrow> \<exists>c. res_column pts k = Inr c" for k
    using assms(1) has_keys_column res_column_Inr by blast
  then have "\<exists>c. res_column pts ''mean_sigx'' = Inr c" "\<exists>c. res_column pts ''width_sigx'' = Inr c"
    "\<exists>c. res_column pts ''sigma_sigx'' = Inr c"
    by (simp_all add: needed_keys_def xparameters_def)
  with False show ?thesis by (auto simp: spline_x_def)
qed

text \<open>The fitted \<open>y\<close> spline reads \<open>ymean\<close>, then \<open>ywidth\<close> unless
  \<open>ygausOnly\<close>, then \<open>ysigma\<close> (lines 473--476).\<close>

lemma spline_y_fit_Inr_iff:
  "(\<exists>sy. spline_y yf True gaus ys avals pts fp = Inr sy) \<longleftrightarrow>
   ''ymean'' \<in> dom fp \<and> (gaus \<or> ''ywidth'' \<in> dom fp) \<and> ''ysigma'' \<in> dom fp"
  by (auto simp: spline_y_def getitem_def split: option.split)

lemma spline_y_direct_Inr:
  "\<forall>re\<in>set pts. has_keys (needed_keys yf) re \<Longrightarrow> \<exists>sy. spline_y yf False gaus ys avals pts fp = Inr sy"
  using direct_cols_Inr [OF _ direct_y_keys] by (fastforce simp: spline_y_def)

text \<open>The curves of both loops, for a grid whose fits report every needed key.\<close>

lemma both_curves_Inr:
  assumes "\<forall>re\<in>set pts. has_keys (needed_keys yf) re"
  shows "\<exists>fx fy. param_curves E fitp (fitFuncs yf) ''x'' avals pts xs xparameters Map.empty = Inr fx \<and>
             param_curves E fitp (fitFuncs yf) ''y'' avals pts ys (yparameters yf) fx = Inr fy \<and>
             dom fy = (if fitp then (\<lambda>p. ''x'' @ p) ` set xparameters \<union> (\<lambda>p. ''y'' @ p) ` set (yparameters yf) else {})"
proof -
  have colx: "\<forall>p\<in>set xparameters. \<forall>re\<in>set pts. fst re (p @ ''_sig'' @ ''x'') \<noteq> None \<and> snd re (p @ ''_sig'' @ ''x'') \<noteq> None"
    using assms by (auto simp: has_keys_def needed_keys_def)
  have coly: "\<forall>p\<in>set (yparameters yf). \<forall>re\<in>set pts. fst re (p @ ''_sig'' @ ''y'') \<noteq> None \<and> snd re (p @ ''_sig'' @ ''y'') \<noteq> None"
    using assms by (auto simp: has_keys_def needed_keys_def)
  obtain fx where fx: "param_curves E fitp (fitFuncs yf) ''x'' avals pts xs xparameters Map.empty = Inr fx"
    and dx: "dom fx = (if fitp then (\<lambda>p. ''x'' @ p) ` set xparameters else {})"
    using param_curves_Inr [OF colx, of fitp "fitFuncs yf" E avals xs Map.empty] fitFuncs_x by auto
  obtain fy where fy: "param_curves E fitp (fitFuncs yf) ''y'' avals pts ys (yparameters yf) fx = Inr fy"
    and dy: "dom fy = dom fx \<union> (if fitp then (\<lambda>p. ''y'' @ p) ` set (yparameters yf) else {})"
    using param_curves_Inr [OF coly, of fitp "fitFuncs yf" E avals ys fx] fitFuncs_y by auto
  from fx fy dx dy show ?thesis by auto
qed

text \<open>After the curves and the \<open>x\<close> spline, only the \<open>y\<close> spline can fail.\<close>

lemma build_templates_reduce:
  assumes keys: "\<forall>re\<in>set pts. has_keys (needed_keys yf) re"
    and hists: "\<forall>a\<in>set amasses. hm (SIGNAME h a) \<noteq> None"
  obtains fp where
    "dom fp = (if fit opts then (\<lambda>p. ''x'' @ p) ` set xparameters \<union> (\<lambda>p. ''y'' @ p) ` set (yparameters yf) else {})"
    and "\<exists>ints sx. build_templates E hm ws h tag yf opts amasses avals pts xs ys =
           rbind (spline_y yf (fit opts) (ygausOnly opts) ys avals pts fp)
             (\<lambda>sy. Inr (add_templates E ws h tag avals ints sx sy))"
proof -
  obtain fx fp where fx: "param_curves E (fit opts) (fitFuncs yf) ''x'' avals pts xs xparameters Map.empty = Inr fx"
    and fy: "param_curves E (fit opts) (fitFuncs yf) ''y'' avals pts ys (yparameters yf) fx = Inr fp"
    and d: "dom fp = (if fit opts then (\<lambda>p. ''x'' @ p) ` set xparameters \<union> (\<lambda>p. ''y'' @ p) ` set (yparameters yf) else {})"
    using both_curves_Inr [OF keys] by blast
  have X: "{''xmean'', ''xwidth'', ''xsigma''} \<subseteq> (\<lambda>p. ''x'' @ p) ` set xparameters"
    by (simp add: xparameters_def)
  have "fit opts \<longrightarrow> {''xmean'', ''xwidth'', ''xsigma''} \<subseteq> dom fp"
  proof
    assume f: "fit opts"
    from d have eq: "dom fp = (\<lambda>p. ''x'' @ p) ` set xparameters \<union> (\<lambda>p. ''y'' @ p) ` set (yparameters yf)"
      unfolding if_P [OF f] .
    have "{''xmean'', ''xwidth'', ''xsigma''} \<subseteq>
          (\<lambda>p. ''x'' @ p) ` set xparameters \<union> (\<lambda>p. ''y'' @ p) ` set (yparameters yf)"
      using X by (rule subset_trans) (rule Un_upper1)
    then show "{''xmean'', ''xwidth'', ''xsigma''} \<subseteq> dom fp" unfolding eq .
  qed
  from spline_x_Inr [OF keys this, of xs avals] obtain sx where sx: "spline_x (fit opts) xs avals pts fp = Inr sx"
    by (elim exE)
  have "\<exists>ints. rmap (\<lambda>a. rbind (getitem hm (SIGNAME h a)) (\<lambda>hist. Inr (integral E hist))) amasses = Inr ints"
    using hists by (auto simp: rmap_Inr_ex_iff)
  then obtain ints where ints: "rmap (\<lambda>a. rbind (getitem hm (SIGNAME h a)) (\<lambda>hist. Inr (integral E hist))) amasses = Inr ints"
    by blast
  show ?thesis
  proof (rule that [OF d])
    have "build_templates E hm ws h tag yf opts amasses avals pts xs ys =
            rbind (spline_y yf (fit opts) (ygausOnly opts) ys avals pts fp)
              (\<lambda>sy. Inr (add_templates E ws h tag avals ints sx sy))"
      unfolding build_templates_def by (simp only: fx fy sx ints rbind_Inr)
    then show "\<exists>ints sx. build_templates E hm ws h tag yf opts amasses avals pts xs ys =
            rbind (spline_y yf (fit opts) (ygausOnly opts) ys avals pts fp)
              (\<lambda>sy. Inr (add_templates E ws h tag avals ints sx sy))"
      by blast
  qed
qed

text \<open>Which fitted curves the \<open>y\<close> spline of the fit mode finds.\<close>

lemma fit_curve_keys:
  "''ymean'' \<in> (\<lambda>p. ''y'' @ p) ` set (yparameters yf)"
  "''ywidth'' \<in> (\<lambda>p. ''y'' @ p) ` set (yparameters yf) \<longleftrightarrow> yf = V"
  "''ysigma'' \<in> (\<lambda>p. ''y'' @ p) ` set (yparameters yf) \<longleftrightarrow> yf \<in> {V, G, CB, DCB}"
  "''ywidth'' \<notin> (\<lambda>p. ''x'' @ p) ` set xparameters" "''ysigma'' \<notin> (\<lambda>p. ''x'' @ p) ` set xparameters"
  "''ymean'' \<notin> (\<lambda>p. ''x'' @ p) ` set xparameters"
  by (cases yf; simp add: xparameters_def)+

text \<open>In fit mode the keys of \<open>fittedParams\<close> decide the \<open>y\<close> spline.\<close>

lemma fit_dom_keys:
  assumes "dom fp = (\<lambda>p. ''x'' @ p) ` set xparameters \<union> (\<lambda>p. ''y'' @ p) ` set (yparameters yf)"
  shows "''ymean'' \<in> dom fp" "''ywidth'' \<in> dom fp \<longleftrightarrow> yf = V"
    "''ysigma'' \<in> dom fp \<longleftrightarrow> yf \<in> {V, G, CB, DCB}"
proof -
  show "''ymean'' \<in> dom fp"
    unfolding assms by (rule UnI2) (rule fit_curve_keys(1))
  show "''ywidth'' \<in> dom fp \<longleftrightarrow> yf = V"
    unfolding assms Un_iff by (simp only: fit_curve_keys(2,4) simp_thms)
  show "''ysigma'' \<in> dom fp \<longleftrightarrow> yf \<in> {V, G, CB, DCB}"
    unfolding assms Un_iff by (simp only: fit_curve_keys(3,5) simp_thms)
qed

lemma spline_y_fit_curves_Inr_iff:
  assumes "dom fp = (\<lambda>p. ''x'' @ p) ` set xparameters \<union> (\<lambda>p. ''y'' @ p) ` set (yparameters yf)"
  shows "(\<exists>sy. spline_y yf True gaus ys avals pts fp = Inr sy) \<longleftrightarrow> yf = V \<or> (gaus \<and> yf \<in> {G, CB, DCB})"
  unfolding spline_y_fit_Inr_iff fit_dom_keys(2,3) [OF assms] using fit_dom_keys(1) [OF assms]
  by (cases yf) simp_all

text \<open>Otherwise the fitted \<open>y\<close> spline raises on the first missing curve:
  \<open>ywidth\<close>, read before \<open>ysigma\<close>, unless \<open>ygausOnly\<close> skips it.\<close>

lemma spline_y_fit_error:
  assumes "dom fp = (\<lambda>p. ''x'' @ p) ` set xparameters \<union> (\<lambda>p. ''y'' @ p) ` set (yparameters yf)"
    and "\<not> (yf = V \<or> (gaus \<and> yf \<in> {G, CB, DCB}))"
  shows "spline_y yf True gaus ys avals pts fp = Inl (KeyError (if gaus then ''ysigma'' else ''ywidth''))"
proof -
  from fit_dom_keys(1) [OF assms(1)] obtain ms where m: "fp ''ymean'' = Some ms" by blast
  show ?thesis
  proof (cases gaus)
    case True
    with assms(2) have "yf \<notin> {V, G, CB, DCB}" by (cases yf) simp_all
    then have "fp ''ysigma'' = None" using fit_dom_keys(3) [OF assms(1)] by blast
    with m True show ?thesis by (simp add: spline_y_def)
  next
    case False
    with assms(2) have "yf \<noteq> V" by blast
    then have "fp ''ywidth'' = None" using fit_dom_keys(2) [OF assms(1)] by blast
    with m False show ?thesis by (simp add: spline_y_def)
  qed
qed

lemma build_templates_Inr_iff:
  assumes "\<forall>re\<in>set pts. has_keys (needed_keys yf) re"
    and "\<forall>a\<in>set amasses. hm (SIGNAME h a) \<noteq> None"
  shows "(\<exists>ws'. build_templates E hm ws h tag yf opts amasses avals pts xs ys = Inr ws') \<longleftrightarrow>
         (fit opts \<longrightarrow> yf = V \<or> (ygausOnly opts \<and> yf \<in> {G, CB, DCB}))"
proof -
  obtain fp where d: "dom fp = (if fit opts then (\<lambda>p. ''x'' @ p) ` set xparameters \<union> (\<lambda>p. ''y'' @ p) ` set (yparameters yf) else {})"
    and e: "\<exists>ints sx. build_templates E hm ws h tag yf opts amasses avals pts xs ys =
           rbind (spline_y yf (fit opts) (ygausOnly opts) ys avals pts fp)
             (\<lambda>sy. Inr (add_templates E ws h tag avals ints sx sy))"
    by (rule build_templates_reduce [OF assms])
  from e obtain ints sx where b: "build_templates E hm ws h tag yf opts amasses avals pts xs ys =
           rbind (spline_y yf (fit opts) (ygausOnly opts) ys avals pts fp)
             (\<lambda>sy. Inr (add_templates E ws h tag avals ints sx sy))"
    by blast
  have "(\<exists>sy. spline_y yf (fit opts) (ygausOnly opts) ys avals pts fp = Inr sy) \<longleftrightarrow>
        (fit opts \<longrightarrow> yf = V \<or> (ygausOnly opts \<and> yf \<in> {G, CB, DCB}))"
  proof (cases "fit opts")
    case True
    from d have "dom fp = (\<lambda>p. ''x'' @ p) ` set xparameters \<union> (\<lambda>p. ''y'' @ p) ` set (yparameters yf)"
      unfolding if_P [OF True] .
    from spline_y_fit_curves_Inr_iff [OF this] True show ?thesis by simp
  next
    case False
    then show ?thesis using spline_y_direct_Inr [OF assms(1)] by simp
  qed
  with b show ?thesis by (simp add: rbind_Inr_ex_iff)
qed

subsection \<open>The whole call\<close>

lemma fit_points_Inr:
  assumes "avals_of am h = Inr avals"
    and "\<forall>a\<in>set (grid_amasses am h). hm (SIGNAME h a) \<noteq> None"
  shows "\<exists>pts. rmap (fit_point E cfg hm region opts yf h) (grid_amasses am h) = Inr pts"
proof -
  have av: "\<forall>a\<in>set (grid_amasses am h). \<exists>v. aval_of a = Inr v"
    using assms(1) rmap_Inr_ex_iff [of aval_of "grid_amasses am h"] by (auto simp: avals_of_def)
  have "\<exists>re. fit_point E cfg hm region opts yf h a = Inr re" if a: "a \<in> set (grid_amasses am h)" for a
  proof -
    from a av obtain v where v: "aval_of a = Inr v" by blast
    from a assms(2) obtain hist where hist: "hm (SIGNAME h a) = Some hist" by blast
    show ?thesis using fit_point_Inr [where hm = hm, OF v hist] by blast
  qed
  then show ?thesis by (simp add: rmap_Inr_ex_iff)
qed

text \<open>On a proper configuration the call reaches the template stage with the fitted
  points and the two dense partitions.\<close>

lemma buildSpline_templates:
  assumes "fit_reports_params E"
    and "avals_of (AMASSES cfg) h = Inr avals"
    and "histMap region = Some hr" and "hr shift = Some hm"
    and "\<forall>a\<in>set (grid_amasses (AMASSES cfg) h). hm (SIGNAME h a) \<noteq> None"
    and "fst (XRANGE cfg) < snd (XRANGE cfg)" and "fst (YRANGE cfg) < snd (YRANGE cfg)"
    and "yfunc_of yFitFunc = Some yf"
  obtains pts where
    "rmap (fit_point E cfg hm region opts yf h) (grid_amasses (AMASSES cfg) h) = Inr pts"
    and "\<forall>re\<in>set pts. has_keys (needed_keys yf) re"
    and "buildSpline E cfg histMap ws h region shift yFitFunc opts =
           Some (build_templates E hm ws h (spline_tag region shift) yf opts (grid_amasses (AMASSES cfg) h) avals pts
             (grid_points (fst (XRANGE cfg)) ((snd (XRANGE cfg) - fst (XRANGE cfg)) / 100) 101)
             (grid_points (fst (YRANGE cfg)) ((snd (YRANGE cfg) - fst (YRANGE cfg)) / 100) 101))"
proof -
  obtain pts where pts: "rmap (fit_point E cfg hm region opts yf h) (grid_amasses (AMASSES cfg) h) = Inr pts"
    using fit_points_Inr [OF assms(2,5)] by blast
  have keys: "\<forall>re\<in>set pts. has_keys (needed_keys yf) re"
    using fit_points_has_keys [OF assms(1) pts] .
  have "buildSpline E cfg histMap ws h region shift yFitFunc opts =
           Some (build_templates E hm ws h (spline_tag region shift) yf opts (grid_amasses (AMASSES cfg) h) avals pts
             (grid_points (fst (XRANGE cfg)) ((snd (XRANGE cfg) - fst (XRANGE cfg)) / 100) 101)
             (grid_points (fst (YRANGE cfg)) ((snd (YRANGE cfg) - fst (YRANGE cfg)) / 100) 101))"
    using assms(2,3,4,8) pts dense_samples_grid [OF assms(6)] dense_samples_grid [OF assms(7)]
    by (simp add: buildSpline_def Let_def)
  with pts keys show ?thesis by (rule that)
qed

text \<open>
  C1 (error behaviour of the interpolator): given a fit that reports every
  parameter of the model it fits, the histograms of every grid mass, proper ranges
  and a known \<open>yFitFunc\<close>, \<open>buildSpline\<close> returns in direct mode for every
  shape family, but in fit mode only for V, or for G, CB and DCB with
  \<open>ygausOnly\<close>: the fitted \<open>y\<close> spline of lines 470--477 reads
  \<open>fittedParams['ywidth']\<close> and \<open>fittedParams['ysigma']\<close>, which the
  parameter loop of lines 428--444 creates only for the families having those
  parameters.
\<close>

theorem buildSpline_returns_iff:
  assumes "fit_reports_params E"
    and "avals_of (AMASSES cfg) h = Inr avals"
    and "histMap region = Some hr" and "hr shift = Some hm"
    and "\<forall>a\<in>set (grid_amasses (AMASSES cfg) h). hm (SIGNAME h a) \<noteq> None"
    and "fst (XRANGE cfg) < snd (XRANGE cfg)" and "fst (YRANGE cfg) < snd (YRANGE cfg)"
    and "yfunc_of yFitFunc = Some yf"
  shows "(\<exists>ws'. buildSpline E cfg histMap ws h region shift yFitFunc opts = Some (Inr ws')) \<longleftrightarrow>
         (fit opts \<longrightarrow> yf = V \<or> (ygausOnly opts \<and> yf \<in> {G, CB, DCB}))"
proof -
  obtain pts where "\<forall>re\<in>set pts. has_keys (needed_keys yf) re"
    and b: "buildSpline E cfg histMap ws h region shift yFitFunc opts =
           Some (build_templates E hm ws h (spline_tag region shift) yf opts (grid_amasses (AMASSES cfg) h) avals pts
             (grid_points (fst (XRANGE cfg)) ((snd (XRANGE cfg) - fst (XRANGE cfg)) / 100) 101)
             (grid_points (fst (YRANGE cfg)) ((snd (YRANGE cfg) - fst (YRANGE cfg)) / 100) 101))"
    by (rule buildSpline_templates [where histMap = histMap and region = region and hr = hr
          and shift = shift and hm = hm, OF assms])
  with build_templates_Inr_iff [OF _ assms(5)] show ?thesis by simp
qed

theorem buildSpline_returns_iff_witness:
  "(\<exists>ws'. buildSpline (\<lparr>fit2D = \<lambda>ms hist. (\<lambda>k. Some 1, \<lambda>k. Some 1), graphFit = \<lambda>fn xs vs es x. 0,
      integral = \<lambda>hist. 1, SPLINENAME = \<lambda>h. ''sig''\<rparr> :: unit ext) runner_cfg
      (\<lambda>r. Some (\<lambda>s. Some (\<lambda>k. Some ()))) Map.empty 125 ''PP'' [] ''V''
      \<lparr>fit = True, ygausOnly = False, doBackgroundSignal = False\<rparr> = Some (Inr ws'))"
proof -
  let ?E = "\<lparr>fit2D = \<lambda>ms hist. (\<lambda>k. Some 1, \<lambda>k. Some 1), graphFit = \<lambda>fn xs vs es x. 0,
      integral = \<lambda>hist. 1, SPLINENAME = \<lambda>h. ''sig''\<rparr> :: unit ext"
  have h1: "fit_reports_params ?E" by (simp add: fit_reports_params_def)
  have h2: "avals_of (AMASSES runner_cfg) 125 = Inr [3.6, 4, 5, 6, 7, 9, 11, 13, 15, 17, 19, 21]"
    by (simp add: avals_runner_cases)
  have h3: "((\<lambda>r. Some (\<lambda>s. Some (\<lambda>k. Some ()))) :: unit dict dict dict) ''PP'' = Some (\<lambda>s. Some (\<lambda>k. Some ()))"
    and h4: "((\<lambda>s. Some (\<lambda>k. Some ())) :: unit dict dict) [] = Some (\<lambda>k. Some ())"
    and h5: "\<forall>a\<in>set (grid_amasses (AMASSES runner_cfg) 125). ((\<lambda>k. Some ()) :: unit dict) (SIGNAME 125 a) \<noteq> None"
    by simp_all
  have h6: "fst (XRANGE runner_cfg) < snd (XRANGE runner_cfg)"
    and h7: "fst (YRANGE runner_cfg) < snd (YRANGE runner_cfg)"
    by (simp_all add: runner_cfg_def)
  have h8: "yfunc_of ''V'' = Some V" by (simp add: yfunc_of_def)
  show ?thesis
    using buildSpline_returns_iff [where ws = Map.empty
        and opts = "\<lparr>fit = True, ygausOnly = False, doBackgroundSignal = False\<rparr>", OF h1 h2 h3 h4 h5 h6 h7 h8]
      h1 h2 h3 h4 h5 h6 h7 h8
    by simp
qed

text \<open>
  C2 (error behaviour, the exception raised): in the same situation, fit mode with
  any other family raises \<open>KeyError\<close> on the first fitted curve it lacks:
  \<open>'ywidth'\<close>, unless \<open>ygausOnly\<close> skips the widths, and then \<open>'ysigma'\<close>.
  The double-sided families DG and DV can never be interpolated in fit mode.
\<close>

theorem buildSpline_fit_KeyError:
  assumes "fit_reports_params E"
    and "avals_of (AMASSES cfg) h = Inr avals"
    and "histMap region = Some hr" and "hr shift = Some hm"
    and "\<forall>a\<in>set (grid_amasses (AMASSES cfg) h). hm (SIGNAME h a) \<noteq> None"
    and "fst (XRANGE cfg) < snd (XRANGE cfg)" and "fst (YRANGE cfg) < snd (YRANGE cfg)"
    and "yfunc_of yFitFunc = Some yf"
    and "fit opts" and "\<not> (yf = V \<or> (ygausOnly opts \<and> yf \<in> {G, CB, DCB}))"
  shows "buildSpline E cfg histMap ws h region shift yFitFunc opts =
           Some (Inl (KeyError (if ygausOnly opts then ''ysigma'' else ''ywidth'')))"
proof -
  obtain pts where keys: "\<forall>re\<in>set pts. has_keys (needed_keys yf) re"
    and b: "buildSpline E cfg histMap ws h region shift yFitFunc opts =
           Some (build_templates E hm ws h (spline_tag region shift) yf opts (grid_amasses (AMASSES cfg) h) avals pts
             (grid_points (fst (XRANGE cfg)) ((snd (XRANGE cfg) - fst (XRANGE cfg)) / 100) 101)
             (grid_points (fst (YRANGE cfg)) ((snd (YRANGE cfg) - fst (YRANGE cfg)) / 100) 101))"
    by (rule buildSpline_templates [where histMap = histMap and region = region and hr = hr
          and shift = shift and hm = hm, OF assms(1-8)])
  obtain fp where d: "dom fp = (if fit opts then (\<lambda>p. ''x'' @ p) ` set xparameters \<union> (\<lambda>p. ''y'' @ p) ` set (yparameters yf) else {})"
    and e: "\<exists>ints sx. build_templates E hm ws h (spline_tag region shift) yf opts (grid_amasses (AMASSES cfg) h) avals pts
             (grid_points (fst (XRANGE cfg)) ((snd (XRANGE cfg) - fst (XRANGE cfg)) / 100) 101)
             (grid_points (fst (YRANGE cfg)) ((snd (YRANGE cfg) - fst (YRANGE cfg)) / 100) 101) =
           rbind (spline_y yf (fit opts) (ygausOnly opts)
                    (grid_points (fst (YRANGE cfg)) ((snd (YRANGE cfg) - fst (YRANGE cfg)) / 100) 101) avals pts fp)
             (\<lambda>sy. Inr (add_templates E ws h (spline_tag region shift) avals ints sx sy))"
    by (rule build_templates_reduce [OF keys assms(5)])
  from d have "dom fp = (\<lambda>p. ''x'' @ p) ` set xparameters \<union> (\<lambda>p. ''y'' @ p) ` set (yparameters yf)"
    unfolding if_P [OF assms(9)] .
  from spline_y_fit_error [OF this assms(10)] e b assms(9) show ?thesis by auto
qed

theorem buildSpline_fit_KeyError_witness:
  "buildSpline (\<lparr>fit2D = \<lambda>ms hist. (\<lambda>k. Some 1, \<lambda>k. Some 1), graphFit = \<lambda>fn xs vs es x. 0,
      integral = \<lambda>hist. 1, SPLINENAME = \<lambda>h. ''sig''\<rparr> :: unit ext) runner_cfg
      (\<lambda>r. Some (\<lambda>s. Some (\<lambda>k. Some ()))) Map.empty 125 ''PP'' [] ''DG''
      \<lparr>fit = True, ygausOnly = False, doBackgroundSignal = False\<rparr> = Some (Inl (KeyError ''ywidth''))"
proof -
  let ?E = "\<lparr>fit2D = \<lambda>ms hist. (\<lambda>k. Some 1, \<lambda>k. Some 1), graphFit = \<lambda>fn xs vs es x. 0,
      integral = \<lambda>hist. 1, SPLINENAME = \<lambda>h. ''sig''\<rparr> :: unit ext"
  let ?o = "\<lparr>fit = True, ygausOnly = False, doBackgroundSignal = False\<rparr>"
  have h1: "fit_reports_params ?E" by (simp add: fit_reports_params_def)
  have h2: "avals_of (AMASSES runner_cfg) 125 = Inr [3.6, 4, 5, 6, 7, 9, 11, 13, 15, 17, 19, 21]"
    by (simp add: avals_runner_cases)
  have h3: "((\<lambda>r. Some (\<lambda>s. Some (\<lambda>k. Some ()))) :: unit dict dict dict) ''PP'' = Some (\<lambda>s. Some (\<lambda>k. Some ()))"
    and h4: "((\<lambda>s. Some (\<lambda>k. Some ())) :: unit dict dict) [] = Some (\<lambda>k. Some ())"
    and h5: "\<forall>a\<in>set (grid_amasses (AMASSES runner_cfg) 125). ((\<lambda>k. Some ()) :: unit dict) (SIGNAME 125 a) \<noteq> None"
    by simp_all
  have h6: "fst (XRANGE runner_cfg) < snd (XRANGE runner_cfg)"
    and h7: "fst (YRANGE runner_cfg) < snd (YRANGE runner_cfg)"
    by (simp_all add: runner_cfg_def)
  have h8: "yfunc_of ''DG'' = Some DG" by (simp add: yfunc_of_def)
  have h9: "fit ?o" and h10: "\<not> (DG = V \<or> (ygausOnly ?o \<and> DG \<in> {G, CB, DCB}))" by simp_all
  show ?thesis
    using buildSpline_fit_KeyError [where ws = Map.empty, OF h1 h2 h3 h4 h5 h6 h7 h8 h9 h10]
      h1 h2 h3 h4 h5 h6 h7 h8
    by simp
qed

end
