(* ===== verification/Templates.thy ===== *)
theory Templates
  imports Spline
begin

text \<open>
  What a successful \<open>buildSpline\<close> leaves in the workspace. The splines of the
  \<open>Models\<close> module interpolate through their nodes: at a node mass they take the
  values of their columns there (\<open>spline_at\<close>, modelled from the module's
  contract since its code is not under src/). On top of the extraction lemmas for
  a call that returns, this theory shows the three properties of the templates:
  in direct mode they reproduce the fitted model at every grid mass; in fit mode
  every curve is sampled at the same dense partition of the observable range; and
  the call adds exactly four objects to the workspace and changes nothing else.
\<close>

definition spline_at :: "spline \<Rightarrow> real \<Rightarrow> (string \<times> real) list option" where
  "spline_at sp m =
     (if m \<in> set (spline_masses sp)
      then Some (map (\<lambda>c. (fst c, snd c ! index_of (spline_masses sp) m)) (spline_cols sp))
      else None)"

text \<open>The four names \<open>buildSpline\<close> writes for one Higgs mass, region and shift.\<close>

definition template_names :: "'h ext \<Rightarrow> int \<Rightarrow> string \<Rightarrow> string set" where
  "template_names E h tag =
     {spline_name E h tag @ ''_x'', spline_name E h tag @ ''_y'', spline_name E h tag,
      ''integral_'' @ spline_name E h tag}"

text \<open>A template's values at a node are the fit's values of the keys it was built
  from: the keyword \<open>fst kk\<close> of the spline carries the value the fit reported
  under the key \<open>snd kk\<close>.\<close>

definition node_values :: "real dict \<Rightarrow> (string \<times> string) list \<Rightarrow> (string \<times> real) list \<Rightarrow> bool" where
  "node_values res kws cs \<longleftrightarrow> list_all2 (\<lambda>kk c. fst c = fst kk \<and> res (snd kk) = Some (snd c)) kws cs"

definition x_keywords :: "(string \<times> string) list" where
  "x_keywords = [(''means'', ''mean_sigx''), (''widths'', ''width_sigx''), (''sigmas'', ''sigma_sigx'')]"

text \<open>A concrete interface and histogram map for the worked examples: every fit
  reports 1 for every parameter, every graph fit evaluates to 0, every signal
  integral is 1 and every histogram is present.\<close>

definition demo_ext :: "unit ext" where
  "demo_ext = \<lparr>fit2D = \<lambda>ms hist. (\<lambda>k. Some 1, \<lambda>k. Some 1), graphFit = \<lambda>fn xs vs es x. 0,
      integral = \<lambda>hist. 1, SPLINENAME = \<lambda>h. ''sig''\<rparr>"

definition demo_hists :: "unit dict dict dict" where
  "demo_hists = (\<lambda>r. Some (\<lambda>s. Some (\<lambda>k. Some ())))"

subsection \<open>A call that returns\<close>

lemma buildSpline_Inr_cases:
  assumes "buildSpline E cfg histMap ws h region shift yFitFunc opts = Some (Inr ws')"
  obtains avals hr hm yf pts xs ys where
    "avals_of (AMASSES cfg) h = Inr avals" "histMap region = Some hr" "hr shift = Some hm"
    "yfunc_of yFitFunc = Some yf"
    "rmap (fit_point E cfg hm region opts yf h) (grid_amasses (AMASSES cfg) h) = Inr pts"
    "dense_samples (XRANGE cfg) = Some xs" "dense_samples (YRANGE cfg) = Some ys"
    "build_templates E hm ws h (spline_tag region shift) yf opts (grid_amasses (AMASSES cfg) h) avals pts xs ys = Inr ws'"
  using assms
  by (auto simp: buildSpline_def Let_def rbind_eq_Inr_iff getitem_eq_Inr_iff
      split: sum.splits option.splits if_splits prod.splits)

lemma build_templates_Inr_cases:
  assumes "build_templates E hm ws h tag yf opts amasses avals pts xs ys = Inr ws'"
  obtains fx fp sx sy ints where
    "param_curves E (fit opts) (fitFuncs yf) ''x'' avals pts xs xparameters Map.empty = Inr fx"
    "param_curves E (fit opts) (fitFuncs yf) ''y'' avals pts ys (yparameters yf) fx = Inr fp"
    "spline_x (fit opts) xs avals pts fp = Inr sx"
    "spline_y yf (fit opts) (ygausOnly opts) ys avals pts fp = Inr sy"
    "rmap (\<lambda>a. rbind (getitem hm (SIGNAME h a)) (\<lambda>hist. Inr (integral E hist))) amasses = Inr ints"
    "ws' = add_templates E ws h tag avals ints sx sy"
  using assms by (auto simp: build_templates_def rbind_eq_Inr_iff)

subsection \<open>The workspace objects\<close>

lemma template_names_distinct:
  "n @ ''_x'' \<noteq> n @ ''_y''" "n @ ''_x'' \<noteq> n" "n @ ''_y'' \<noteq> n"
  "''integral_'' @ n \<noteq> n @ ''_x''" "''integral_'' @ n \<noteq> n @ ''_y''" "''integral_'' @ n \<noteq> n"
proof -
  have l: "length (''integral_'' @ n) \<noteq> length (n @ ''_x'')" "length (''integral_'' @ n) \<noteq> length (n @ ''_y'')"
    "length (''integral_'' @ n) \<noteq> length n"
    by simp_all
  show "n @ ''_x'' \<noteq> n @ ''_y''" "n @ ''_x'' \<noteq> n" "n @ ''_y'' \<noteq> n" by simp_all
  show "''integral_'' @ n \<noteq> n @ ''_x''" "''integral_'' @ n \<noteq> n @ ''_y''" "''integral_'' @ n \<noteq> n"
    using l by metis+
qed

lemma add_templates_lookup:
  "add_templates E ws h tag avals ints sx sy (spline_name E h tag @ ''_x'') = Some (WSpline sx)"
  "add_templates E ws h tag avals ints sx sy (spline_name E h tag @ ''_y'') = Some (WSpline sy)"
  "add_templates E ws h tag avals ints sx sy (spline_name E h tag) =
     Some (WProdSpline (spline_name E h tag @ ''_x'') (spline_name E h tag @ ''_y'') avals ints)"
  "add_templates E ws h tag avals ints sx sy (''integral_'' @ spline_name E h tag) =
     Some (WIntegral (spline_name E h tag))"
  by (simp_all add: add_templates_def Let_def template_names_distinct template_names_distinct [symmetric])

lemma add_templates_frame:
  "k \<notin> template_names E h tag \<Longrightarrow> add_templates E ws h tag avals ints sx sy k = ws k"
  by (simp add: add_templates_def template_names_def Let_def)

lemma add_templates_dom:
  "dom (add_templates E ws h tag avals ints sx sy) = dom ws \<union> template_names E h tag"
  by (auto simp: add_templates_def template_names_def Let_def)

subsection \<open>Node values\<close>

lemma spline_at_node:
  assumes "distinct ms" and "i < length ms"
  shows "spline_at (Spline fam v ms cs) (ms ! i) = Some (map (\<lambda>c. (fst c, snd c ! i)) cs)"
  using assms by (simp add: spline_at_def index_of_nth)

text \<open>Each column of a direct spline is the grid's column of its key.\<close>

lemma direct_cols_nth:
  assumes "direct_cols pts kws = Inr cs" and "i < length pts"
  shows "list_all2 (\<lambda>kk c. fst c = fst kk \<and> fst (pts ! i) (snd kk) = Some (snd c ! i)) kws cs"
proof -
  have "list_all2 (\<lambda>kk c. rbind (res_column pts (snd kk)) (\<lambda>col. Inr (fst kk, col)) = Inr c) kws cs"
    using assms(1) by (simp add: direct_cols_def rmap_eq_Inr_iff)
  then show ?thesis
    by (rule list_all2_mono) (auto simp: rbind_eq_Inr_iff intro: res_column_nth [OF _ assms(2)])
qed

text \<open>The fit result of the \<open>i\<close>-th grid mass, as the loop of lines 163--329
  computes it.\<close>

lemma fit_points_nth:
  assumes "rmap (fit_point E cfg hm region opts yf h) am = Inr pts"
    and "rmap aval_of am = Inr avals" and "i < length am"
    and "hm (SIGNAME h (am ! i)) = Some hist"
  shows "pts ! i = fit2D E (sig_point cfg region opts yf (of_int h) (avals ! i)) hist"
proof -
  from rmap_Inr_nth [OF assms(2,3)] have "aval_of (am ! i) = Inr (avals ! i)" .
  with assms(4) have "fit_point E cfg hm region opts yf h (am ! i) =
      Inr (fit2D E (sig_point cfg region opts yf (of_int h) (avals ! i)) hist)"
    by (simp add: fit_point_def)
  with rmap_Inr_nth [OF assms(1,3)] show ?thesis by simp
qed

text \<open>In direct mode the \<open>x\<close> spline has the columns of lines 459--465 and the
  \<open>y\<close> spline those of the branch of \<open>yFitFunc\<close>, both keyed by the grid.\<close>

lemma spline_x_direct:
  "spline_x False xs avals pts fp = Inr sx \<Longrightarrow>
   \<exists>cs. direct_cols pts x_keywords = Inr cs \<and> sx = Spline Voigtian None avals cs"
  by (auto simp: spline_x_def direct_cols_def x_keywords_def rbind_eq_Inr_iff)

lemma spline_y_direct:
  "spline_y yf False gaus ys avals pts fp = Inr sy \<Longrightarrow>
   \<exists>cs. direct_cols pts (snd (direct_y yf)) = Inr cs \<and> sy = Spline (fst (direct_y yf)) None avals cs"
  by (auto simp: spline_y_def rbind_eq_Inr_iff)

lemma direct_spline_node:
  assumes "direct_cols pts kws = Inr cs" and "distinct avals" and "length pts = length avals"
    and "i < length avals"
  shows "\<exists>c. spline_at (Spline fam v avals cs) (avals ! i) = Some c \<and> node_values (fst (pts ! i)) kws c"
proof -
  from direct_cols_nth [OF assms(1)] assms(3,4)
  have "list_all2 (\<lambda>kk c. fst c = fst kk \<and> fst (pts ! i) (snd kk) = Some (snd c ! i)) kws cs" by simp
  then have "node_values (fst (pts ! i)) kws (map (\<lambda>c. (fst c, snd c ! i)) cs)"
    by (simp add: node_values_def list_all2_map2)
  with spline_at_node [OF assms(2,4)] show ?thesis by blast
qed

text \<open>
  C3 (round trip of the direct mode): when \<open>buildSpline\<close> returns in direct mode
  over a grid of distinct masses, the \<open>x\<close> and \<open>y\<close> splines it stores, queried
  at each grid mass, give back exactly the parameter values the fit of that mass
  point reported, under the keywords of lines 459--465 and of the \<open>yFitFunc\<close>
  branch of lines 479--537: the composite template reduces to the fitted model at
  every grid point.
\<close>

theorem buildSpline_direct_roundtrip:
  assumes "buildSpline E cfg histMap ws h region shift yFitFunc opts = Some (Inr ws')"
    and "\<not> fit opts"
    and "avals_of (AMASSES cfg) h = Inr avals" and "distinct avals"
    and "histMap region = Some hr" and "hr shift = Some hm"
    and "yfunc_of yFitFunc = Some yf" and "i < length avals"
    and "hm (SIGNAME h (grid_amasses (AMASSES cfg) h ! i)) = Some hist"
  shows "\<exists>sx sy cx cy.
     ws' (spline_name E h (spline_tag region shift) @ ''_x'') = Some (WSpline sx) \<and>
     ws' (spline_name E h (spline_tag region shift) @ ''_y'') = Some (WSpline sy) \<and>
     spline_at sx (avals ! i) = Some cx \<and> spline_at sy (avals ! i) = Some cy \<and>
     node_values (fst (fit2D E (sig_point cfg region opts yf (of_int h) (avals ! i)) hist)) x_keywords cx \<and>
     node_values (fst (fit2D E (sig_point cfg region opts yf (of_int h) (avals ! i)) hist)) (snd (direct_y yf)) cy"
proof -
  let ?am = "grid_amasses (AMASSES cfg) h"
  obtain pts xs ys where
    p: "rmap (fit_point E cfg hm region opts yf h) ?am = Inr pts"
    and b: "build_templates E hm ws h (spline_tag region shift) yf opts ?am avals pts xs ys = Inr ws'"
    using buildSpline_Inr_cases [OF assms(1)] assms(3,5,6,7) by (metis option.inject sum.inject(2))
  obtain fp sx sy ints where
    sx: "spline_x False xs avals pts fp = Inr sx" and sy: "spline_y yf False (ygausOnly opts) ys avals pts fp = Inr sy"
    and w: "ws' = add_templates E ws h (spline_tag region shift) avals ints sx sy"
    using build_templates_Inr_cases [OF b] assms(2) by (metis (full_types))
  have av: "rmap aval_of ?am = Inr avals" using assms(3) by (simp add: avals_of_def)
  have len: "length pts = length avals" "i < length ?am"
    using rmap_Inr_length [OF p] rmap_Inr_length [OF av] assms(8) by simp_all
  have pt: "pts ! i = fit2D E (sig_point cfg region opts yf (of_int h) (avals ! i)) hist"
    by (rule fit_points_nth [OF p av len(2) assms(9)])
  obtain csx where csx: "direct_cols pts x_keywords = Inr csx" and ex: "sx = Spline Voigtian None avals csx"
    using spline_x_direct [OF sx] by blast
  obtain csy where csy: "direct_cols pts (snd (direct_y yf)) = Inr csy"
    and ey: "sy = Spline (fst (direct_y yf)) None avals csy"
    using spline_y_direct [OF sy] by blast
  show ?thesis
    using direct_spline_node [OF csx assms(4) len(1) assms(8), of Voigtian None]
      direct_spline_node [OF csy assms(4) len(1) assms(8), of "fst (direct_y yf)" None]
    unfolding w ex ey pt by (simp add: add_templates_lookup) blast
qed

text \<open>With the demo interface the call returns for the Voigtian family in both
  modes.\<close>

text \<open>Every call with \<open>yFitFunc = 'V'\<close> whose inputs are present returns, in either
  mode.\<close>

lemma buildSpline_V_Inr:
  assumes "fit_reports_params E" and "avals_of (AMASSES cfg) h = Inr avals"
    and "histMap region = Some hr" and "hr shift = Some hm"
    and "\<forall>a\<in>set (grid_amasses (AMASSES cfg) h). hm (SIGNAME h a) \<noteq> None"
    and "fst (XRANGE cfg) < snd (XRANGE cfg)" and "fst (YRANGE cfg) < snd (YRANGE cfg)"
  shows "\<exists>ws'. buildSpline E cfg histMap ws h region shift ''V'' opts = Some (Inr ws')"
proof -
  have v: "yfunc_of ''V'' = Some V" by (simp add: yfunc_of_def)
  obtain pts where "rmap (fit_point E cfg hm region opts V h) (grid_amasses (AMASSES cfg) h) = Inr pts"
    and keys: "\<forall>re\<in>set pts. has_keys (needed_keys V) re"
    and b: "buildSpline E cfg histMap ws h region shift ''V'' opts =
           Some (build_templates E hm ws h (spline_tag region shift) V opts (grid_amasses (AMASSES cfg) h) avals pts
             (grid_points (fst (XRANGE cfg)) ((snd (XRANGE cfg) - fst (XRANGE cfg)) / 100) 101)
             (grid_points (fst (YRANGE cfg)) ((snd (YRANGE cfg) - fst (YRANGE cfg)) / 100) 101))"
    by (rule buildSpline_templates [where histMap = histMap and region = region and hr = hr
        and shift = shift and hm = hm, OF assms v])
  have "\<exists>ws'. build_templates E hm ws h (spline_tag region shift) V opts (grid_amasses (AMASSES cfg) h) avals pts
             (grid_points (fst (XRANGE cfg)) ((snd (XRANGE cfg) - fst (XRANGE cfg)) / 100) 101)
             (grid_points (fst (YRANGE cfg)) ((snd (YRANGE cfg) - fst (YRANGE cfg)) / 100) 101) = Inr ws'"
    using build_templates_Inr_iff [OF keys assms(5)] by simp
  with b show ?thesis by auto
qed

text \<open>A call whose first grid mass has no signal histogram raises \<open>KeyError\<close> on
  its name (line 326), before anything is fitted.\<close>

lemma buildSpline_signal_KeyError:
  assumes "avals_of (AMASSES cfg) h = Inr avals" and "histMap region = Some hr" and "hr shift = Some hm"
    and "yfunc_of yFitFunc = Some yf" and "grid_amasses (AMASSES cfg) h = a # as"
    and "aval_of a = Inr v" and "hm (SIGNAME h a) = None"
  shows "buildSpline E cfg histMap ws h region shift yFitFunc opts = Some (Inl (KeyError (SIGNAME h a)))"
  using assms by (simp add: buildSpline_def Let_def fit_point_def)

lemma demo_buildSpline_V:
  "\<exists>ws'. buildSpline demo_ext runner_cfg demo_hists ws 125 ''PP'' [] ''V'' opts = Some (Inr ws')"
proof (rule buildSpline_V_Inr)
  show "fit_reports_params demo_ext" by (simp add: fit_reports_params_def demo_ext_def)
  show "avals_of (AMASSES runner_cfg) 125 = Inr [3.6, 4, 5, 6, 7, 9, 11, 13, 15, 17, 19, 21]"
    by (simp add: avals_runner_cases)
  show "demo_hists ''PP'' = Some (\<lambda>s. Some (\<lambda>k. Some ()))" and "(\<lambda>s. Some (\<lambda>k. Some ())) [] = Some (\<lambda>k. Some ())"
    and "\<forall>a\<in>set (grid_amasses (AMASSES runner_cfg) 125). (\<lambda>k. Some ()) (SIGNAME 125 a) \<noteq> None"
    by (simp_all add: demo_hists_def)
  show "fst (XRANGE runner_cfg) < snd (XRANGE runner_cfg)" and "fst (YRANGE runner_cfg) < snd (YRANGE runner_cfg)"
    by (simp_all add: runner_cfg_def)
qed

lemma demo_facts:
  "avals_of (AMASSES runner_cfg) 125 = Inr [3.6, 4, 5, 6, 7, 9, 11, 13, 15, 17, 19, 21]"
  "demo_hists ''PP'' = Some (\<lambda>s. Some (\<lambda>k. Some ()))"
  "yfunc_of ''V'' = Some V"
  "spline_name demo_ext 125 (spline_tag ''PP'' []) = ''sig_PP''"
  "fst (XRANGE runner_cfg) < snd (XRANGE runner_cfg)" "fst (YRANGE runner_cfg) < snd (YRANGE runner_cfg)"
     apply (simp add: avals_runner_cases)
    apply (simp_all add: demo_hists_def yfunc_of_def spline_name_def spline_tag_def demo_ext_def runner_cfg_def)
  done

theorem buildSpline_direct_roundtrip_witness:
  "\<exists>ws'. buildSpline demo_ext runner_cfg demo_hists Map.empty 125 ''PP'' [] ''V''
      \<lparr>fit = False, ygausOnly = False, doBackgroundSignal = False\<rparr> = Some (Inr ws') \<and>
   (\<exists>sx sy cx cy.
     ws' ''sig_PP_x'' = Some (WSpline sx) \<and> ws' ''sig_PP_y'' = Some (WSpline sy) \<and>
     spline_at sx 3.6 = Some cx \<and> spline_at sy 3.6 = Some cy \<and>
     node_values (\<lambda>k. Some 1) x_keywords cx \<and> node_values (\<lambda>k. Some 1) (snd (direct_y V)) cy)"
proof -
  let ?o = "\<lparr>fit = False, ygausOnly = False, doBackgroundSignal = False\<rparr>"
  obtain ws' where r: "buildSpline demo_ext runner_cfg demo_hists Map.empty 125 ''PP'' [] ''V'' ?o = Some (Inr ws')"
    using demo_buildSpline_V by blast
  have d: "distinct [3.6::real, 4, 5, 6, 7, 9, 11, 13, 15, 17, 19, 21]"
    and i: "0 < length [3.6::real, 4, 5, 6, 7, 9, 11, 13, 15, 17, 19, 21]"
    and f: "\<not> fit ?o" and h4: "(\<lambda>s. Some (\<lambda>k. Some ())) [] = Some ((\<lambda>k. Some ()) :: unit dict)"
    and s: "(\<lambda>k. Some ()) (SIGNAME 125 (grid_amasses (AMASSES runner_cfg) 125 ! 0)) = Some ()"
    by simp_all
  show ?thesis
    using r buildSpline_direct_roundtrip [OF r f demo_facts(1) d demo_facts(2) h4 demo_facts(3) i s]
    unfolding demo_facts(4) by (auto simp: demo_ext_def)
qed

subsection \<open>Fit mode: the curves and their sample points\<close>

text \<open>The parameter loop writes only the keys of its own axis.\<close>

lemma param_curves_frame:
  "param_curves E fitp ff ax avals pts smp ps fp = Inr fp' \<Longrightarrow> k \<notin> (\<lambda>p. ax @ p) ` set ps \<Longrightarrow>
   fp' k = fp k"
proof (induction ps arbitrary: fp)
  case Nil
  then show ?case by simp
next
  case (Cons p ps)
  then show ?case
    by (auto simp: rbind_eq_Inr_iff getitem_eq_Inr_iff split: if_splits)
qed

lemma axes_disjoint: "''y'' @ q \<notin> (\<lambda>p. ''x'' @ p) ` S" "''x'' @ q \<notin> (\<lambda>p. ''y'' @ p) ` S"
  by auto

text \<open>After both loops, an \<open>x\<close> curve is sampled at \<open>xs\<close> and a \<open>y\<close> curve at
  \<open>ys\<close>, each a polynomial fitted over the grid masses \<open>avals\<close>.\<close>

lemma fitted_curve_x:
  assumes "param_curves E fitp ff ''x'' avals pts xs xps Map.empty = Inr fx"
    and "param_curves E fitp ff ''y'' avals pts ys yps fx = Inr fp"
    and "fp (''x'' @ q) = Some v"
  shows "\<exists>fn vals errs. v = map (graphFit E fn avals vals errs) xs"
proof -
  from param_curves_frame [OF assms(2) axes_disjoint(2)] assms(3) have "fx (''x'' @ q) = Some v" by simp
  with param_curves_values [OF assms(1), of "''x'' @ q"] show ?thesis by simp
qed

lemma fitted_curve_y:
  assumes "param_curves E fitp ff ''x'' avals pts xs xps Map.empty = Inr fx"
    and "param_curves E fitp ff ''y'' avals pts ys yps fx = Inr fp"
    and "fp (''y'' @ q) = Some v"
  shows "\<exists>fn vals errs. v = map (graphFit E fn avals vals errs) ys"
proof -
  from param_curves_frame [OF assms(1) axes_disjoint(1)] have "fx (''y'' @ q) = None" by simp
  with param_curves_values [OF assms(2), of "''y'' @ q"] assms(3) show ?thesis by auto
qed

lemma spline_x_fit:
  "spline_x True xs avals pts fp = Inr sx \<Longrightarrow>
   \<exists>ms ws ss. fp ''xmean'' = Some ms \<and> fp ''xwidth'' = Some ws \<and> fp ''xsigma'' = Some ss \<and>
     sx = Spline Voigtian None xs [(''means'', ms), (''widths'', ws), (''sigmas'', ss)]"
  by (auto simp: spline_x_def rbind_eq_Inr_iff getitem_eq_Inr_iff)

lemma spline_y_fit:
  "spline_y yf True gaus ys avals pts fp = Inr sy \<Longrightarrow>
   \<exists>ms ws ss. fp ''ymean'' = Some ms \<and> (if gaus then ws = [] else fp ''ywidth'' = Some ws) \<and>
     fp ''ysigma'' = Some ss \<and>
     sy = Spline (if gaus then Gaussian else Voigtian) (Some ''y'') ys [(''means'', ms), (''widths'', ws), (''sigmas'', ss)]"
  by (cases gaus) (auto simp: spline_y_def rbind_eq_Inr_iff getitem_eq_Inr_iff)


text \<open>In fit mode every column of the \<open>x\<close> spline is a fitted curve sampled at
  \<open>xs\<close>, and every column of the \<open>y\<close> spline, over the observable \<open>y\<close>, one
  sampled at \<open>ys\<close> or the empty width of a Gaussian.\<close>

lemma spline_x_fit_columns:
  assumes cx: "param_curves E True ff ''x'' avals pts xs xps Map.empty = Inr fx"
    and cy: "param_curves E True ff ''y'' avals pts ys yps fx = Inr fp"
    and sx: "spline_x True xs avals pts fp = Inr sx"
  shows "spline_masses sx = xs \<and>
         (\<forall>c\<in>set (spline_cols sx). \<exists>fn vals errs. snd c = map (graphFit E fn avals vals errs) xs)"
proof -
  from spline_x_fit [OF sx] obtain m w sg where
    x: "fp ''xmean'' = Some m" "fp ''xwidth'' = Some w" "fp ''xsigma'' = Some sg"
    and e: "sx = Spline Voigtian None xs [(''means'', m), (''widths'', w), (''sigmas'', sg)]"
    by blast
  note f = fitted_curve_x [OF cx cy]
  show ?thesis
    unfolding e using f [of "''mean''" m] f [of "''width''" w] f [of "''sigma''" sg] x by simp
qed

lemma spline_y_fit_columns:
  assumes cx: "param_curves E True ff ''x'' avals pts xs xps Map.empty = Inr fx"
    and cy: "param_curves E True ff ''y'' avals pts ys yps fx = Inr fp"
    and sy: "spline_y yf True gaus ys avals pts fp = Inr sy"
  shows "spline_masses sy = ys \<and> spline_var sy = Some ''y'' \<and>
         (\<forall>c\<in>set (spline_cols sy). snd c = [] \<or>
            (\<exists>fn vals errs. snd c = map (graphFit E fn avals vals errs) ys))"
proof -
  from spline_y_fit [OF sy] obtain m w sg where
    y: "fp ''ymean'' = Some m" "if gaus then w = [] else fp ''ywidth'' = Some w" "fp ''ysigma'' = Some sg"
    and e: "sy = Spline (if gaus then Gaussian else Voigtian) (Some ''y'') ys
                [(''means'', m), (''widths'', w), (''sigmas'', sg)]"
    by blast
  note f = fitted_curve_y [OF cx cy]
  have "w = [] \<or> (\<exists>fn vals errs. w = map (graphFit E fn avals vals errs) ys)"
    using y(2) f [of "''width''" w] by (simp split: if_splits)
  then show ?thesis
    unfolding e using f [of "''mean''" m] f [of "''sigma''" sg] y(1,3) by simp
qed

text \<open>
  C4 (functional behaviour of the fit mode): when \<open>buildSpline\<close> returns in fit
  mode, both splines it stores are keyed by the samples of the loops of lines
  393--402, the \<open>x\<close> spline by those over \<open>XRANGE\<close> and the \<open>y\<close> spline,
  built with \<open>x='y'\<close>, by those over \<open>YRANGE\<close>, and every column (but the
  empty widths of \<open>ygausOnly\<close>) is a polynomial fitted over the grid masses and
  evaluated at those samples. The \<open>y\<close> curves are thus fitted as functions of
  the pseudoscalar mass but evaluated at samples of the \<open>y\<close> observable's range
  (lines 443 and 473). The statement holds whatever points the loops return.
\<close>

theorem buildSpline_fit_samples:
  assumes "buildSpline E cfg histMap ws h region shift yFitFunc opts = Some (Inr ws')"
    and "fit opts" and "avals_of (AMASSES cfg) h = Inr avals"
  shows "\<exists>sx sy xs ys.
     dense_samples (XRANGE cfg) = Some xs \<and> dense_samples (YRANGE cfg) = Some ys \<and>
     ws' (spline_name E h (spline_tag region shift) @ ''_x'') = Some (WSpline sx) \<and>
     ws' (spline_name E h (spline_tag region shift) @ ''_y'') = Some (WSpline sy) \<and>
     spline_masses sx = xs \<and> spline_masses sy = ys \<and> spline_var sy = Some ''y'' \<and>
     (\<forall>c\<in>set (spline_cols sx). \<exists>fn vals errs. snd c = map (graphFit E fn avals vals errs) xs) \<and>
     (\<forall>c\<in>set (spline_cols sy). snd c = [] \<or>
        (\<exists>fn vals errs. snd c = map (graphFit E fn avals vals errs) ys))"
proof -
  let ?am = "grid_amasses (AMASSES cfg) h"
  obtain hm yf pts xs ys where
    xs: "dense_samples (XRANGE cfg) = Some xs" and ys: "dense_samples (YRANGE cfg) = Some ys"
    and b: "build_templates E hm ws h (spline_tag region shift) yf opts ?am avals pts xs ys = Inr ws'"
    using buildSpline_Inr_cases [OF assms(1)] assms(3) by (metis sum.inject(2))
  obtain fx fp sx sy ints where
    cx: "param_curves E (fit opts) (fitFuncs yf) ''x'' avals pts xs xparameters Map.empty = Inr fx"
    and cy: "param_curves E (fit opts) (fitFuncs yf) ''y'' avals pts ys (yparameters yf) fx = Inr fp"
    and sx: "spline_x (fit opts) xs avals pts fp = Inr sx"
    and sy: "spline_y yf (fit opts) (ygausOnly opts) ys avals pts fp = Inr sy"
    and w: "ws' = add_templates E ws h (spline_tag region shift) avals ints sx sy"
    by (rule build_templates_Inr_cases [OF b])
  have fo: "fit opts = True" using assms(2) by simp
  note X = spline_x_fit_columns [OF cx [unfolded fo] cy [unfolded fo] sx [unfolded fo]]
  note Y = spline_y_fit_columns [OF cx [unfolded fo] cy [unfolded fo] sy [unfolded fo]]
  have lx: "ws' (spline_name E h (spline_tag region shift) @ ''_x'') = Some (WSpline sx)"
    and ly: "ws' (spline_name E h (spline_tag region shift) @ ''_y'') = Some (WSpline sy)"
    unfolding w by (rule add_templates_lookup)+
  show ?thesis using xs ys lx ly X Y by blast
qed

theorem buildSpline_fit_samples_witness:
  "\<exists>ws'. buildSpline demo_ext runner_cfg demo_hists Map.empty 125 ''PP'' [] ''V''
      \<lparr>fit = True, ygausOnly = False, doBackgroundSignal = False\<rparr> = Some (Inr ws') \<and>
   (\<exists>sy ys. dense_samples (0, 1200) = Some ys \<and> ws' ''sig_PP_y'' = Some (WSpline sy) \<and>
     spline_masses sy = ys \<and> spline_var sy = Some ''y'')"
proof -
  let ?o = "\<lparr>fit = True, ygausOnly = False, doBackgroundSignal = False\<rparr>"
  obtain ws' where r: "buildSpline demo_ext runner_cfg demo_hists Map.empty 125 ''PP'' [] ''V'' ?o = Some (Inr ws')"
    using demo_buildSpline_V by blast
  have f: "fit ?o" by simp
  show ?thesis
    using r buildSpline_fit_samples [OF r f demo_facts(1)]
    unfolding demo_facts(4) by (auto simp: runner_cfg_def)
qed


subsection \<open>The workspace frame\<close>

text \<open>A call that returns leaves the workspace it was given, with the four
  templates added.\<close>

lemma buildSpline_Inr_templates:
  assumes "buildSpline E cfg histMap ws h region shift yFitFunc opts = Some (Inr ws')"
  obtains avals ints sx sy where "ws' = add_templates E ws h (spline_tag region shift) avals ints sx sy"
proof -
  obtain hm yf avals pts xs ys where
    b: "build_templates E hm ws h (spline_tag region shift) yf opts (grid_amasses (AMASSES cfg) h) avals pts xs ys = Inr ws'"
    using buildSpline_Inr_cases [OF assms] by metis
  obtain sx sy ints where "ws' = add_templates E ws h (spline_tag region shift) avals ints sx sy"
    by (rule build_templates_Inr_cases [OF b])
  then show ?thesis by (rule that)
qed

lemma buildSpline_dom:
  "buildSpline E cfg histMap ws h region shift yFitFunc opts = Some (Inr ws') \<Longrightarrow>
   dom ws' = dom ws \<union> template_names E h (spline_tag region shift)"
  by (erule buildSpline_Inr_templates) (simp add: add_templates_dom)

lemma template_names_card: "card (template_names E h tag) = 4"
  by (simp add: template_names_def template_names_distinct template_names_distinct [symmetric])

text \<open>
  C5 (frame of the workspace update): a call of \<open>buildSpline\<close> that returns adds
  exactly four distinct objects to the workspace, the \<open>x\<close> and \<open>y\<close> splines, their
  product and its integral (lines 467, 539, 571 and 572), under names derived from
  \<open>SPLINENAME\<close>, the region and the shift, and leaves every other entry as it was.
\<close>

theorem buildSpline_frame:
  assumes "buildSpline E cfg histMap ws h region shift yFitFunc opts = Some (Inr ws')"
  shows "dom ws' = dom ws \<union> template_names E h (spline_tag region shift) \<and>
         card (template_names E h (spline_tag region shift)) = 4 \<and>
         (\<forall>k. k \<notin> template_names E h (spline_tag region shift) \<longrightarrow> ws' k = ws k)"
proof -
  obtain avals ints sx sy where w: "ws' = add_templates E ws h (spline_tag region shift) avals ints sx sy"
    by (rule buildSpline_Inr_templates [OF assms])
  show ?thesis
    unfolding w by (simp add: add_templates_dom add_templates_frame template_names_card)
qed

theorem buildSpline_frame_witness:
  "\<exists>ws'. buildSpline demo_ext runner_cfg demo_hists Map.empty 125 ''PP'' [] ''V''
      \<lparr>fit = False, ygausOnly = False, doBackgroundSignal = False\<rparr> = Some (Inr ws') \<and>
   dom ws' = {''sig_PP_x'', ''sig_PP_y'', ''sig_PP'', ''integral_sig_PP''} \<and> ws' ''sig'' = None"
proof -
  obtain ws' where r: "buildSpline demo_ext runner_cfg demo_hists Map.empty 125 ''PP'' [] ''V''
      \<lparr>fit = False, ygausOnly = False, doBackgroundSignal = False\<rparr> = Some (Inr ws')"
    using demo_buildSpline_V by blast
  have n: "template_names demo_ext 125 (spline_tag ''PP'' []) = {''sig_PP_x'', ''sig_PP_y'', ''sig_PP'', ''integral_sig_PP''}"
    using demo_facts(4) by (simp add: template_names_def)
  show ?thesis using r buildSpline_frame [OF r] unfolding n by auto
qed

end
