(* ===== verification/Driver.thy ===== *)
theory Driver
  imports Templates
begin

text \<open>
  The methods of \<open>HaaLimits2D\<close> that build the background and signal models
  (HaaLimits2D.py, lines 60--141 and 574--692), as operations on the state of the
  limits object: the RooWorkspace (\<open>workspace\<close>, the objects of \<open>wsobj\<close>), the
  datasets imported into it (\<open>datasets\<close>, kept apart because their type is the
  histogram type \<open>'h\<close>) and the datacard (\<open>card\<close>). The datacard operations
  \<open>addBin\<close>, \<open>addProcess\<close>, \<open>setExpected\<close>, \<open>addRateParam\<close> and
  \<open>setObserved\<close> belong to the base class \<open>Limits\<close>, which is not under src/:
  they are modelled from their names as updates of the card. A lookup in the
  workspace that finds nothing returns \<open>None\<close> in ROOT, and the method then called
  on it raises \<open>AttributeError\<close>.
\<close>

record datacard =
  dc_bins :: "string list"
  dc_processes :: "(string \<times> bool) list"
  dc_expected :: "(string \<times> string) \<rightharpoonup> real"
  dc_rateParams :: "(string \<times> string \<times> string) list"
  dc_observed :: "string \<rightharpoonup> real"

definition addBin :: "string \<Rightarrow> datacard \<Rightarrow> datacard" where
  "addBin b dc = dc\<lparr>dc_bins := dc_bins dc @ [b]\<rparr>"

definition addProcess :: "string \<Rightarrow> bool \<Rightarrow> datacard \<Rightarrow> datacard" where
  "addProcess p signal dc = dc\<lparr>dc_processes := dc_processes dc @ [(p, signal)]\<rparr>"

definition setExpected :: "string \<Rightarrow> string \<Rightarrow> real \<Rightarrow> datacard \<Rightarrow> datacard" where
  "setExpected p b v dc = dc\<lparr>dc_expected := (dc_expected dc)((p, b) \<mapsto> v)\<rparr>"

definition addRateParam :: "string \<Rightarrow> string \<Rightarrow> string \<Rightarrow> datacard \<Rightarrow> datacard" where
  "addRateParam n b p dc = dc\<lparr>dc_rateParams := dc_rateParams dc @ [(n, b, p)]\<rparr>"

definition setObserved :: "string \<Rightarrow> real \<Rightarrow> datacard \<Rightarrow> datacard" where
  "setObserved b v dc = dc\<lparr>dc_observed := (dc_observed dc)(b \<mapsto> v)\<rparr>"

text \<open>A dataset of the workspace: built from a histogram or dataset of the map, or
  generated (Asimov) from a pdf with a number of events, with the events of a
  signal pdf appended.\<close>

datatype 'h dataobs = DataObs 'h | Asimov string int "(string \<times> int) option"

record 'h limits_state =
  workspace :: "wsobj dict"
  datasets :: "'h dataobs dict"
  card :: datacard

text \<open>The external operations the driver needs beyond those of \<open>buildSpline\<close>:
  the integral of the control data over \<open>XRANGE\<close> only (lines 729--732), and the
  value of a workspace function at \<open>MH = ma\<close> (line 660).\<close>

record 'h driver_ext = "'h ext" +
  controlIntegral :: "'h \<Rightarrow> real"
  funcVal :: "string \<Rightarrow> real \<Rightarrow> real"

definition ws_pdf :: "wsobj dict \<Rightarrow> string \<Rightarrow> wsobj option" where
  "ws_pdf ws n = (case ws n of
                    Some (WPdf m) \<Rightarrow> Some (WPdf m) | Some (WBasePdf b) \<Rightarrow> Some (WBasePdf b)
                  | Some (WProdSpline nx ny av ints) \<Rightarrow> Some (WProdSpline nx ny av ints)
                  | _ \<Rightarrow> None)"

subsection \<open>The background model\<close>

text \<open>\<open>_buildYModel\<close>, lines 60--119: the models built, in order, with the
  workspace name each is built under; \<open>tag\<close> defaults to the region.\<close>

definition buildYModel :: "limits_cfg \<Rightarrow> string \<Rightarrow> string \<Rightarrow> (string \<times> model) list" where
  "buildYModel cfg region tag =
     (let sfx = (if tag \<noteq> [] then ''_'' @ tag else []);
          nameC1 = ''cont1'' @ sfx; nameE1 = ''erf1'' @ sfx;
          cont1 = Shape ''cont1'' Exponential ''y'' [mk_par ''lamb'' (-0.1) (-0.5) 0] in
      if snd (YRANGE cfg) > 100 then
        [(nameC1, cont1),
         (nameE1, Shape ''erf1'' Erf ''y'' [mk_par ''erfScale'' 0.01 0 1, mk_par ''erfShift'' 100 0 1000]),
         (''bg_'' @ region, Prod ''bg'' [nameE1, nameC1])]
      else
        (let nameEC1 = ''erfc1'' @ sfx; nameG1 = ''gaus1'' @ sfx in
         [(nameC1, cont1),
          (nameE1, Shape ''erf1'' Erf ''y'' [mk_par ''erfScale'' 0.01 0 1, mk_par ''erfShift'' 1 0 20]),
          (nameEC1, Prod ''erfc1'' [nameE1, nameC1]),
          (nameG1, Shape ''gaus1'' Gaussian ''y'' [mk_par ''mean'' 2 0 20, mk_par ''sigma'' 0.1 0 2]),
          (''bg_'' @ region, Sum ''bg'' [mk_par nameEC1 0.5 0 1, mk_par nameG1 0.5 0 1] True)]))"

definition build_models :: "wsobj dict \<Rightarrow> (string \<times> model) list \<Rightarrow> wsobj dict" where
  "build_models ws bs = foldl (\<lambda>w b. w(fst b \<mapsto> WPdf (snd b))) ws bs"

text \<open>\<open>buildModel\<close>, lines 125--141: the \<open>x\<close> model of the base class
  (\<open>_buildXModel\<close>, which builds \<open>bg_{region}_x\<close>), the \<open>y\<close> model and their
  product.\<close>

definition buildModel :: "limits_cfg \<Rightarrow> string \<Rightarrow> wsobj dict \<Rightarrow> wsobj dict" where
  "buildModel cfg region ws =
     (let ws = ws(''bg_'' @ region @ ''_x'' \<mapsto> WBasePdf (''bg_'' @ region @ ''_x''));
          ws = build_models ws (buildYModel cfg (region @ ''_y'') (region @ ''_y'')) in
      ws(''bg_'' @ region \<mapsto> WPdf (Prod ''bg'' [''bg_'' @ region @ ''_x'', ''bg_'' @ region @ ''_y''])))"

text \<open>\<open>fitBackground\<close>, lines 574--636, for a region other than \<open>control\<close>: it
  reads the model and the data and fits; the fit changes parameter values only,
  which the model does not track, and the rest is plotting.\<close>

definition fitBackground :: "'h dict3 \<Rightarrow> wsobj dict \<Rightarrow> string \<Rightarrow> string \<Rightarrow> unit result" where
  "fitBackground histMap ws region shift =
     (let model = ws_pdf ws (''bg_'' @ region) in
      rbind (getitem histMap region) (\<lambda>hr. rbind (getitem hr shift) (\<lambda>hs.
      rbind (getitem hs ''dataNoSig'') (\<lambda>hist.
        if model = None then Inl (AttributeError ''fitTo'') else Inr ()))))"

text \<open>\<open>addBackgroundModels\<close>, lines 672--680 (\<open>fix\<close> only changes whether
  parameters float).\<close>

definition background_region :: "limits_cfg \<Rightarrow> 'h dict3 \<Rightarrow> string \<Rightarrow> 'h limits_state \<Rightarrow> 'h limits_state result" where
  "background_region cfg histMap region st =
     (let ws = buildModel cfg region (workspace st);
          ws = ws(''bg_'' @ region @ ''_norm'' \<mapsto> WVar 1 0 2) in
      rbind (fitBackground histMap ws region '''') (\<lambda>u. Inr (st\<lparr>workspace := ws\<rparr>)))"

definition addBackgroundModels :: "limits_cfg \<Rightarrow> 'h dict3 \<Rightarrow> 'h limits_state \<Rightarrow> 'h limits_state result" where
  "addBackgroundModels cfg histMap st = rfold (background_region cfg histMap) (REGIONS cfg) st"

subsection \<open>The signal models\<close>

text \<open>The calls of \<open>buildSpline\<close> for one region, in order (lines 684--691): the
  central shift once per Higgs mass, every other shift as \<open>Up\<close> then \<open>Down\<close>.\<close>

definition spline_calls :: "limits_cfg \<Rightarrow> (string \<times> int) list" where
  "spline_calls cfg =
     concat (map (\<lambda>shift. concat (map (\<lambda>h. if shift = [] then [([], h)]
                                            else [(shift @ ''Up'', h), (shift @ ''Down'', h)]) (HMASSES cfg)))
                 ([] # SHIFTS cfg))"

text \<open>Lines 682--692. The loop variable \<open>h\<close> outlives the loops: the factory call
  of line 692 is at the indentation of the region loop and names the norm after
  the last Higgs mass; with no Higgs mass it raises \<open>NameError\<close> (\<open>hvar\<close> is the
  binding of \<open>h\<close>, carried from one region to the next).\<close>

definition signal_region :: "'h ext \<Rightarrow> limits_cfg \<Rightarrow> 'h dict3 \<Rightarrow> string \<Rightarrow> spline_opts \<Rightarrow> string \<Rightarrow>
    'h limits_state \<times> int option \<Rightarrow> ('h limits_state \<times> int option) result option" where
  "signal_region E cfg histMap yFitFunc opts region sv =
     obind (ofold (\<lambda>c ws. buildSpline E cfg histMap ws (snd c) region (fst c) yFitFunc opts)
              (spline_calls cfg) (workspace (fst sv))) (\<lambda>ws.
       let hvar = (if HMASSES cfg = [] then snd sv else Some (last (HMASSES cfg))) in
       case hvar of
         None \<Rightarrow> Some (Inl (NameError ''h''))
       | Some h \<Rightarrow> Some (Inr ((fst sv)\<lparr>workspace :=
                     ws(SPLINENAME E h @ ''_'' @ region @ ''_norm'' \<mapsto> WVar 1 0 9999)\<rparr>, hvar)))"

definition addSignalModels :: "'h ext \<Rightarrow> limits_cfg \<Rightarrow> 'h dict3 \<Rightarrow> string \<Rightarrow> spline_opts \<Rightarrow>
    'h limits_state \<Rightarrow> 'h limits_state result option" where
  "addSignalModels E cfg histMap yFitFunc opts st =
     map_option (map_sum id fst) (ofold (signal_region E cfg histMap yFitFunc opts) (REGIONS cfg) (st, None))"

subsection \<open>References between workspace objects\<close>

text \<open>The names a workspace object refers to: the factors of a product, the
  components of a sum, the two splines of a product spline and the pdf of an
  integral.\<close>

fun model_refs :: "model \<Rightarrow> string list" where
  "model_refs (Shape _ _ _ _) = []"
| "model_refs (Prod _ ns) = ns"
| "model_refs (Sum _ ps _) = map pname ps"

fun obj_refs :: "wsobj \<Rightarrow> string list" where
  "obj_refs (WPdf m) = model_refs m"
| "obj_refs (WProdSpline nx ny _ _) = [nx, ny]"
| "obj_refs (WIntegral n) = [n]"
| "obj_refs _ = []"

text \<open>A list of builds refers only to names built before each entry.\<close>

fun refs_ok :: "string list \<Rightarrow> (string \<times> model) list \<Rightarrow> bool" where
  "refs_ok names [] = True"
| "refs_ok names (b # bs) = (set (model_refs (snd b)) \<subseteq> set names \<and> refs_ok (fst b # names) bs)"

definition ws_closed :: "wsobj dict \<Rightarrow> bool" where
  "ws_closed ws \<longleftrightarrow> (\<forall>n v. ws n = Some v \<longrightarrow> set (obj_refs v) \<subseteq> dom ws)"

text \<open>The names one pass of the background loop adds to the workspace.\<close>

definition bg_names :: "limits_cfg \<Rightarrow> string \<Rightarrow> string set" where
  "bg_names cfg r = {''bg_'' @ r @ ''_x'', ''bg_'' @ r, ''bg_'' @ r @ ''_norm''} \<union>
                    fst ` set (buildYModel cfg (r @ ''_y'') (r @ ''_y''))"

subsection \<open>Worked examples\<close>

text \<open>One region, no shift, one Higgs mass, with the demo interface.\<close>

definition demo_cfg :: limits_cfg where
  "demo_cfg = runner_cfg\<lparr>REGIONS := [''PP''], SHIFTS := [], HMASSES := [125]\<rparr>"

definition empty_card :: datacard where
  "empty_card = \<lparr>dc_bins = [], dc_processes = [], dc_expected = Map.empty, dc_rateParams = [],
                 dc_observed = Map.empty\<rparr>"

definition demo_state :: "unit limits_state" where
  "demo_state = \<lparr>workspace = Map.empty, datasets = Map.empty, card = empty_card\<rparr>"

subsection \<open>What the signal loop adds to the workspace\<close>

lemma spline_calls_dom:
  "ofold (\<lambda>c ws. buildSpline E cfg histMap ws (snd c) region (fst c) yFitFunc opts) cs ws = Some (Inr ws') \<Longrightarrow>
   dom ws' = dom ws \<union> (\<Union>c\<in>set cs. template_names E (snd c) (spline_tag region (fst c)))"
proof (induction cs arbitrary: ws)
  case Nil
  then show ?case by simp
next
  case (Cons c cs)
  from Cons.prems obtain ws1 where
    b: "buildSpline E cfg histMap ws (snd c) region (fst c) yFitFunc opts = Some (Inr ws1)"
    and r: "ofold (\<lambda>c ws. buildSpline E cfg histMap ws (snd c) region (fst c) yFitFunc opts) cs ws1 = Some (Inr ws')"
    by (auto split: option.splits sum.splits)
  show ?case using Cons.IH [OF r] buildSpline_dom [OF b] by auto
qed

lemma spline_calls_Nil: "HMASSES cfg = [] \<Longrightarrow> spline_calls cfg = []"
  by (simp add: spline_calls_def)

text \<open>One region: the templates of its calls and the norm named after the binding
  of \<open>h\<close> that the loop leaves.\<close>

lemma signal_region_Inr_cases:
  assumes "signal_region E cfg histMap yFitFunc opts region sv = Some (Inr sv')"
  obtains ws h where
    "ofold (\<lambda>c ws. buildSpline E cfg histMap ws (snd c) region (fst c) yFitFunc opts) (spline_calls cfg)
       (workspace (fst sv)) = Some (Inr ws)"
    and "(if HMASSES cfg = [] then snd sv else Some (last (HMASSES cfg))) = Some h"
    and "sv' = ((fst sv)\<lparr>workspace := ws(SPLINENAME E h @ ''_'' @ region @ ''_norm'' \<mapsto> WVar 1 0 9999)\<rparr>, Some h)"
proof -
  from assms obtain ws where
    c: "ofold (\<lambda>c ws. buildSpline E cfg histMap ws (snd c) region (fst c) yFitFunc opts) (spline_calls cfg)
          (workspace (fst sv)) = Some (Inr ws)"
    and r: "(case (if HMASSES cfg = [] then snd sv else Some (last (HMASSES cfg))) of
         None \<Rightarrow> Some (Inl (NameError ''h''))
       | Some h \<Rightarrow> Some (Inr ((fst sv)\<lparr>workspace :=
                     ws(SPLINENAME E h @ ''_'' @ region @ ''_norm'' \<mapsto> WVar 1 0 9999)\<rparr>,
                     (if HMASSES cfg = [] then snd sv else Some (last (HMASSES cfg)))))) = Some (Inr sv')"
    by (auto simp: signal_region_def obind_eq_Inr_iff Let_def)
  obtain h where hv: "(if HMASSES cfg = [] then snd sv else Some (last (HMASSES cfg))) = Some h"
    using r by (auto split: option.splits)
  with r have "sv' = ((fst sv)\<lparr>workspace := ws(SPLINENAME E h @ ''_'' @ region @ ''_norm'' \<mapsto> WVar 1 0 9999)\<rparr>,
                          Some h)"
    by simp
  with c hv show ?thesis by (rule that)
qed

lemma signal_region_Inr:
  assumes "signal_region E cfg histMap yFitFunc opts region sv = Some (Inr sv')"
  shows "snd sv' = (if HMASSES cfg = [] then snd sv else Some (last (HMASSES cfg))) \<and> snd sv' \<noteq> None \<and>
         datasets (fst sv') = datasets (fst sv) \<and> card (fst sv') = card (fst sv) \<and>
         dom (workspace (fst sv')) = dom (workspace (fst sv)) \<union>
           (\<Union>c\<in>set (spline_calls cfg). template_names E (snd c) (spline_tag region (fst c))) \<union>
           {SPLINENAME E (the (snd sv')) @ ''_'' @ region @ ''_norm''}"
proof -
  obtain ws h where c: "ofold (\<lambda>c ws. buildSpline E cfg histMap ws (snd c) region (fst c) yFitFunc opts) (spline_calls cfg)
       (workspace (fst sv)) = Some (Inr ws)"
    and hv: "(if HMASSES cfg = [] then snd sv else Some (last (HMASSES cfg))) = Some h"
    and sv': "sv' = ((fst sv)\<lparr>workspace := ws(SPLINENAME E h @ ''_'' @ region @ ''_norm'' \<mapsto> WVar 1 0 9999)\<rparr>, Some h)"
    by (rule signal_region_Inr_cases [OF assms])
  show ?thesis
    unfolding sv' using spline_calls_dom [OF c] hv by auto
qed

lemma signal_regions_Inr:
  assumes "ofold (signal_region E cfg histMap yFitFunc opts) rs sv = Some (Inr sv')" and "rs \<noteq> []"
  shows "snd sv' = (if HMASSES cfg = [] then snd sv else Some (last (HMASSES cfg))) \<and>
         (HMASSES cfg = [] \<longrightarrow> snd sv \<noteq> None) \<and>
         datasets (fst sv') = datasets (fst sv) \<and> card (fst sv') = card (fst sv) \<and>
         dom (workspace (fst sv')) = dom (workspace (fst sv)) \<union>
           (\<Union>r\<in>set rs. \<Union>c\<in>set (spline_calls cfg). template_names E (snd c) (spline_tag r (fst c))) \<union>
           (\<lambda>r. SPLINENAME E (the (snd sv')) @ ''_'' @ r @ ''_norm'') ` set rs"
  using assms
proof (induction rs arbitrary: sv)
  case Nil
  then show ?case by simp
next
  case (Cons r rs)
  from Cons.prems(1) obtain sv1 where
    s1: "signal_region E cfg histMap yFitFunc opts r sv = Some (Inr sv1)"
    and s2: "ofold (signal_region E cfg histMap yFitFunc opts) rs sv1 = Some (Inr sv')"
    by (auto split: option.splits sum.splits)
  note R = signal_region_Inr [OF s1]
  show ?case
  proof (cases "rs = []")
    case True
    with s2 have e: "sv1 = sv'" by simp
    have "HMASSES cfg = [] \<longrightarrow> snd sv \<noteq> None"
    proof
      assume h: "HMASSES cfg = []"
      from R have e1: "snd sv1 = (if HMASSES cfg = [] then snd sv else Some (last (HMASSES cfg)))"
        and e2: "snd sv1 \<noteq> None" by blast+
      from e1 h have "snd sv1 = snd sv" by simp
      with e2 show "snd sv \<noteq> None" by simp
    qed
    with R e True show ?thesis by (simp add: Un_ac)
  next
    case False
    note IH = Cons.IH [OF s2 False]
    from R IH have "snd sv' = snd sv1" by (auto split: if_splits)
    moreover have "HMASSES cfg = [] \<longrightarrow> snd sv \<noteq> None"
    proof
      assume h: "HMASSES cfg = []"
      from R have e1: "snd sv1 = (if HMASSES cfg = [] then snd sv else Some (last (HMASSES cfg)))"
        and e2: "snd sv1 \<noteq> None" by blast+
      from e1 h have "snd sv1 = snd sv" by simp
      with e2 show "snd sv \<noteq> None" by simp
    qed
    ultimately show ?thesis using R IH by auto
  qed
qed

lemma addSignalModels_Inr_cases:
  assumes "addSignalModels E cfg histMap yFitFunc opts st = Some (Inr st')"
  obtains sv' where "ofold (signal_region E cfg histMap yFitFunc opts) (REGIONS cfg) (st, None) = Some (Inr sv')"
    and "st' = fst sv'"
proof -
  from assms obtain z where o: "ofold (signal_region E cfg histMap yFitFunc opts) (REGIONS cfg) (st, None) = Some z"
    and m: "map_sum id fst z = Inr st'"
    by (auto simp: addSignalModels_def)
  from m obtain sv' where "z = Inr sv'" and "st' = fst sv'" by (cases z) auto
  with o show ?thesis by (intro that) simp_all
qed

lemma addSignalModels_templates:
  assumes "addSignalModels E cfg histMap yFitFunc opts st = Some (Inr st')"
  shows "REGIONS cfg \<noteq> [] \<Longrightarrow> HMASSES cfg \<noteq> []"
    and "dom (workspace st') = dom (workspace st) \<union>
           (\<Union>r\<in>set (REGIONS cfg). \<Union>c\<in>set (spline_calls cfg). template_names E (snd c) (spline_tag r (fst c))) \<union>
           (\<lambda>r. SPLINENAME E (last (HMASSES cfg)) @ ''_'' @ r @ ''_norm'') ` set (REGIONS cfg)"
    and "datasets st' = datasets st" and "card st' = card st"
proof -
  obtain sv' where o: "ofold (signal_region E cfg histMap yFitFunc opts) (REGIONS cfg) (st, None) = Some (Inr sv')"
    and e: "st' = fst sv'"
    by (rule addSignalModels_Inr_cases [OF assms])
  show "REGIONS cfg \<noteq> [] \<Longrightarrow> HMASSES cfg \<noteq> []"
    using signal_regions_Inr [OF o] by auto
  have all: "dom (workspace st') = dom (workspace st) \<union>
           (\<Union>r\<in>set (REGIONS cfg). \<Union>c\<in>set (spline_calls cfg). template_names E (snd c) (spline_tag r (fst c))) \<union>
           (\<lambda>r. SPLINENAME E (last (HMASSES cfg)) @ ''_'' @ r @ ''_norm'') ` set (REGIONS cfg) \<and>
    datasets st' = datasets st \<and> card st' = card st"
  proof (cases "REGIONS cfg = []")
    case True
    with o e have "st' = st" by auto
    with True show ?thesis by simp
  next
    case False
    note R = signal_regions_Inr [OF o False]
    then have "HMASSES cfg \<noteq> []" by auto
    with R e show ?thesis by simp
  qed
  then show "dom (workspace st') = dom (workspace st) \<union>
           (\<Union>r\<in>set (REGIONS cfg). \<Union>c\<in>set (spline_calls cfg). template_names E (snd c) (spline_tag r (fst c))) \<union>
           (\<lambda>r. SPLINENAME E (last (HMASSES cfg)) @ ''_'' @ r @ ''_norm'') ` set (REGIONS cfg)"
    "datasets st' = datasets st" "card st' = card st"
    by blast+
qed

text \<open>
  C8 (what the signal loop adds to the workspace): when \<open>addSignalModels\<close>
  returns, the workspace has gained exactly the four templates of every
  \<open>buildSpline\<close> call (every region, the central shift and the \<open>Up\<close> and
  \<open>Down\<close> variations of every shift, every Higgs mass) and one norm variable per
  region, named after the last Higgs mass of \<open>HMASSES\<close> only: the factory call of
  line 692 sits after the Higgs-mass loop, so the signal processes of the other
  Higgs masses get no \<open>_norm\<close>. The datasets and the datacard are untouched.
\<close>

theorem addSignalModels_dom:
  assumes "addSignalModels E cfg histMap yFitFunc opts st = Some (Inr st')"
  shows "dom (workspace st') = dom (workspace st) \<union>
           (\<Union>r\<in>set (REGIONS cfg). \<Union>c\<in>set (spline_calls cfg). template_names E (snd c) (spline_tag r (fst c))) \<union>
           (\<lambda>r. SPLINENAME E (last (HMASSES cfg)) @ ''_'' @ r @ ''_norm'') ` set (REGIONS cfg) \<and>
         datasets st' = datasets st \<and> card st' = card st"
  using addSignalModels_templates [OF assms] by blast

text \<open>
  C16 (error behaviour of the signal loop): with at least one region and no Higgs
  mass, \<open>addSignalModels\<close> raises \<open>NameError\<close> on \<open>h\<close> at the norm of the first
  region, since the loop variable was never bound.
\<close>

theorem addSignalModels_NameError:
  assumes "REGIONS cfg \<noteq> []" and "HMASSES cfg = []"
  shows "addSignalModels E cfg histMap yFitFunc opts st = Some (Inl (NameError ''h''))"
proof -
  obtain r rs where "REGIONS cfg = r # rs" using assms(1) by (cases "REGIONS cfg") auto
  then show ?thesis
    using assms(2) by (simp add: addSignalModels_def signal_region_def spline_calls_Nil)
qed

subsection \<open>Worked examples of the signal loop\<close>

lemma demo_cfg_simps [simp]:
  "REGIONS demo_cfg = [''PP'']" "SHIFTS demo_cfg = []" "HMASSES demo_cfg = [125]"
  by (simp_all add: demo_cfg_def)

lemma demo_ext_SPLINENAME [simp]: "SPLINENAME demo_ext h = ''sig''"
  by (simp add: demo_ext_def)

text \<open>\<open>buildSpline\<close> reads only the mass grid and the ranges of the configuration.\<close>

lemma buildSpline_cfg_update:
  "buildSpline E (cfg\<lparr>REGIONS := rs, SHIFTS := ss, HMASSES := hs\<rparr>) = buildSpline E cfg"
proof -
  have a: "XRANGE (cfg\<lparr>REGIONS := rs, SHIFTS := ss, HMASSES := hs\<rparr>) = XRANGE cfg"
    "YRANGE (cfg\<lparr>REGIONS := rs, SHIFTS := ss, HMASSES := hs\<rparr>) = YRANGE cfg"
    "AMASSES (cfg\<lparr>REGIONS := rs, SHIFTS := ss, HMASSES := hs\<rparr>) = AMASSES cfg" by simp_all
  show ?thesis unfolding buildSpline_def fit_point_def sig_point_def a ..
qed

lemma demo_addSignalModels:
  assumes "buildSpline demo_ext runner_cfg demo_hists (workspace st) 125 ''PP'' [] ''V'' opts = Some (Inr ws)"
  shows "addSignalModels demo_ext demo_cfg demo_hists ''V'' opts st =
           Some (Inr (st\<lparr>workspace := ws(''sig_PP_norm'' \<mapsto> WVar 1 0 9999)\<rparr>))"
proof -
  have c: "buildSpline demo_ext demo_cfg = buildSpline demo_ext runner_cfg"
    unfolding demo_cfg_def by (rule buildSpline_cfg_update)
  show ?thesis using assms by (simp add: addSignalModels_def signal_region_def spline_calls_def c)
qed

theorem addSignalModels_dom_witness:
  "\<exists>st'. addSignalModels demo_ext demo_cfg demo_hists ''V''
           \<lparr>fit = False, ygausOnly = False, doBackgroundSignal = False\<rparr> demo_state = Some (Inr st') \<and>
         dom (workspace st') = {''sig_PP_x'', ''sig_PP_y'', ''sig_PP'', ''integral_sig_PP'', ''sig_PP_norm''} \<and>
         datasets st' = Map.empty"
proof -
  obtain ws where "buildSpline demo_ext runner_cfg demo_hists (workspace demo_state) 125 ''PP'' [] ''V''
           \<lparr>fit = False, ygausOnly = False, doBackgroundSignal = False\<rparr> = Some (Inr ws)"
    using demo_buildSpline_V by blast
  then have r: "addSignalModels demo_ext demo_cfg demo_hists ''V''
           \<lparr>fit = False, ygausOnly = False, doBackgroundSignal = False\<rparr> demo_state =
       Some (Inr (demo_state\<lparr>workspace := ws(''sig_PP_norm'' \<mapsto> WVar 1 0 9999)\<rparr>))"
    by (rule demo_addSignalModels)
  have n: "template_names demo_ext 125 (spline_tag ''PP'' []) = {''sig_PP_x'', ''sig_PP_y'', ''sig_PP'', ''integral_sig_PP''}"
    using demo_facts(4) by (simp add: template_names_def)
  show ?thesis
    using r addSignalModels_dom [OF r] n
    by (auto simp: spline_calls_def demo_state_def)
qed

theorem addSignalModels_NameError_witness:
  "addSignalModels demo_ext (runner_cfg\<lparr>HMASSES := []\<rparr>) demo_hists ''V''
     \<lparr>fit = False, ygausOnly = False, doBackgroundSignal = False\<rparr> demo_state = Some (Inl (NameError ''h''))"
proof -
  have h1: "REGIONS (runner_cfg\<lparr>HMASSES := []\<rparr>) \<noteq> []" and h2: "HMASSES (runner_cfg\<lparr>HMASSES := []\<rparr>) = []"
    by (simp_all add: runner_cfg_def)
  show ?thesis by (rule addSignalModels_NameError [OF h1 h2])
qed

subsection \<open>The background loop\<close>

lemma build_models_dom: "dom (build_models ws bs) = dom ws \<union> fst ` set bs"
  unfolding build_models_def by (induction bs arbitrary: ws) auto

lemma buildModel_dom:
  "dom (buildModel cfg region ws) =
     dom ws \<union> {''bg_'' @ region @ ''_x'', ''bg_'' @ region} \<union> fst ` set (buildYModel cfg (region @ ''_y'') (region @ ''_y''))"
  by (auto simp: buildModel_def Let_def build_models_dom)

lemma fitBackground_Inr_iff:
  "(\<exists>u. fitBackground histMap ws region shift = Inr u) \<longleftrightarrow>
     lookup3 histMap region shift ''dataNoSig'' \<noteq> None \<and> ws_pdf ws (''bg_'' @ region) \<noteq> None"
  by (auto simp: fitBackground_def Let_def lookup3_def rbind_eq_Inr_iff getitem_eq_Inr_iff split: option.splits)

lemma background_region_Inr_iff:
  "(\<exists>st'. background_region cfg histMap region st = Inr st') \<longleftrightarrow> lookup3 histMap region [] ''dataNoSig'' \<noteq> None"
proof -
  have "ws_pdf ((buildModel cfg region (workspace st))(''bg_'' @ region @ ''_norm'' \<mapsto> WVar 1 0 2)) (''bg_'' @ region) \<noteq> None"
    by (simp add: buildModel_def ws_pdf_def)
  then show ?thesis
    using fitBackground_Inr_iff [of histMap _ region "[]"]
    by (auto simp: background_region_def Let_def rbind_eq_Inr_iff)
qed

lemma background_region_Inr:
  "background_region cfg histMap region st = Inr st' \<Longrightarrow>
   st' = st\<lparr>workspace := (buildModel cfg region (workspace st))(''bg_'' @ region @ ''_norm'' \<mapsto> WVar 1 0 2)\<rparr>"
  by (auto simp: background_region_def Let_def rbind_eq_Inr_iff)

lemma background_region_dom:
  assumes "background_region cfg histMap region st = Inr st'"
  shows "dom (workspace st') = dom (workspace st) \<union> bg_names cfg region"
    and "datasets st' = datasets st" and "card st' = card st"
  using background_region_Inr [OF assms] by (auto simp: buildModel_dom bg_names_def)

lemma background_regions_Inr:
  "rfold (background_region cfg histMap) rs st = Inr st' \<Longrightarrow>
   (\<forall>r\<in>set rs. lookup3 histMap r [] ''dataNoSig'' \<noteq> None) \<and>
   dom (workspace st') = dom (workspace st) \<union> (\<Union>r\<in>set rs. bg_names cfg r) \<and>
   datasets st' = datasets st \<and> card st' = card st"
proof (induction rs arbitrary: st)
  case Nil
  then show ?case by simp
next
  case (Cons r rs)
  then obtain st1 where s: "background_region cfg histMap r st = Inr st1"
    and f: "rfold (background_region cfg histMap) rs st1 = Inr st'"
    by (auto simp: rbind_eq_Inr_iff)
  have "lookup3 histMap r [] ''dataNoSig'' \<noteq> None"
    using s background_region_Inr_iff [of cfg histMap r st] by blast
  moreover note Cons.IH [OF f] background_region_dom [OF s]
  ultimately show ?case by auto
qed

lemma background_regions_ex:
  "\<forall>r\<in>set rs. lookup3 histMap r [] ''dataNoSig'' \<noteq> None \<Longrightarrow>
   \<exists>st'. rfold (background_region cfg histMap) rs st = Inr st'"
proof (induction rs arbitrary: st)
  case Nil
  then show ?case by simp
next
  case (Cons r rs)
  from Cons.prems have "lookup3 histMap r [] ''dataNoSig'' \<noteq> None" by simp
  then obtain st1 where "background_region cfg histMap r st = Inr st1"
    using background_region_Inr_iff [of cfg histMap r st] by blast
  with Cons show ?case by simp
qed

text \<open>
  C17 (when the background loop returns): \<open>addBackgroundModels\<close> returns exactly
  when every region of the configuration has a \<open>dataNoSig\<close> entry under the
  central shift, which \<open>fitBackground\<close> reads; the model it fits is always
  there, since \<open>buildModel\<close> has just built it. Otherwise it raises
  \<open>KeyError\<close>.
\<close>

theorem addBackgroundModels_Inr_iff:
  "(\<exists>st'. addBackgroundModels cfg histMap st = Inr st') \<longleftrightarrow>
     (\<forall>r\<in>set (REGIONS cfg). lookup3 histMap r [] ''dataNoSig'' \<noteq> None)"
  unfolding addBackgroundModels_def
proof
  assume "\<exists>st'. rfold (background_region cfg histMap) (REGIONS cfg) st = Inr st'"
  then obtain st' where "rfold (background_region cfg histMap) (REGIONS cfg) st = Inr st'" by blast
  then show "\<forall>r\<in>set (REGIONS cfg). lookup3 histMap r [] ''dataNoSig'' \<noteq> None"
    by (rule background_regions_Inr [THEN conjunct1])
next
  assume "\<forall>r\<in>set (REGIONS cfg). lookup3 histMap r [] ''dataNoSig'' \<noteq> None"
  then show "\<exists>st'. rfold (background_region cfg histMap) (REGIONS cfg) st = Inr st'"
    by (rule background_regions_ex)
qed

subsection \<open>Worked example of the background loop\<close>

lemma demo_slots: "\<forall>r\<in>set (REGIONS cfg). lookup3 demo_hists r [] ''dataNoSig'' \<noteq> None"
  by (simp add: demo_hists_def lookup3_def)

theorem addBackgroundModels_Inr_iff_witness:
  "\<exists>st'. addBackgroundModels runner_cfg demo_hists demo_state = Inr st'"
  using addBackgroundModels_Inr_iff [of runner_cfg demo_hists demo_state] demo_slots by blast

subsection \<open>The references stay resolved\<close>

lemma buildYModel_refs_ok: "refs_ok [] (buildYModel cfg region tag)"
  by (simp add: buildYModel_def Let_def)

text \<open>
  C28 (the background shape is well formed): for either range of \<open>y\<close>, each model
  \<open>_buildYModel\<close> builds refers only to models built before it, under the names
  they were built with, and every parameter starts inside its declared range.
\<close>

theorem buildYModel_well_formed:
  "refs_ok [] (buildYModel cfg region tag) \<and> list_all (\<lambda>b. params_in_range (snd b)) (buildYModel cfg region tag)"
  by (simp add: buildYModel_def Let_def params_in_range_def)

lemma ws_closed_empty [simp]: "ws_closed Map.empty"
  by (simp add: ws_closed_def)

lemma ws_closed_upd:
  "ws_closed ws \<Longrightarrow> set (obj_refs v) \<subseteq> insert n (dom ws) \<Longrightarrow> ws_closed (ws(n \<mapsto> v))"
  by (auto simp: ws_closed_def)

lemma build_models_closed:
  "ws_closed ws \<Longrightarrow> refs_ok names bs \<Longrightarrow> set names \<subseteq> dom ws \<Longrightarrow> ws_closed (build_models ws bs)"
proof (induction bs arbitrary: ws names)
  case Nil
  then show ?case by (simp add: build_models_def)
next
  case (Cons b bs)
  have c: "ws_closed (ws(fst b \<mapsto> WPdf (snd b)))"
    using Cons.prems by (intro ws_closed_upd) auto
  have n: "set (fst b # names) \<subseteq> dom (ws(fst b \<mapsto> WPdf (snd b)))" using Cons.prems by auto
  from Cons.prems(2) have r: "refs_ok (fst b # names) bs" by simp
  show ?case using Cons.IH [OF c r n] by (simp only: build_models_def foldl_Cons)
qed

lemma buildModel_closed: "ws_closed ws \<Longrightarrow> ws_closed (buildModel cfg region ws)"
proof -
  assume c: "ws_closed ws"
  let ?ws1 = "ws(''bg_'' @ region @ ''_x'' \<mapsto> WBasePdf (''bg_'' @ region @ ''_x''))"
  let ?bs = "buildYModel cfg (region @ ''_y'') (region @ ''_y'')"
  have "ws_closed (build_models ?ws1 ?bs)"
    using c buildYModel_refs_ok [of cfg "region @ ''_y''" "region @ ''_y''"]
    by (intro build_models_closed [where names = "[]"] ws_closed_upd) auto
  moreover have "''bg_'' @ region @ ''_x'' \<in> dom (build_models ?ws1 ?bs)" by (simp add: build_models_dom)
  moreover have "''bg_'' @ region @ ''_y'' \<in> dom (build_models ?ws1 ?bs)"
    by (simp add: build_models_dom buildYModel_def Let_def)
  ultimately show ?thesis unfolding buildModel_def Let_def by (intro ws_closed_upd) auto
qed

lemma add_templates_closed: "ws_closed ws \<Longrightarrow> ws_closed (add_templates E ws h tag avals ints sx sy)"
  unfolding add_templates_def Let_def by (intro ws_closed_upd) auto

lemma buildSpline_closed:
  "buildSpline E cfg histMap ws h region shift yFitFunc opts = Some (Inr ws') \<Longrightarrow> ws_closed ws \<Longrightarrow> ws_closed ws'"
  by (erule buildSpline_Inr_templates) (simp add: add_templates_closed)

lemma signal_region_closed:
  assumes "signal_region E cfg histMap yFitFunc opts region sv = Some (Inr sv')"
    and "ws_closed (workspace (fst sv))"
  shows "ws_closed (workspace (fst sv'))"
proof -
  obtain ws h where c: "ofold (\<lambda>c ws. buildSpline E cfg histMap ws (snd c) region (fst c) yFitFunc opts) (spline_calls cfg)
       (workspace (fst sv)) = Some (Inr ws)"
    and sv': "sv' = ((fst sv)\<lparr>workspace := ws(SPLINENAME E h @ ''_'' @ region @ ''_norm'' \<mapsto> WVar 1 0 9999)\<rparr>, Some h)"
    by (rule signal_region_Inr_cases [OF assms(1)])
  have "ws_closed ws"
    using c assms(2) by (rule ofold_invariant [where P = ws_closed]) (rule buildSpline_closed)
  then show ?thesis unfolding sv' by (simp add: ws_closed_upd)
qed

lemma background_region_closed:
  "background_region cfg histMap region st = Inr st' \<Longrightarrow> ws_closed (workspace st) \<Longrightarrow> ws_closed (workspace st')"
  by (drule background_region_Inr) (simp add: ws_closed_upd buildModel_closed)

lemma addBackgroundModels_closed:
  assumes "addBackgroundModels cfg histMap st = Inr st'" and "ws_closed (workspace st)"
  shows "ws_closed (workspace st')"
  using assms(1) [unfolded addBackgroundModels_def] assms(2)
  by (rule rfold_invariant [where P = "\<lambda>st. ws_closed (workspace st)"]) (rule background_region_closed)

lemma addSignalModels_closed:
  assumes "addSignalModels E cfg histMap yFitFunc opts st = Some (Inr st')" and "ws_closed (workspace st)"
  shows "ws_closed (workspace st')"
proof -
  obtain sv' where o: "ofold (signal_region E cfg histMap yFitFunc opts) (REGIONS cfg) (st, None) = Some (Inr sv')"
    and e: "st' = fst sv'"
    by (rule addSignalModels_Inr_cases [OF assms(1)])
  have "ws_closed (workspace (fst sv'))"
    using o by (rule ofold_invariant [where P = "\<lambda>sv. ws_closed (workspace (fst sv))"])
      (simp_all add: assms(2) signal_region_closed)
  with e show ?thesis by simp
qed

text \<open>
  C9 (the workspace never refers to a missing object): starting from a workspace in
  which every object refers only to objects present, the background loop and then
  the signal loop keep it so: every product, sum, product spline and integral they
  import refers to names imported before it or with it.
\<close>

theorem model_workspace_closed:
  assumes "ws_closed (workspace st)"
    and "addBackgroundModels cfg histMap st = Inr st1"
    and "addSignalModels E cfg histMap yFitFunc opts st1 = Some (Inr st2)"
  shows "ws_closed (workspace st1) \<and> ws_closed (workspace st2)"
proof -
  have c1: "ws_closed (workspace st1)" by (rule addBackgroundModels_closed [OF assms(2,1)])
  with addSignalModels_closed [OF assms(3)] show ?thesis by simp
qed

theorem model_workspace_closed_witness:
  "\<exists>st1 st2. addBackgroundModels demo_cfg demo_hists demo_state = Inr st1 \<and>
     addSignalModels demo_ext demo_cfg demo_hists ''V''
       \<lparr>fit = False, ygausOnly = False, doBackgroundSignal = False\<rparr> st1 = Some (Inr st2) \<and>
     ws_closed (workspace st2)"
proof -
  obtain st1 where b: "addBackgroundModels demo_cfg demo_hists demo_state = Inr st1"
    using background_regions_ex [OF demo_slots] unfolding addBackgroundModels_def by blast
  obtain ws where "buildSpline demo_ext runner_cfg demo_hists (workspace st1) 125 ''PP'' [] ''V''
           \<lparr>fit = False, ygausOnly = False, doBackgroundSignal = False\<rparr> = Some (Inr ws)"
    using demo_buildSpline_V by blast
  then have s: "addSignalModels demo_ext demo_cfg demo_hists ''V''
       \<lparr>fit = False, ygausOnly = False, doBackgroundSignal = False\<rparr> st1 =
       Some (Inr (st1\<lparr>workspace := ws(''sig_PP_norm'' \<mapsto> WVar 1 0 9999)\<rparr>))"
    by (rule demo_addSignalModels)
  have e: "ws_closed (workspace demo_state)" by (simp add: demo_state_def)
  from model_workspace_closed [OF e b s] b s show ?thesis by blast
qed

end
