(* ===== verification/Datacard.thy ===== *)
theory Datacard
  imports Driver
begin

text \<open>
  The methods of \<open>HaaLimits2D\<close> that fill the datacard and the data
  (HaaLimits2D.py, lines 641--670 and 697--759): \<open>setupDatacard\<close>, \<open>addData\<close>
  and the processes and path of \<open>save\<close>, on the state of Driver.thy; and what the
  datacard names once the background and signal loops of Driver.thy have run.
\<close>

subsection \<open>The datacard\<close>

text \<open>\<open>setupDatacard\<close>, lines 697--736. The expected background is the integral
  of \<open>dataNoSig\<close> (\<open>Integral()\<close> of a histogram, \<open>sumEntries\<close> within the
  ranges of a dataset: both the interface's \<open>integral\<close>); the control region
  integrates over \<open>XRANGE\<close> only.\<close>

definition signal_procs :: "'h ext \<Rightarrow> limits_cfg \<Rightarrow> string list" where
  "signal_procs E cfg = map (SPLINENAME E) (HMASSES cfg)"

text \<open>One pass of the loop of lines 718--729, for one region.\<close>

definition datacard_region :: "('h, 'z) driver_ext_scheme \<Rightarrow> 'h dict3 \<Rightarrow> string list \<Rightarrow> string \<Rightarrow>
    datacard \<Rightarrow> datacard result" where
  "datacard_region D histMap procs region dc =
     rbind (getitem histMap region) (\<lambda>hr. rbind (getitem hr []) (\<lambda>hs.
     rbind (getitem hs ''dataNoSig'') (\<lambda>hist.
       let dc = setExpected ''bg'' region (integral D hist) dc;
           dc = foldl (\<lambda>dc proc. addRateParam (''integral_'' @ proc @ ''_'' @ region) region proc
                                   (setExpected proc region 1 dc)) dc procs in
       Inr (setObserved region (-1) dc))))"

definition setupDatacard :: "('h, 'z) driver_ext_scheme \<Rightarrow> limits_cfg \<Rightarrow> 'h dict3 \<Rightarrow> bool \<Rightarrow>
    'h limits_state \<Rightarrow> 'h limits_state result" where
  "setupDatacard D cfg histMap addControl st =
     (let procs = signal_procs (ext.truncate D) cfg;
          dc = foldl (\<lambda>dc region. addBin region dc) (card st) (REGIONS cfg);
          dc = addProcess ''bg'' False dc;
          dc = foldl (\<lambda>dc proc. addProcess proc True dc) dc procs in
      rbind (rfold (datacard_region D histMap procs) (REGIONS cfg) dc) (\<lambda>dc.
      if addControl then
        rbind (getitem histMap ''control'') (\<lambda>hr. rbind (getitem hr []) (\<lambda>hs.
        rbind (getitem hs ''dataNoSig'') (\<lambda>hist.
          let dc = addBin ''control'' dc;
              dc = setExpected ''bg'' ''control'' (controlIntegral D hist) dc in
          Inr (st\<lparr>card := setObserved ''control'' (-1) dc\<rparr>))))
      else Inr (st\<lparr>card := dc\<rparr>)))"

subsection \<open>The data\<close>

text \<open>\<open>addData\<close>, lines 641--670: for each region the observed data, either the
  map's \<open>data\<close> or an Asimov dataset generated from the background model with
  \<open>int(integral)\<close> events, optionally with the events of the signal of masses
  \<open>(mh, ma)\<close> appended. The map's \<open>data\<close> is read in both cases (line 646).\<close>

definition data_region :: "('h, 'z) driver_ext_scheme \<Rightarrow> 'h dict3 \<Rightarrow> bool \<Rightarrow> bool \<Rightarrow>
    int \<Rightarrow> real \<Rightarrow> string \<Rightarrow> 'h limits_state \<Rightarrow> 'h limits_state result" where
  "data_region D histMap asimov addSignal mh ma region st =
      (let name = ''data_obs_'' @ region in
       rbind (getitem histMap region) (\<lambda>hr. rbind (getitem hr []) (\<lambda>hs.
       rbind (getitem hs ''data'') (\<lambda>hist.
         if asimov then
           (let model = ws_pdf (workspace st) (''bg_'' @ region) in
            rbind (getitem hs ''dataNoSig'') (\<lambda>h.
              if model = None then Inl (AttributeError ''generate'')
              else
                (let n = py_int (integral D h) in
                 if addSignal then
                   (case workspace st ''MH'' of
                      Some (WVar v lo hi) \<Rightarrow>
                        (let ws = (workspace st)(''MH'' \<mapsto> WVar ma lo hi);
                             sname = SPLINENAME D mh @ ''_'' @ region;
                             iname = ''integral_'' @ sname in
                         if ws iname = None then Inl (AttributeError ''getVal'')
                         else if ws_pdf ws sname = None then Inl (AttributeError ''generate'')
                         else Inr (st\<lparr>workspace := ws, datasets := (datasets st)(name \<mapsto>
                                 Asimov (''bg_'' @ region) n (Some (sname, py_int (funcVal D iname ma))))\<rparr>))
                    | _ \<Rightarrow> Inl (AttributeError ''setVal''))
                 else Inr (st\<lparr>datasets := (datasets st)(name \<mapsto> Asimov (''bg_'' @ region) n None)\<rparr>))))
         else Inr (st\<lparr>datasets := (datasets st)(name \<mapsto> DataObs hist)\<rparr>)))))"

definition addData :: "('h, 'z) driver_ext_scheme \<Rightarrow> limits_cfg \<Rightarrow> 'h dict3 \<Rightarrow> bool \<Rightarrow> bool \<Rightarrow>
    int \<Rightarrow> real \<Rightarrow> 'h limits_state \<Rightarrow> 'h limits_state result" where
  "addData D cfg histMap asimov addSignal mh ma st =
     rfold (data_region D histMap asimov addSignal mh ma) (REGIONS cfg) st"

subsection \<open>Saving\<close>

text \<open>\<open>save\<close>, lines 752--759: the processes of each Higgs mass, keyed by
  \<open>SIGNAME\<close> with \<open>a = 'X'\<close>, and the path of the card \<open>printCard\<close> writes.\<close>

definition save_processes :: "'h ext \<Rightarrow> limits_cfg \<Rightarrow> string list dict" where
  "save_processes E cfg =
     foldl (\<lambda>ps h. ps(SIGNAME h (PStr ''X'') \<mapsto> [SPLINENAME E h] @ [''bg''])) Map.empty (HMASSES cfg)"

definition save_path :: "string \<Rightarrow> string \<Rightarrow> string" where
  "save_path name subdirectory =
     (if subdirectory = [] then ''datacards_shape/MuMuTauTau/'' @ name
      else ''datacards_shape/MuMuTauTau/'' @ subdirectory @ name)"

subsection \<open>Worked examples of the datacard\<close>

definition demo_dext :: "unit driver_ext" where
  "demo_dext = \<lparr>fit2D = \<lambda>ms hist. (\<lambda>k. Some 1, \<lambda>k. Some 1), graphFit = \<lambda>fn xs vs es x. 0,
      integral = \<lambda>hist. 1, SPLINENAME = \<lambda>h. ''sig'', controlIntegral = \<lambda>hist. 1, funcVal = \<lambda>n x. 0\<rparr>"

definition nosig_hists :: "unit dict3" where
  "nosig_hists = (\<lambda>r. Some (\<lambda>s. Some [''dataNoSig'' \<mapsto> ()]))"

subsection \<open>Properties of the datacard\<close>

lemma addBin_foldl: "foldl (\<lambda>dc r. addBin r dc) dc rs = dc\<lparr>dc_bins := dc_bins dc @ rs\<rparr>"
  by (induction rs arbitrary: dc) (simp_all add: addBin_def)

lemma addProcess_foldl:
  "foldl (\<lambda>dc p. addProcess p s dc) dc ps = dc\<lparr>dc_processes := dc_processes dc @ map (\<lambda>p. (p, s)) ps\<rparr>"
  by (induction ps arbitrary: dc) (simp_all add: addProcess_def)

lemma rate_params_foldl:
  "foldl (\<lambda>dc proc. addRateParam (''integral_'' @ proc @ ''_'' @ region) region proc (setExpected proc region 1 dc)) dc procs =
   dc\<lparr>dc_expected := (\<lambda>k. if fst k \<in> set procs \<and> snd k = region then Some 1 else dc_expected dc k),
      dc_rateParams := dc_rateParams dc @ map (\<lambda>p. (''integral_'' @ p @ ''_'' @ region, region, p)) procs\<rparr>"
  by (induction procs arbitrary: dc) (auto simp: addRateParam_def setExpected_def fun_eq_iff)

lemma datacard_region_Inr:
  "lookup3 histMap region [] ''dataNoSig'' = Some hist \<Longrightarrow>
   datacard_region D histMap procs region dc =
     Inr (dc\<lparr>dc_expected := (\<lambda>k. if fst k \<in> set procs \<and> snd k = region then Some 1
                                   else ((dc_expected dc)((''bg'', region) \<mapsto> integral D hist)) k),
            dc_rateParams := dc_rateParams dc @ map (\<lambda>p. (''integral_'' @ p @ ''_'' @ region, region, p)) procs,
            dc_observed := (dc_observed dc)(region \<mapsto> -1)\<rparr>)"
proof -
  assume h: "lookup3 histMap region [] ''dataNoSig'' = Some hist"
  show ?thesis unfolding datacard_region_def
    by (simp only: getitem3_Some [OF h] Let_def rate_params_foldl) (simp add: setExpected_def setObserved_def fun_eq_iff)
qed

lemma datacard_regions_Inr:
  assumes "\<forall>r\<in>set rs. lookup3 histMap r [] ''dataNoSig'' \<noteq> None"
  shows "\<exists>dc'. rfold (datacard_region D histMap procs) rs dc = Inr dc' \<and>
           dc_rateParams dc' = dc_rateParams dc @ concat (map (\<lambda>r. map (\<lambda>p. (''integral_'' @ p @ ''_'' @ r, r, p)) procs) rs) \<and>
           dc_bins dc' = dc_bins dc \<and> dc_processes dc' = dc_processes dc \<and>
           (\<forall>r. dc_observed dc' r = (if r \<in> set rs then Some (-1) else dc_observed dc r)) \<and>
           (\<forall>p r. p \<in> set procs \<longrightarrow> r \<in> set rs \<longrightarrow> dc_expected dc' (p, r) = Some 1) \<and>
           (\<forall>k. snd k \<notin> set rs \<longrightarrow> dc_expected dc' k = dc_expected dc k)"
  using assms
proof (induction rs arbitrary: dc)
  case Nil
  then show ?case by simp
next
  case (Cons r rs)
  obtain hist where h: "lookup3 histMap r [] ''dataNoSig'' = Some hist" using Cons.prems by auto
  define dc1 where "dc1 = dc\<lparr>dc_expected := (\<lambda>k. if fst k \<in> set procs \<and> snd k = r then Some 1
                                   else ((dc_expected dc)((''bg'', r) \<mapsto> integral D hist)) k),
            dc_rateParams := dc_rateParams dc @ map (\<lambda>p. (''integral_'' @ p @ ''_'' @ r, r, p)) procs,
            dc_observed := (dc_observed dc)(r \<mapsto> -1)\<rparr>"
  have s: "datacard_region D histMap procs r dc = Inr dc1"
    unfolding dc1_def by (rule datacard_region_Inr [OF h])
  from Cons.prems have "\<forall>r\<in>set rs. lookup3 histMap r [] ''dataNoSig'' \<noteq> None" by simp
  from Cons.IH [OF this, of dc1] obtain dc' where
    f: "rfold (datacard_region D histMap procs) rs dc1 = Inr dc'"
    and p1: "dc_rateParams dc' = dc_rateParams dc1 @ concat (map (\<lambda>r. map (\<lambda>p. (''integral_'' @ p @ ''_'' @ r, r, p)) procs) rs)"
    and p2: "dc_bins dc' = dc_bins dc1" and p3: "dc_processes dc' = dc_processes dc1"
    and p4: "\<forall>r. dc_observed dc' r = (if r \<in> set rs then Some (-1) else dc_observed dc1 r)"
    and p5: "\<forall>p r. p \<in> set procs \<longrightarrow> r \<in> set rs \<longrightarrow> dc_expected dc' (p, r) = Some 1"
    and p6: "\<forall>k. snd k \<notin> set rs \<longrightarrow> dc_expected dc' k = dc_expected dc1 k"
    by blast
  have "rfold (datacard_region D histMap procs) (r # rs) dc = Inr dc'" using s f by simp
  moreover have "\<forall>p r'. p \<in> set procs \<longrightarrow> r' \<in> set (r # rs) \<longrightarrow> dc_expected dc' (p, r') = Some 1"
  proof (intro allI impI)
    fix p r' assume "p \<in> set procs" and "r' \<in> set (r # rs)"
    then show "dc_expected dc' (p, r') = Some 1"
      using p5 p6 by (cases "r' \<in> set rs") (auto simp: dc1_def)
  qed
  moreover have "\<forall>k. snd k \<notin> set (r # rs) \<longrightarrow> dc_expected dc' k = dc_expected dc k"
    using p6 by (auto simp: dc1_def)
  moreover have "\<forall>r'. dc_observed dc' r' = (if r' \<in> set (r # rs) then Some (-1) else dc_observed dc r')"
    using p4 by (auto simp: dc1_def)
  ultimately show ?case using p1 p2 p3 by (auto simp: dc1_def)
qed

lemma setupDatacard_Inr:
  assumes "\<forall>r\<in>set (REGIONS cfg). lookup3 histMap r [] ''dataNoSig'' \<noteq> None"
  shows "\<exists>st'. setupDatacard D cfg histMap False st = Inr st' \<and>
           workspace st' = workspace st \<and> datasets st' = datasets st \<and>
           dc_bins (card st') = dc_bins (card st) @ REGIONS cfg \<and>
           dc_processes (card st') = dc_processes (card st) @ (''bg'', False) #
                                       map (\<lambda>p. (p, True)) (signal_procs (ext.truncate D) cfg) \<and>
           dc_rateParams (card st') = dc_rateParams (card st) @
             concat (map (\<lambda>r. map (\<lambda>p. (''integral_'' @ p @ ''_'' @ r, r, p)) (signal_procs (ext.truncate D) cfg))
                         (REGIONS cfg)) \<and>
           (\<forall>r\<in>set (REGIONS cfg). dc_observed (card st') r = Some (-1)) \<and>
           (\<forall>p\<in>set (signal_procs (ext.truncate D) cfg). \<forall>r\<in>set (REGIONS cfg). dc_expected (card st') (p, r) = Some 1)"
proof -
  define procs where "procs = signal_procs (ext.truncate D) cfg"
  define dc0 where "dc0 = (card st)\<lparr>dc_bins := dc_bins (card st) @ REGIONS cfg,
                     dc_processes := dc_processes (card st) @ (''bg'', False) # map (\<lambda>p. (p, True)) procs\<rparr>"
  have d: "foldl (\<lambda>dc proc. addProcess proc True dc)
             (addProcess ''bg'' False (foldl (\<lambda>dc region. addBin region dc) (card st) (REGIONS cfg))) procs = dc0"
    by (simp add: addBin_foldl addProcess_foldl) (simp add: dc0_def addProcess_def)
  obtain dc' where f: "rfold (datacard_region D histMap procs) (REGIONS cfg) dc0 = Inr dc'"
    and p1: "dc_rateParams dc' = dc_rateParams dc0 @ concat (map (\<lambda>r. map (\<lambda>p. (''integral_'' @ p @ ''_'' @ r, r, p)) procs) (REGIONS cfg))"
    and p2: "dc_bins dc' = dc_bins dc0" and p3: "dc_processes dc' = dc_processes dc0"
    and p4: "\<forall>r. dc_observed dc' r = (if r \<in> set (REGIONS cfg) then Some (-1) else dc_observed dc0 r)"
    and p5: "\<forall>p r. p \<in> set procs \<longrightarrow> r \<in> set (REGIONS cfg) \<longrightarrow> dc_expected dc' (p, r) = Some 1"
    using datacard_regions_Inr [OF assms, of D procs dc0] by blast
  have "setupDatacard D cfg histMap False st = Inr (st\<lparr>card := dc'\<rparr>)"
    unfolding setupDatacard_def Let_def procs_def [symmetric] d using f by simp
  then show ?thesis using p1 p2 p3 p4 p5 by (simp add: dc0_def procs_def)
qed

text \<open>With \<open>addControl\<close> the region loop is followed by the control bin
  (lines 631--637): its only expectation is the background's
  \<open>controlIntegral\<close> of the control histogram, and it is observed.\<close>

lemma setupDatacard_control_Inr:
  assumes "\<forall>r\<in>set (REGIONS cfg). lookup3 histMap r [] ''dataNoSig'' \<noteq> None"
    and "lookup3 histMap ''control'' [] ''dataNoSig'' = Some h"
  shows "\<exists>st'. setupDatacard D cfg histMap True st = Inr st' \<and>
           workspace st' = workspace st \<and>
           dc_bins (card st') = dc_bins (card st) @ REGIONS cfg @ [''control''] \<and>
           dc_rateParams (card st') = dc_rateParams (card st) @
             concat (map (\<lambda>r. map (\<lambda>p. (''integral_'' @ p @ ''_'' @ r, r, p)) (signal_procs (ext.truncate D) cfg))
                         (REGIONS cfg)) \<and>
           dc_expected (card st') (''bg'', ''control'') = Some (controlIntegral D h) \<and>
           dc_observed (card st') ''control'' = Some (-1) \<and>
           (\<forall>r\<in>set (REGIONS cfg). dc_observed (card st') r = Some (-1))"
proof -
  define procs where "procs = signal_procs (ext.truncate D) cfg"
  define dc0 where "dc0 = (card st)\<lparr>dc_bins := dc_bins (card st) @ REGIONS cfg,
                     dc_processes := dc_processes (card st) @ (''bg'', False) # map (\<lambda>p. (p, True)) procs\<rparr>"
  have d: "foldl (\<lambda>dc proc. addProcess proc True dc)
             (addProcess ''bg'' False (foldl (\<lambda>dc region. addBin region dc) (card st) (REGIONS cfg))) procs = dc0"
    by (simp add: addBin_foldl addProcess_foldl) (simp add: dc0_def addProcess_def)
  obtain dc' where f: "rfold (datacard_region D histMap procs) (REGIONS cfg) dc0 = Inr dc'"
    and p1: "dc_rateParams dc' = dc_rateParams dc0 @ concat (map (\<lambda>r. map (\<lambda>p. (''integral_'' @ p @ ''_'' @ r, r, p)) procs) (REGIONS cfg))"
    and p2: "dc_bins dc' = dc_bins dc0"
    and p4: "\<forall>r. dc_observed dc' r = (if r \<in> set (REGIONS cfg) then Some (-1) else dc_observed dc0 r)"
    using datacard_regions_Inr [OF assms(1), of D procs dc0] by blast
  define dc2 where "dc2 = setObserved ''control'' (-1) (setExpected ''bg'' ''control'' (controlIntegral D h) (addBin ''control'' dc'))"
  have "setupDatacard D cfg histMap True st = Inr (st\<lparr>card := dc2\<rparr>)"
    unfolding setupDatacard_def Let_def procs_def [symmetric] d using f
    by (simp add: getitem3_Some [OF assms(2)] dc2_def)
  then show ?thesis using p1 p2 p4
    by (simp add: dc0_def procs_def dc2_def setObserved_def setExpected_def addBin_def)
qed

text \<open>
  C10 (the datacard): when every region of the map has its \<open>dataNoSig\<close> entry,
  \<open>setupDatacard\<close> without a control region returns: it appends the regions as
  bins, the background and then one signal process per Higgs mass, and one rate
  parameter \<open>integral_{proc}_{region}\<close> per region and signal process, in the order
  of the loops; every region is observed from the data (\<open>-1\<close>), every signal
  process expects \<open>1\<close> in every region, and the workspace and the datasets are
  untouched.
\<close>

theorem setupDatacard_card:
  assumes "\<forall>r\<in>set (REGIONS cfg). lookup3 histMap r [] ''dataNoSig'' \<noteq> None"
  shows "\<exists>st'. setupDatacard D cfg histMap False st = Inr st' \<and>
           workspace st' = workspace st \<and> datasets st' = datasets st \<and>
           dc_bins (card st') = dc_bins (card st) @ REGIONS cfg \<and>
           dc_processes (card st') = dc_processes (card st) @ (''bg'', False) #
                                       map (\<lambda>p. (p, True)) (signal_procs (ext.truncate D) cfg) \<and>
           dc_rateParams (card st') = dc_rateParams (card st) @
             concat (map (\<lambda>r. map (\<lambda>p. (''integral_'' @ p @ ''_'' @ r, r, p)) (signal_procs (ext.truncate D) cfg))
                         (REGIONS cfg)) \<and>
           (\<forall>r\<in>set (REGIONS cfg). dc_observed (card st') r = Some (-1)) \<and>
           (\<forall>p\<in>set (signal_procs (ext.truncate D) cfg). \<forall>r\<in>set (REGIONS cfg). dc_expected (card st') (p, r) = Some 1)"
  by (rule setupDatacard_Inr [OF assms])

subsection \<open>The model and the datacard together\<close>

lemma spline_calls_central: "h \<in> set (HMASSES cfg) \<Longrightarrow> ([], h) \<in> set (spline_calls cfg)"
  by (auto simp: spline_calls_def)

text \<open>The central template of every region and Higgs mass, and its integral, are in
  the workspace after the signal loop.\<close>

lemma signal_templates_in_dom:
  assumes "addSignalModels E cfg histMap yFitFunc opts st = Some (Inr st')"
    and "r \<in> set (REGIONS cfg)" and "h \<in> set (HMASSES cfg)"
  shows "SPLINENAME E h @ ''_'' @ r \<in> dom (workspace st')"
    and "''integral_'' @ SPLINENAME E h @ ''_'' @ r \<in> dom (workspace st')"
proof -
  have "template_names E h (spline_tag r []) \<subseteq> dom (workspace st')"
    using addSignalModels_templates(2) [OF assms(1)] assms(2) spline_calls_central [OF assms(3)] by fastforce
  then show "SPLINENAME E h @ ''_'' @ r \<in> dom (workspace st')"
    and "''integral_'' @ SPLINENAME E h @ ''_'' @ r \<in> dom (workspace st')"
    by (simp_all add: template_names_def spline_name_def spline_tag_def)
qed

lemma addBackgroundModels_Inr:
  assumes "addBackgroundModels cfg histMap st = Inr st'"
  shows "\<forall>r\<in>set (REGIONS cfg). lookup3 histMap r [] ''dataNoSig'' \<noteq> None"
    and "\<forall>r\<in>set (REGIONS cfg). ''bg_'' @ r \<in> dom (workspace st')"
    and "dom (workspace st) \<subseteq> dom (workspace st')" and "card st' = card st"
  using background_regions_Inr [OF assms [unfolded addBackgroundModels_def]]
  by (auto simp: bg_names_def)

text \<open>
  C7 (the datacard names objects of the workspace): run in the order of the runner
  (lines 338--346 of the runner script: background models, signal models, then the
  datacard, from an empty card), every process of the card has, in every bin, its
  shape \<open>{process}_{bin}\<close> in the workspace, and every rate parameter names a
  function of the workspace; these are the names \<open>combine\<close> looks up when it reads
  the card.
\<close>

theorem datacard_objects_in_workspace:
  assumes bg: "addBackgroundModels cfg histMap st = Inr st1"
    and sg: "addSignalModels (ext.truncate D) cfg histMap yFitFunc opts st1 = Some (Inr st2)"
    and dc: "setupDatacard D cfg histMap False st2 = Inr st3"
    and e: "card st = empty_card"
  shows "(\<forall>pr\<in>set (dc_processes (card st3)). \<forall>b\<in>set (dc_bins (card st3)). fst pr @ ''_'' @ b \<in> dom (workspace st3)) \<and>
         (\<forall>rp\<in>set (dc_rateParams (card st3)). fst rp \<in> dom (workspace st3))"
proof -
  note slots = addBackgroundModels_Inr(1) [OF bg]
  have c2: "card st2 = empty_card"
    using addBackgroundModels_Inr(4) [OF bg] addSignalModels_templates(4) [OF sg] e by simp
  have w2: "dom (workspace st1) \<subseteq> dom (workspace st2)"
    using addSignalModels_templates(2) [OF sg] by blast
  obtain st' where s: "setupDatacard D cfg histMap False st2 = Inr st'"
    and w: "workspace st' = workspace st2"
    and bins: "dc_bins (card st') = dc_bins (card st2) @ REGIONS cfg"
    and procs: "dc_processes (card st') = dc_processes (card st2) @ (''bg'', False) #
                                       map (\<lambda>p. (p, True)) (signal_procs (ext.truncate D) cfg)"
    and rates: "dc_rateParams (card st') = dc_rateParams (card st2) @
             concat (map (\<lambda>r. map (\<lambda>p. (''integral_'' @ p @ ''_'' @ r, r, p)) (signal_procs (ext.truncate D) cfg))
                         (REGIONS cfg))"
    using setupDatacard_Inr [OF slots] by blast
  have st3: "st3 = st'" using s dc by simp
  have bgs: "''bg'' @ ''_'' @ b \<in> dom (workspace st3)" if "b \<in> set (REGIONS cfg)" for b
    using addBackgroundModels_Inr(2) [OF bg] that w2 w st3 by auto
  have sigs: "SPLINENAME (ext.truncate D) h @ ''_'' @ b \<in> dom (workspace st3)"
    and ints: "''integral_'' @ SPLINENAME (ext.truncate D) h @ ''_'' @ b \<in> dom (workspace st3)"
    if "b \<in> set (REGIONS cfg)" and "h \<in> set (HMASSES cfg)" for b h
    using signal_templates_in_dom [OF sg that] w st3 by simp_all
  show ?thesis
    using bins procs rates c2 st3 bgs sigs ints
    by (auto simp: empty_card_def signal_procs_def)
qed

subsection \<open>Worked examples of the driver\<close>

lemma demo_dext_truncate [simp]: "ext.truncate demo_dext = demo_ext"
  by (simp add: demo_dext_def demo_ext_def ext.truncate_def)

theorem setupDatacard_card_witness:
  "\<exists>st'. setupDatacard demo_dext demo_cfg demo_hists False demo_state = Inr st' \<and>
     dc_bins (card st') = [''PP''] \<and> dc_processes (card st') = [(''bg'', False), (''sig'', True)] \<and>
     dc_rateParams (card st') = [(''integral_sig_PP'', ''PP'', ''sig'')] \<and>
     dc_observed (card st') ''PP'' = Some (-1) \<and> dc_expected (card st') (''sig'', ''PP'') = Some 1"
  using setupDatacard_card [of demo_cfg demo_hists demo_dext demo_state, OF demo_slots]
  by (simp add: demo_state_def empty_card_def signal_procs_def, blast)

theorem datacard_objects_in_workspace_witness:
  "\<exists>st1 st2 st3. addBackgroundModels demo_cfg demo_hists demo_state = Inr st1 \<and>
     addSignalModels (ext.truncate demo_dext) demo_cfg demo_hists ''V''
       \<lparr>fit = False, ygausOnly = False, doBackgroundSignal = False\<rparr> st1 = Some (Inr st2) \<and>
     setupDatacard demo_dext demo_cfg demo_hists False st2 = Inr st3 \<and>
     ''bg_PP'' \<in> dom (workspace st3) \<and> ''sig_PP'' \<in> dom (workspace st3) \<and>
     ''integral_sig_PP'' \<in> dom (workspace st3)"
proof -
  obtain st1 where b: "addBackgroundModels demo_cfg demo_hists demo_state = Inr st1"
    using background_regions_ex [OF demo_slots] unfolding addBackgroundModels_def by blast
  obtain ws where "buildSpline demo_ext runner_cfg demo_hists (workspace st1) 125 ''PP'' [] ''V''
           \<lparr>fit = False, ygausOnly = False, doBackgroundSignal = False\<rparr> = Some (Inr ws)"
    using demo_buildSpline_V by blast
  then have s: "addSignalModels (ext.truncate demo_dext) demo_cfg demo_hists ''V''
       \<lparr>fit = False, ygausOnly = False, doBackgroundSignal = False\<rparr> st1 =
       Some (Inr (st1\<lparr>workspace := ws(''sig_PP_norm'' \<mapsto> WVar 1 0 9999)\<rparr>))"
    unfolding demo_dext_truncate by (rule demo_addSignalModels)
  obtain st3 where d: "setupDatacard demo_dext demo_cfg demo_hists False
       (st1\<lparr>workspace := ws(''sig_PP_norm'' \<mapsto> WVar 1 0 9999)\<rparr>) = Inr st3"
    and p: "dc_processes (card st3) = dc_processes (card st1) @ [(''bg'', False), (''sig'', True)]"
    and bn: "dc_bins (card st3) = dc_bins (card st1) @ [''PP'']"
    and rp: "dc_rateParams (card st3) = dc_rateParams (card st1) @ [(''integral_sig_PP'', ''PP'', ''sig'')]"
    using setupDatacard_Inr [OF demo_slots, where D = demo_dext and cfg = demo_cfg
        and st = "st1\<lparr>workspace := ws(''sig_PP_norm'' \<mapsto> WVar 1 0 9999)\<rparr>"]
    by (auto simp: signal_procs_def)
  have e: "card demo_state = empty_card" by (simp add: demo_state_def)
  note D = datacard_objects_in_workspace [OF b s d e]
  from D p bn have "''bg_PP'' \<in> dom (workspace st3)" and "''sig_PP'' \<in> dom (workspace st3)" by auto
  moreover from D rp have "''integral_sig_PP'' \<in> dom (workspace st3)" by auto
  ultimately show ?thesis using b s d by blast
qed

subsection \<open>Properties of the data\<close>

lemma data_region_Inr:
  assumes "lookup3 histMap r [] ''data'' = Some d" and "lookup3 histMap r [] ''dataNoSig'' = Some n"
    and "asimov \<longrightarrow> ws_pdf (workspace st) (''bg_'' @ r) \<noteq> None"
  shows "data_region D histMap asimov False mh ma r st =
           Inr (st\<lparr>datasets := (datasets st)(''data_obs_'' @ r \<mapsto>
                  (if asimov then Asimov (''bg_'' @ r) (py_int (integral D n)) None else DataObs d))\<rparr>)"
proof -
  obtain hr hs where "histMap r = Some hr" "hr [] = Some hs" "hs ''data'' = Some d" "hs ''dataNoSig'' = Some n"
    using assms(1,2) by (auto simp: lookup3_def split: option.split_asm)
  then show ?thesis using assms(3) by (cases asimov) (auto simp: data_region_def)
qed

lemma data_regions_Inr:
  assumes "\<forall>r\<in>set rs. lookup3 histMap r [] ''data'' = Some (dat r) \<and>
                      lookup3 histMap r [] ''dataNoSig'' = Some (nosig r) \<and>
                      (asimov \<longrightarrow> ws_pdf (workspace st) (''bg_'' @ r) \<noteq> None)"
  shows "\<exists>st'. rfold (data_region D histMap asimov False mh ma) rs st = Inr st' \<and>
           workspace st' = workspace st \<and> card st' = card st \<and>
           (\<forall>r\<in>set rs. datasets st' (''data_obs_'' @ r) =
              Some (if asimov then Asimov (''bg_'' @ r) (py_int (integral D (nosig r))) None else DataObs (dat r))) \<and>
           (\<forall>k. k \<notin> (\<lambda>r. ''data_obs_'' @ r) ` set rs \<longrightarrow> datasets st' k = datasets st k)"
  using assms
proof (induction rs arbitrary: st)
  case Nil
  then show ?case by simp
next
  case (Cons r rs)
  define st1 where "st1 = st\<lparr>datasets := (datasets st)(''data_obs_'' @ r \<mapsto>
                  (if asimov then Asimov (''bg_'' @ r) (py_int (integral D (nosig r))) None else DataObs (dat r)))\<rparr>"
  from Cons.prems have s: "data_region D histMap asimov False mh ma r st = Inr st1"
    unfolding st1_def by (intro data_region_Inr) simp_all
  from Cons.prems have "\<forall>r\<in>set rs. lookup3 histMap r [] ''data'' = Some (dat r) \<and>
                      lookup3 histMap r [] ''dataNoSig'' = Some (nosig r) \<and>
                      (asimov \<longrightarrow> ws_pdf (workspace st1) (''bg_'' @ r) \<noteq> None)"
    by (simp add: st1_def)
  from Cons.IH [OF this] obtain st' where f: "rfold (data_region D histMap asimov False mh ma) rs st1 = Inr st'"
    and w: "workspace st' = workspace st1" and c: "card st' = card st1"
    and v: "\<forall>r\<in>set rs. datasets st' (''data_obs_'' @ r) =
              Some (if asimov then Asimov (''bg_'' @ r) (py_int (integral D (nosig r))) None else DataObs (dat r))"
    and o: "\<forall>k. k \<notin> (\<lambda>r. ''data_obs_'' @ r) ` set rs \<longrightarrow> datasets st' k = datasets st1 k"
    by blast
  have "rfold (data_region D histMap asimov False mh ma) (r # rs) st = Inr st'" using s f by simp
  moreover have "datasets st' (''data_obs_'' @ r) =
              Some (if asimov then Asimov (''bg_'' @ r) (py_int (integral D (nosig r))) None else DataObs (dat r))"
  proof (cases "r \<in> set rs")
    case True
    then show ?thesis using v by blast
  next
    case False
    then have n: "''data_obs_'' @ r \<notin> (\<lambda>r. ''data_obs_'' @ r) ` set rs" by auto
    show ?thesis using o [rule_format, OF n] by (simp add: st1_def)
  qed
  moreover have "\<forall>k. k \<notin> (\<lambda>r. ''data_obs_'' @ r) ` set (r # rs) \<longrightarrow> datasets st' k = datasets st k"
    using o by (simp add: st1_def)
  ultimately show ?case using w c v by (simp add: st1_def)
qed

text \<open>
  C18 (the observed data): when every region has its \<open>data\<close> and \<open>dataNoSig\<close>
  entries (and, for an Asimov dataset, its background model in the workspace),
  \<open>addData\<close> without a signal injection returns and stores one dataset
  \<open>data_obs_{region}\<close> per region: the map's \<open>data\<close>, or a dataset generated from
  \<open>bg_{region}\<close> with \<open>int()\<close> of the integral of \<open>dataNoSig\<close> events. No other
  dataset, and neither the workspace nor the datacard, changes.
\<close>

theorem addData_Inr:
  assumes "\<forall>r\<in>set (REGIONS cfg). lookup3 histMap r [] ''data'' = Some (dat r) \<and>
                      lookup3 histMap r [] ''dataNoSig'' = Some (nosig r) \<and>
                      (asimov \<longrightarrow> ws_pdf (workspace st) (''bg_'' @ r) \<noteq> None)"
  shows "\<exists>st'. addData D cfg histMap asimov False mh ma st = Inr st' \<and>
           workspace st' = workspace st \<and> card st' = card st \<and>
           (\<forall>r\<in>set (REGIONS cfg). datasets st' (''data_obs_'' @ r) =
              Some (if asimov then Asimov (''bg_'' @ r) (py_int (integral D (nosig r))) None else DataObs (dat r))) \<and>
           (\<forall>k. k \<notin> (\<lambda>r. ''data_obs_'' @ r) ` set (REGIONS cfg) \<longrightarrow> datasets st' k = datasets st k)"
  unfolding addData_def by (rule data_regions_Inr [OF assms])

text \<open>
  C19 (the Asimov data still read \<open>data\<close>): line 646 reads the map's \<open>data\<close>
  before it tests \<open>asimov\<close>, so a map that has \<open>dataNoSig\<close> but no \<open>data\<close> for the
  first region makes \<open>addData\<close> raise \<open>KeyError\<close>, in the Asimov mode too, where
  the generated dataset never uses it.
\<close>

theorem addData_KeyError_data:
  assumes "REGIONS cfg = r # rs" and "lookup3 histMap r [] ''dataNoSig'' \<noteq> None"
    and "lookup3 histMap r [] ''data'' = None"
  shows "addData D cfg histMap asimov addSignal mh ma st = Inl (KeyError ''data'')"
proof -
  obtain hr hs where "histMap r = Some hr" "hr [] = Some hs" "hs ''data'' = None"
    using assms(2,3) by (auto simp: lookup3_def split: option.split_asm)
  then show ?thesis using assms(1) by (simp add: addData_def data_region_def)
qed

theorem addData_KeyError_data_witness:
  "addData demo_dext demo_cfg nosig_hists True False 125 15 demo_state = Inl (KeyError ''data'')"
proof -
  have "REGIONS demo_cfg = ''PP'' # []" and "lookup3 nosig_hists ''PP'' [] ''dataNoSig'' \<noteq> None"
    and "lookup3 nosig_hists ''PP'' [] ''data'' = None"
    by (simp_all add: nosig_hists_def lookup3_def)
  then show ?thesis by (rule addData_KeyError_data)
qed

theorem addData_Inr_witness:
  "\<exists>st'. addData demo_dext demo_cfg demo_hists False False 125 15 demo_state = Inr st' \<and>
     datasets st' ''data_obs_PP'' = Some (DataObs ()) \<and> datasets st' ''data_obs_FP'' = None"
proof -
  have "\<forall>r\<in>set (REGIONS demo_cfg). lookup3 demo_hists r [] ''data'' = Some ((\<lambda>r. ()) r) \<and>
                      lookup3 demo_hists r [] ''dataNoSig'' = Some ((\<lambda>r. ()) r) \<and>
                      (False \<longrightarrow> ws_pdf (workspace demo_state) (''bg_'' @ r) \<noteq> None)"
    by (simp add: demo_hists_def lookup3_def)
  from addData_Inr [OF this, where D = demo_dext and mh = 125 and ma = 15] show ?thesis
    by (auto simp: demo_state_def)
qed

subsection \<open>Properties of save\<close>

lemma SIGNAME_X_eq_iff [simp]: "SIGNAME h (PStr ''X'') = SIGNAME h' (PStr ''X'') \<longleftrightarrow> h = h'"
  by (simp add: SIGNAME_def)

lemma save_processes_foldl:
  "foldl (\<lambda>ps h. ps(SIGNAME h (PStr ''X'') \<mapsto> [SPLINENAME E h, ''bg''])) m hs (SIGNAME h (PStr ''X'')) =
     (if h \<in> set hs then Some [SPLINENAME E h, ''bg''] else m (SIGNAME h (PStr ''X'')))"
  by (induction hs arbitrary: m) auto

lemma save_processes_foldl_dom:
  "dom (foldl (\<lambda>ps h. ps(SIGNAME h (PStr ''X'') \<mapsto> [SPLINENAME E h, ''bg''])) m hs) =
     dom m \<union> (\<lambda>h. SIGNAME h (PStr ''X'')) ` set hs"
  by (induction hs arbitrary: m) auto

text \<open>
  The processes handed to \<open>printCard\<close>: \<open>save\<close> keys the processes by
  \<open>HToAAH{h}AX\<close>, one key per Higgs mass of \<open>HMASSES\<close> and no other, and under
  each key lists that mass's signal process and the background. Distinct masses
  give distinct keys, so no mass overwrites another.
\<close>

theorem save_processes_lookup:
  "save_processes E cfg (SIGNAME h (PStr ''X'')) =
     (if h \<in> set (HMASSES cfg) then Some [SPLINENAME E h, ''bg''] else None) \<and>
   dom (save_processes E cfg) = (\<lambda>h. SIGNAME h (PStr ''X'')) ` set (HMASSES cfg)"
  by (simp add: save_processes_def save_processes_foldl save_processes_foldl_dom)

end
