(* ===== verification/Pipeline.thy ===== *)
theory Pipeline
  imports Datacard
begin

text \<open>
  The order in which the runner calls the model-building methods
  (newRunningHaaLimitsKyle_KinFit_mumufourBody.py, lines 338--346), as a step relation
  on a stage and the state of the limits object: the background models, the signal
  models with \<open>XRANGE\<close> set to \<open>[0, 30]\<close> for the call (lines 339--341), the
  data, the datacard. The relation is parametric in the two flags the runner passes,
  \<open>asimov\<close> of \<open>addData\<close> (line 344: \<open>True\<close>) and \<open>addControl\<close> of
  \<open>setupDatacard\<close> (line 346: \<open>IFCONTROL = True\<close>); the liveness theorem uses the
  runner's values. \<open>addData\<close> is called with \<open>addSignal=False\<close> and its default
  masses \<open>h = 125\<close>, \<open>a = 15\<close> (lines 642--643). The control-region calls
  \<open>addControlModels\<close> and \<open>addControlData\<close> (lines 337 and 343) and
  \<open>addSystematics\<close> (line 347) are not steps: HaaLimits2D.py does not define them
  with the runner's arguments. The stages are ordered as the calls are.
\<close>

datatype stage = Init | Background | Signals | Data | Card

inductive haa_step :: "('h, 'z) driver_ext_scheme \<Rightarrow> limits_cfg \<Rightarrow> 'h dict3 \<Rightarrow> string \<Rightarrow> spline_opts \<Rightarrow>
    bool \<Rightarrow> bool \<Rightarrow> stage \<times> 'h limits_state \<Rightarrow> stage \<times> 'h limits_state \<Rightarrow> bool"
  for D cfg histMap yFitFunc opts asimov addControl where
  background: "addBackgroundModels cfg histMap st = Inr st' \<Longrightarrow>
    haa_step D cfg histMap yFitFunc opts asimov addControl (Init, st) (Background, st')"
| signals: "addSignalModels (ext.truncate D) (cfg\<lparr>XRANGE := (0, 30)\<rparr>) histMap yFitFunc opts st = Some (Inr st') \<Longrightarrow>
    haa_step D cfg histMap yFitFunc opts asimov addControl (Background, st) (Signals, st')"
| data: "addData D cfg histMap asimov False 125 15 st = Inr st' \<Longrightarrow>
    haa_step D cfg histMap yFitFunc opts asimov addControl (Signals, st) (Data, st')"
| card: "setupDatacard D cfg histMap addControl st = Inr st' \<Longrightarrow>
    haa_step D cfg histMap yFitFunc opts asimov addControl (Data, st) (Card, st')"

inductive_cases haa_step_InitE: "haa_step D cfg histMap yFitFunc opts asimov addControl (Init, st) s'"

text \<open>The stages in the order of the calls.\<close>

fun stage_rank :: "stage \<Rightarrow> nat" where
  "stage_rank Init = 0" | "stage_rank Background = 1" | "stage_rank Signals = 2"
| "stage_rank Data = 3" | "stage_rank Card = 4"

instantiation stage :: linorder
begin
definition less_eq_stage :: "stage \<Rightarrow> stage \<Rightarrow> bool" where
  "less_eq_stage s t \<longleftrightarrow> stage_rank s \<le> stage_rank t"
definition less_stage :: "stage \<Rightarrow> stage \<Rightarrow> bool" where
  "less_stage s t \<longleftrightarrow> stage_rank s < stage_rank t"
instance
proof
  fix x y :: stage
  show "x \<le> y \<Longrightarrow> y \<le> x \<Longrightarrow> x = y"
    by (cases x; cases y) (simp_all add: less_eq_stage_def)
qed (auto simp: less_eq_stage_def less_stage_def)
end

text \<open>What each stage has produced for the datacard: from the background stage on,
  a background pdf \<open>bg_{region}\<close> for every region; from the data stage on, a
  dataset \<open>data_obs_{region}\<close> for every region; at the datacard stage, a bin
  for every region, and the control bin when it was asked for.\<close>

definition stage_inv :: "limits_cfg \<Rightarrow> bool \<Rightarrow> stage \<times> 'h limits_state \<Rightarrow> bool" where
  "stage_inv cfg addControl s \<longleftrightarrow>
     (Background \<le> fst s \<longrightarrow> (\<forall>r\<in>set (REGIONS cfg). ws_pdf (workspace (snd s)) (''bg_'' @ r) \<noteq> None)) \<and>
     (Data \<le> fst s \<longrightarrow> (\<forall>r\<in>set (REGIONS cfg). datasets (snd s) (''data_obs_'' @ r) \<noteq> None)) \<and>
     (fst s = Card \<longrightarrow> set (REGIONS cfg) \<subseteq> set (dc_bins (card (snd s))) \<and>
                       (addControl \<longrightarrow> ''control'' \<in> set (dc_bins (card (snd s)))))"

text \<open>The workspace objects \<open>RooWorkspace.pdf\<close> returns.\<close>

fun pdf_obj :: "wsobj \<Rightarrow> bool" where
  "pdf_obj (WPdf m) = True" | "pdf_obj (WBasePdf b) = True" | "pdf_obj (WProdSpline nx ny av ints) = True"
| "pdf_obj _ = False"

subsection \<open>What each call produces\<close>

lemma ws_pdf_upd:
  "ws_pdf ws n \<noteq> None \<Longrightarrow> (m \<noteq> n \<or> pdf_obj v) \<Longrightarrow> ws_pdf (ws(m \<mapsto> v)) n \<noteq> None"
  by (cases v) (auto simp: ws_pdf_def)

lemma ws_pdf_upd_self: "pdf_obj v \<Longrightarrow> ws_pdf (ws(n \<mapsto> v)) n \<noteq> None"
  by (cases v) (auto simp: ws_pdf_def)

lemma build_models_pdf: "ws_pdf ws n \<noteq> None \<Longrightarrow> ws_pdf (build_models ws bs) n \<noteq> None"
  unfolding build_models_def
proof (induction bs arbitrary: ws)
  case (Cons b bs)
  have "ws_pdf (ws(fst b \<mapsto> WPdf (snd b))) n \<noteq> None" by (rule ws_pdf_upd [OF Cons.prems]) simp
  from Cons.IH [OF this] show ?case by simp
qed simp

lemma background_region_pdfs:
  assumes "background_region cfg histMap r st = Inr st'"
    and "\<forall>r0\<in>R. r0 \<noteq> r @ ''_norm''" and "\<forall>r0\<in>R. ws_pdf (workspace st) (''bg_'' @ r0) \<noteq> None"
  shows "\<forall>r0\<in>insert r R. ws_pdf (workspace st') (''bg_'' @ r0) \<noteq> None"
proof
  fix r0 assume r0: "r0 \<in> insert r R"
  let ?ws = "buildModel cfg r (workspace st)"
  have "ws_pdf ?ws (''bg_'' @ r0) \<noteq> None"
  proof (cases "r0 = r")
    case True
    then show ?thesis by (simp add: buildModel_def Let_def ws_pdf_upd_self)
  next
    case False
    with r0 assms(3) have "ws_pdf (workspace st) (''bg_'' @ r0) \<noteq> None" by simp
    then show ?thesis unfolding buildModel_def Let_def
      by (intro ws_pdf_upd build_models_pdf) simp_all
  qed
  moreover have "''bg_'' @ r @ ''_norm'' \<noteq> ''bg_'' @ r0"
    using r0 assms(2) by auto
  ultimately have "ws_pdf (?ws(''bg_'' @ r @ ''_norm'' \<mapsto> WVar 1 0 2)) (''bg_'' @ r0) \<noteq> None"
    by (intro ws_pdf_upd) simp_all
  then show "ws_pdf (workspace st') (''bg_'' @ r0) \<noteq> None"
    using background_region_Inr [OF assms(1)] by simp
qed

lemma background_regions_pdfs:
  assumes "rfold (background_region cfg histMap) rs st = Inr st'"
    and "\<forall>r0\<in>R \<union> set rs. \<forall>r\<in>set rs. r0 \<noteq> r @ ''_norm''"
    and "\<forall>r0\<in>R. ws_pdf (workspace st) (''bg_'' @ r0) \<noteq> None"
  shows "\<forall>r0\<in>R \<union> set rs. ws_pdf (workspace st') (''bg_'' @ r0) \<noteq> None"
  using assms
proof (induction rs arbitrary: st R)
  case Nil
  then show ?case by simp
next
  case (Cons r rs)
  then obtain st1 where s: "background_region cfg histMap r st = Inr st1"
    and f: "rfold (background_region cfg histMap) rs st1 = Inr st'"
    by (auto simp: rbind_eq_Inr_iff)
  have a: "\<forall>r0\<in>R. r0 \<noteq> r @ ''_norm''" using Cons.prems(2) by simp
  have "\<forall>r0\<in>insert r R. ws_pdf (workspace st1) (''bg_'' @ r0) \<noteq> None"
    by (rule background_region_pdfs [OF s a Cons.prems(3)])
  moreover have "\<forall>r0\<in>insert r R \<union> set rs. \<forall>r'\<in>set rs. r0 \<noteq> r' @ ''_norm''" using Cons.prems(2) by auto
  ultimately have "\<forall>r0\<in>insert r R \<union> set rs. ws_pdf (workspace st') (''bg_'' @ r0) \<noteq> None"
    using Cons.IH [OF f] by blast
  then show ?case by simp
qed

lemma signal_name_not_bg: "take 1 p \<noteq> ''b'' \<Longrightarrow> p @ ''_'' @ q \<noteq> ''bg_'' @ r"
  by (cases p) auto

lemma buildSpline_pdf:
  assumes "buildSpline E cfg histMap ws h region shift yFitFunc opts = Some (Inr ws')"
    and "take 1 (SPLINENAME E h) \<noteq> ''b''" and "ws_pdf ws (''bg_'' @ r) \<noteq> None"
  shows "ws_pdf ws' (''bg_'' @ r) \<noteq> None"
proof -
  obtain avals ints sx sy where w: "ws' = add_templates E ws h (spline_tag region shift) avals ints sx sy"
    by (rule buildSpline_Inr_templates [OF assms(1)])
  let ?n = "spline_name E h (spline_tag region shift)"
  have n: "?n @ q \<noteq> ''bg_'' @ r" for q
    using signal_name_not_bg [OF assms(2), of "spline_tag region shift @ q" r] by (simp add: spline_name_def)
  have "''integral_'' @ ?n \<noteq> ''bg_'' @ r" by simp
  then show ?thesis unfolding w add_templates_def Let_def
    using assms(3) n [of "''_x''"] n [of "''_y''"] n [of "[]"]
    by (intro ws_pdf_upd) (auto intro: ws_pdf_upd)
qed

lemma addSignalModels_pdf:
  assumes "addSignalModels E cfg histMap yFitFunc opts st = Some (Inr st')"
    and names: "\<forall>h. take 1 (SPLINENAME E h) \<noteq> ''b''" and "ws_pdf (workspace st) (''bg_'' @ r) \<noteq> None"
  shows "ws_pdf (workspace st') (''bg_'' @ r) \<noteq> None"
proof -
  obtain sv' where o: "ofold (signal_region E cfg histMap yFitFunc opts) (REGIONS cfg) (st, None) = Some (Inr sv')"
    and e: "st' = fst sv'"
    by (rule addSignalModels_Inr_cases [OF assms(1)])
  have step: "ws_pdf (workspace (fst sv2)) (''bg_'' @ r) \<noteq> None"
    if s: "signal_region E cfg histMap yFitFunc opts region sv1 = Some (Inr sv2)"
      and p: "ws_pdf (workspace (fst sv1)) (''bg_'' @ r) \<noteq> None" for region sv1 sv2
  proof -
    obtain ws h where c: "ofold (\<lambda>c ws. buildSpline E cfg histMap ws (snd c) region (fst c) yFitFunc opts) (spline_calls cfg)
         (workspace (fst sv1)) = Some (Inr ws)"
      and sv2: "sv2 = ((fst sv1)\<lparr>workspace := ws(SPLINENAME E h @ ''_'' @ region @ ''_norm'' \<mapsto> WVar 1 0 9999)\<rparr>, Some h)"
      by (rule signal_region_Inr_cases [OF s])
    have inv: "\<And>c t t'. buildSpline E cfg histMap t (snd c) region (fst c) yFitFunc opts = Some (Inr t') \<Longrightarrow>
        ws_pdf t (''bg_'' @ r) \<noteq> None \<Longrightarrow> ws_pdf t' (''bg_'' @ r) \<noteq> None"
      using names buildSpline_pdf by blast
    have w: "ws_pdf ws (''bg_'' @ r) \<noteq> None"
      using c p by (rule ofold_invariant [where P = "\<lambda>ws. ws_pdf ws (''bg_'' @ r) \<noteq> None"]) (rule inv)
    have "SPLINENAME E h @ ''_'' @ region @ ''_norm'' \<noteq> ''bg_'' @ r"
      using signal_name_not_bg names by blast
    then have "ws_pdf (ws(SPLINENAME E h @ ''_'' @ region @ ''_norm'' \<mapsto> WVar 1 0 9999)) (''bg_'' @ r) \<noteq> None"
      using w by (intro ws_pdf_upd) simp_all
    then show ?thesis using sv2 by simp
  qed
  have "ws_pdf (workspace (fst sv')) (''bg_'' @ r) \<noteq> None"
    using o
  proof (rule ofold_invariant [where P = "\<lambda>sv. ws_pdf (workspace (fst sv)) (''bg_'' @ r) \<noteq> None"])
    show "ws_pdf (workspace (fst (st, None :: int option))) (''bg_'' @ r) \<noteq> None" using assms(3) by simp
  qed (rule step)
  with e show ?thesis by simp
qed

lemma data_region_nosig:
  "data_region D histMap asimov False mh ma r st = Inr st' \<Longrightarrow>
   \<exists>v. st' = st\<lparr>datasets := (datasets st)(''data_obs_'' @ r \<mapsto> v)\<rparr>"
  by (auto simp: data_region_def Let_def rbind_eq_Inr_iff split: if_splits)

lemma addData_outputs:
  assumes "rfold (data_region D histMap asimov False mh ma) rs st = Inr st'"
  shows "workspace st' = workspace st \<and> card st' = card st \<and>
         (\<forall>n. datasets st n \<noteq> None \<longrightarrow> datasets st' n \<noteq> None) \<and>
         (\<forall>r\<in>set rs. datasets st' (''data_obs_'' @ r) \<noteq> None)"
  using assms
proof (induction rs arbitrary: st)
  case Nil
  then show ?case by simp
next
  case (Cons r rs)
  then obtain st1 where s: "data_region D histMap asimov False mh ma r st = Inr st1"
    and f: "rfold (data_region D histMap asimov False mh ma) rs st1 = Inr st'"
    by (auto simp: rbind_eq_Inr_iff)
  from data_region_nosig [OF s] obtain v where e: "st1 = st\<lparr>datasets := (datasets st)(''data_obs_'' @ r \<mapsto> v)\<rparr>" ..
  from Cons.IH [OF f] e show ?case by auto
qed

lemma datacard_region_bins: "datacard_region D histMap procs r dc = Inr dc' \<Longrightarrow> dc_bins dc' = dc_bins dc"
proof -
  have "dc_bins (foldl (\<lambda>dc proc. addRateParam (''integral_'' @ proc @ ''_'' @ r) r proc (setExpected proc r 1 dc)) dc0 procs) =
        dc_bins dc0" for dc0
    by (induction procs arbitrary: dc0) (simp_all add: addRateParam_def setExpected_def)
  then show "datacard_region D histMap procs r dc = Inr dc' \<Longrightarrow> dc_bins dc' = dc_bins dc"
    by (auto simp: datacard_region_def Let_def rbind_eq_Inr_iff setExpected_def setObserved_def)
qed

lemma setupDatacard_outputs:
  assumes "setupDatacard D cfg histMap addControl st = Inr st'"
  shows "workspace st' = workspace st \<and> datasets st' = datasets st \<and>
         dc_bins (card st') = dc_bins (card st) @ REGIONS cfg @ (if addControl then [''control''] else [])"
proof -
  let ?dc0 = "foldl (\<lambda>dc proc. addProcess proc True dc)
               (addProcess ''bg'' False (foldl (\<lambda>dc region. addBin region dc) (card st) (REGIONS cfg)))
               (signal_procs (ext.truncate D) cfg)"
  have b0: "dc_bins ?dc0 = dc_bins (card st) @ REGIONS cfg"
    by (simp only: addBin_foldl addProcess_foldl) (simp add: addProcess_def)
  from assms obtain dc where f: "rfold (datacard_region D histMap (signal_procs (ext.truncate D) cfg)) (REGIONS cfg) ?dc0 = Inr dc"
    and r: "(if addControl then
        rbind (getitem histMap ''control'') (\<lambda>hr. rbind (getitem hr []) (\<lambda>hs.
        rbind (getitem hs ''dataNoSig'') (\<lambda>hist.
          Inr (st\<lparr>card := setObserved ''control'' (-1) (setExpected ''bg'' ''control'' (controlIntegral D hist) (addBin ''control'' dc))\<rparr>))))
      else Inr (st\<lparr>card := dc\<rparr>)) = Inr st'"
    unfolding setupDatacard_def Let_def by (auto simp: rbind_eq_Inr_iff)
  have "dc_bins dc = dc_bins ?dc0"
    using f by (rule rfold_invariant [where P = "\<lambda>d. dc_bins d = dc_bins ?dc0"]) (auto dest: datacard_region_bins)
  with r b0 show ?thesis
    by (cases addControl) (auto simp: rbind_eq_Inr_iff getitem_eq_Inr_iff setObserved_def setExpected_def addBin_def)
qed


text \<open>One step keeps the invariant of the stages, when no region is another's name
  followed by \<open>_norm\<close> (the background loop's norm variable would replace that
  region's pdf) and no signal spline name starts with \<open>b\<close> (the signal loop's
  objects would replace a background pdf).\<close>

lemma haa_step_inv:
  assumes "haa_step D cfg histMap yFitFunc opts asimov addControl s s'" and "stage_inv cfg addControl s"
    and regs: "\<forall>r\<in>set (REGIONS cfg). \<forall>r'\<in>set (REGIONS cfg). r \<noteq> r' @ ''_norm''"
    and names: "\<forall>h. take 1 (SPLINENAME D h) \<noteq> ''b''"
  shows "stage_inv cfg addControl s'"
  using assms(1)
proof cases
  case (background st st')
  have "\<forall>r0\<in>{} \<union> set (REGIONS cfg). ws_pdf (workspace st') (''bg_'' @ r0) \<noteq> None"
    using background(3) regs unfolding addBackgroundModels_def
    by (intro background_regions_pdfs) auto
  then show ?thesis using background by (simp add: stage_inv_def less_eq_stage_def)
next
  case (signals st st')
  have n: "\<forall>h. take 1 (SPLINENAME (ext.truncate D) h) \<noteq> ''b''" using names by (simp add: ext.truncate_def)
  have "\<forall>r\<in>set (REGIONS cfg). ws_pdf (workspace st) (''bg_'' @ r) \<noteq> None"
    using assms(2) signals by (simp add: stage_inv_def less_eq_stage_def)
  then have "\<forall>r\<in>set (REGIONS cfg). ws_pdf (workspace st') (''bg_'' @ r) \<noteq> None"
    using addSignalModels_pdf [OF signals(3) n] by blast
  then show ?thesis using signals by (simp add: stage_inv_def less_eq_stage_def)
next
  case (data st st')
  from addData_outputs [OF data(3) [unfolded addData_def]] assms(2) data show ?thesis
    by (simp add: stage_inv_def less_eq_stage_def)
next
  case (card st st')
  from setupDatacard_outputs [OF card(3)] assms(2) card show ?thesis
    by (auto simp: stage_inv_def less_eq_stage_def)
qed

text \<open>
  C14 (invariant of the runner's sequence): in every state the sequence reaches, each
  stage has produced what the datacard needs: after the background call a
  background pdf for every region, after \<open>addData\<close> an observed dataset for every
  region, and at the datacard a bin for every region and, with \<open>addControl\<close>, the
  control bin. Proved by rule induction over the steps, for either value of the
  two flags.
\<close>

theorem haa_reachable_stage_inv:
  assumes "(haa_step D cfg histMap yFitFunc opts asimov addControl)\<^sup>*\<^sup>* (Init, st) s"
    and "\<forall>r\<in>set (REGIONS cfg). \<forall>r'\<in>set (REGIONS cfg). r \<noteq> r' @ ''_norm''"
    and "\<forall>h. take 1 (SPLINENAME D h) \<noteq> ''b''"
  shows "stage_inv cfg addControl s"
  using assms(1)
proof (induction rule: rtranclp_induct)
  case base
  then show ?case by (simp add: stage_inv_def less_eq_stage_def)
next
  case (step s1 s2)
  from haa_step_inv [OF step(2) step(3) assms(2,3)] show ?case .
qed

subsection \<open>The sequence reaches the datacard\<close>

lemma spline_calls_mass: "c \<in> set (spline_calls cfg) \<Longrightarrow> snd c \<in> set (HMASSES cfg)"
  by (auto simp: spline_calls_def split: if_splits)

text \<open>The signal histograms one region needs for every call of the signal loop.\<close>

lemma signal_region_ex:
  assumes E: "fit_reports_params E" and hm: "HMASSES cfg \<noteq> []"
    and av: "\<forall>h\<in>set (HMASSES cfg). \<exists>avals. avals_of (AMASSES cfg) h = Inr avals"
    and x: "fst (XRANGE cfg) < snd (XRANGE cfg)" and y: "fst (YRANGE cfg) < snd (YRANGE cfg)"
    and sig: "\<forall>c\<in>set (spline_calls cfg). has_slot histMap r (fst c) \<and>
               (\<forall>a\<in>set (grid_amasses (AMASSES cfg) (snd c)). lookup3 histMap r (fst c) (SIGNAME (snd c) a) \<noteq> None)"
  shows "\<exists>sv'. signal_region E cfg histMap ''V'' opts r sv = Some (Inr sv')"
proof -
  have "\<forall>c\<in>set (spline_calls cfg). \<forall>ws. \<exists>ws'. buildSpline E cfg histMap ws (snd c) r (fst c) ''V'' opts = Some (Inr ws')"
  proof (intro ballI allI)
    fix c ws assume c: "c \<in> set (spline_calls cfg)"
    with sig have sl: "has_slot histMap r (fst c)"
      and l: "\<forall>a\<in>set (grid_amasses (AMASSES cfg) (snd c)). lookup3 histMap r (fst c) (SIGNAME (snd c) a) \<noteq> None"
      by blast+
    from sl obtain hr hs where hr: "histMap r = Some hr" and hs: "hr (fst c) = Some hs"
      by (auto simp: has_slot_def split: option.splits)
    have g: "\<forall>a\<in>set (grid_amasses (AMASSES cfg) (snd c)). hs (SIGNAME (snd c) a) \<noteq> None"
      using l hr hs by (simp add: lookup3_def)
    from av spline_calls_mass [OF c] obtain avals where a: "avals_of (AMASSES cfg) (snd c) = Inr avals" by blast
    show "\<exists>ws'. buildSpline E cfg histMap ws (snd c) r (fst c) ''V'' opts = Some (Inr ws')"
      by (rule buildSpline_V_Inr [where histMap = histMap and region = r and hr = hr and shift = "fst c" and hm = hs, OF E a hr hs g x y])
  qed
  from ofold_all_Inr [OF this, of "workspace (fst sv)"] obtain ws where
    "ofold (\<lambda>c ws. buildSpline E cfg histMap ws (snd c) r (fst c) ''V'' opts) (spline_calls cfg)
      (workspace (fst sv)) = Some (Inr ws)"
    by blast
  then show ?thesis using hm by (simp add: signal_region_def)
qed

lemma addSignalModels_ex:
  assumes "fit_reports_params E" and "HMASSES cfg \<noteq> []"
    and "\<forall>h\<in>set (HMASSES cfg). \<exists>avals. avals_of (AMASSES cfg) h = Inr avals"
    and "fst (XRANGE cfg) < snd (XRANGE cfg)" and "fst (YRANGE cfg) < snd (YRANGE cfg)"
    and sig: "\<forall>r\<in>set (REGIONS cfg). \<forall>c\<in>set (spline_calls cfg). has_slot histMap r (fst c) \<and>
               (\<forall>a\<in>set (grid_amasses (AMASSES cfg) (snd c)). lookup3 histMap r (fst c) (SIGNAME (snd c) a) \<noteq> None)"
  shows "\<exists>st'. addSignalModels E cfg histMap ''V'' opts st = Some (Inr st')"
proof -
  have "\<forall>r\<in>set (REGIONS cfg). \<forall>sv. \<exists>sv'. signal_region E cfg histMap ''V'' opts r sv = Some (Inr sv')"
  proof (intro ballI allI)
    fix r sv assume "r \<in> set (REGIONS cfg)"
    with sig have "\<forall>c\<in>set (spline_calls cfg). has_slot histMap r (fst c) \<and>
               (\<forall>a\<in>set (grid_amasses (AMASSES cfg) (snd c)). lookup3 histMap r (fst c) (SIGNAME (snd c) a) \<noteq> None)"
      by blast
    from signal_region_ex [OF assms(1-5) this] show "\<exists>sv'. signal_region E cfg histMap ''V'' opts r sv = Some (Inr sv')" .
  qed
  from ofold_all_Inr [OF this, of "(st, None)"] obtain sv' where
    "ofold (signal_region E cfg histMap ''V'' opts) (REGIONS cfg) (st, None) = Some (Inr sv')"
    by blast
  then show ?thesis by (simp add: addSignalModels_def)
qed

lemma haa_reaches_card:
  assumes E: "fit_reports_params (ext.truncate D)" and hm: "HMASSES cfg \<noteq> []"
    and av: "\<forall>h\<in>set (HMASSES cfg). \<exists>avals. avals_of (AMASSES cfg) h = Inr avals"
    and y: "fst (YRANGE cfg) < snd (YRANGE cfg)"
    and sig: "\<forall>r\<in>set (REGIONS cfg). \<forall>c\<in>set (spline_calls cfg). has_slot histMap r (fst c) \<and>
               (\<forall>a\<in>set (grid_amasses (AMASSES cfg) (snd c)). lookup3 histMap r (fst c) (SIGNAME (snd c) a) \<noteq> None)"
    and dat: "\<forall>r\<in>set (REGIONS cfg). lookup3 histMap r [] ''data'' \<noteq> None \<and> lookup3 histMap r [] ''dataNoSig'' \<noteq> None"
    and ctl: "lookup3 histMap ''control'' [] ''dataNoSig'' \<noteq> None"
    and regs: "\<forall>r\<in>set (REGIONS cfg). \<forall>r'\<in>set (REGIONS cfg). r \<noteq> r' @ ''_norm''"
    and names: "\<forall>h. take 1 (SPLINENAME D h) \<noteq> ''b''"
  shows "\<exists>st'. (haa_step D cfg histMap ''V'' opts True True)\<^sup>*\<^sup>* (Init, st) (Card, st')"
proof -
  let ?cfg = "cfg\<lparr>XRANGE := (0, 30)\<rparr>"
  have slots: "\<forall>r\<in>set (REGIONS cfg). lookup3 histMap r [] ''dataNoSig'' \<noteq> None" using dat by blast
  obtain st1 where b: "addBackgroundModels cfg histMap st = Inr st1"
    using background_regions_ex [OF slots] unfolding addBackgroundModels_def by blast
  have p1: "\<forall>r0\<in>{} \<union> set (REGIONS cfg). ws_pdf (workspace st1) (''bg_'' @ r0) \<noteq> None"
    using b regs unfolding addBackgroundModels_def by (intro background_regions_pdfs) auto
  have sc: "spline_calls ?cfg = spline_calls cfg" by (simp add: spline_calls_def)
  have "\<exists>st'. addSignalModels (ext.truncate D) ?cfg histMap ''V'' opts st1 = Some (Inr st')"
    by (rule addSignalModels_ex) (use E hm av y sig sc in simp_all)
  then obtain st2 where s: "addSignalModels (ext.truncate D) ?cfg histMap ''V'' opts st1 = Some (Inr st2)" by blast
  have n: "\<forall>h. take 1 (SPLINENAME (ext.truncate D) h) \<noteq> ''b''" using names by (simp add: ext.truncate_def)
  have p2: "\<forall>r\<in>set (REGIONS cfg). ws_pdf (workspace st2) (''bg_'' @ r) \<noteq> None"
    using p1 addSignalModels_pdf [OF s n] by blast
  have "\<forall>r\<in>set (REGIONS cfg). lookup3 histMap r [] ''data'' = Some ((\<lambda>r. the (lookup3 histMap r [] ''data'')) r) \<and>
          lookup3 histMap r [] ''dataNoSig'' = Some ((\<lambda>r. the (lookup3 histMap r [] ''dataNoSig'')) r) \<and>
          (True \<longrightarrow> ws_pdf (workspace st2) (''bg_'' @ r) \<noteq> None)"
    using dat p2 by auto
  from data_regions_Inr [OF this, where D = D and mh = 125 and ma = 15] obtain st3
    where d: "addData D cfg histMap True False 125 15 st2 = Inr st3"
    unfolding addData_def by blast
  from ctl obtain hc where hc: "lookup3 histMap ''control'' [] ''dataNoSig'' = Some hc" by blast
  obtain st4 where c: "setupDatacard D cfg histMap True st3 = Inr st4"
    using setupDatacard_control_Inr [OF slots hc, where D = D and st = st3] by blast
  have "(haa_step D cfg histMap ''V'' opts True True)\<^sup>*\<^sup>* (Init, st) (Background, st1)"
    using haa_step.background [OF b] by blast
  moreover note haa_step.signals [OF s] haa_step.data [OF d] haa_step.card [OF c]
  ultimately show ?thesis by (meson rtranclp.rtrancl_into_rtrancl)
qed

text \<open>
  C13 (liveness of the runner's sequence): with the runner's flags, \<open>asimov=True\<close>
  for \<open>addData\<close> (line 344) and \<open>addControl=True\<close> for \<open>setupDatacard\<close>
  (line 346), and given a fit that reports its parameters, at least one Higgs mass,
  a grid that converts, a proper \<open>y\<close> range, the signal histograms of every call
  of the signal loop, the data of every region and the control region's
  \<open>dataNoSig\<close>, the sequence of the runner, from any state, reaches the datacard
  stage: each of the four calls returns. The Asimov data need the background pdfs,
  which the signal loop keeps when no region is another's name followed by
  \<open>_norm\<close> and no signal spline name starts with \<open>b\<close>. (\<open>XRANGE\<close> needs
  no hypothesis: the runner sets it to \<open>[0, 30]\<close> for the signal loop.)
\<close>

theorem haa_pipeline_reaches_card:
  assumes "fit_reports_params (ext.truncate D)" and "HMASSES cfg \<noteq> []"
    and "\<forall>h\<in>set (HMASSES cfg). \<exists>avals. avals_of (AMASSES cfg) h = Inr avals"
    and "fst (YRANGE cfg) < snd (YRANGE cfg)"
    and "\<forall>r\<in>set (REGIONS cfg). \<forall>c\<in>set (spline_calls cfg). has_slot histMap r (fst c) \<and>
               (\<forall>a\<in>set (grid_amasses (AMASSES cfg) (snd c)). lookup3 histMap r (fst c) (SIGNAME (snd c) a) \<noteq> None)"
    and "\<forall>r\<in>set (REGIONS cfg). lookup3 histMap r [] ''data'' \<noteq> None \<and> lookup3 histMap r [] ''dataNoSig'' \<noteq> None"
    and "lookup3 histMap ''control'' [] ''dataNoSig'' \<noteq> None"
    and "\<forall>r\<in>set (REGIONS cfg). \<forall>r'\<in>set (REGIONS cfg). r \<noteq> r' @ ''_norm''"
    and "\<forall>h. take 1 (SPLINENAME D h) \<noteq> ''b''"
  shows "\<exists>st'. (haa_step D cfg histMap ''V'' opts True True)\<^sup>*\<^sup>* (Init, st) (Card, st')"
  using assms by (rule haa_reaches_card)

text \<open>The demo inputs meet every hypothesis of the sequence.\<close>

lemma demo_pipeline_facts:
  "fit_reports_params (ext.truncate demo_dext)" "HMASSES demo_cfg \<noteq> []"
  "\<forall>h\<in>set (HMASSES demo_cfg). \<exists>avals. avals_of (AMASSES demo_cfg) h = Inr avals"
  "fst (YRANGE demo_cfg) < snd (YRANGE demo_cfg)"
  "\<forall>r\<in>set (REGIONS demo_cfg). \<forall>c\<in>set (spline_calls demo_cfg). has_slot demo_hists r (fst c) \<and>
     (\<forall>a\<in>set (grid_amasses (AMASSES demo_cfg) (snd c)). lookup3 demo_hists r (fst c) (SIGNAME (snd c) a) \<noteq> None)"
  "\<forall>r\<in>set (REGIONS demo_cfg). lookup3 demo_hists r [] ''data'' \<noteq> None \<and> lookup3 demo_hists r [] ''dataNoSig'' \<noteq> None"
  "lookup3 demo_hists ''control'' [] ''dataNoSig'' \<noteq> None"
  "\<forall>r\<in>set (REGIONS demo_cfg). \<forall>r'\<in>set (REGIONS demo_cfg). r \<noteq> r' @ ''_norm''"
  "\<forall>h. take 1 (SPLINENAME demo_dext h) \<noteq> ''b''"
  subgoal by (simp add: fit_reports_params_def demo_ext_def)
  subgoal by simp
  subgoal by (simp add: demo_cfg_def avals_runner_cases)
  subgoal by (simp add: demo_cfg_def runner_cfg_def)
  subgoal by (simp add: demo_hists_def has_slot_def lookup3_def)
  subgoal by (simp add: demo_hists_def lookup3_def)
  subgoal by (simp add: demo_hists_def lookup3_def)
  subgoal by (simp add: demo_cfg_def runner_cfg_def)
  subgoal by (simp add: demo_dext_def)
  done

theorem haa_pipeline_reaches_card_witness:
  "\<exists>st'. (haa_step demo_dext demo_cfg demo_hists ''V''
           \<lparr>fit = False, ygausOnly = False, doBackgroundSignal = False\<rparr> True True)\<^sup>*\<^sup>* (Init, demo_state) (Card, st')"
  using demo_pipeline_facts by (rule haa_pipeline_reaches_card)

theorem haa_reachable_stage_inv_witness:
  "\<exists>st'. (haa_step demo_dext demo_cfg demo_hists ''V''
           \<lparr>fit = False, ygausOnly = False, doBackgroundSignal = False\<rparr> True True)\<^sup>*\<^sup>* (Init, demo_state) (Card, st') \<and>
         ws_pdf (workspace st') ''bg_PP'' \<noteq> None \<and> datasets st' ''data_obs_PP'' \<noteq> None \<and>
         ''PP'' \<in> set (dc_bins (card st')) \<and> ''control'' \<in> set (dc_bins (card st'))"
proof -
  obtain st' where r: "(haa_step demo_dext demo_cfg demo_hists ''V''
           \<lparr>fit = False, ygausOnly = False, doBackgroundSignal = False\<rparr> True True)\<^sup>*\<^sup>* (Init, demo_state) (Card, st')"
    using haa_reaches_card [OF demo_pipeline_facts] by blast
  from haa_reachable_stage_inv [OF r demo_pipeline_facts(8,9)] r show ?thesis
    by (auto simp: stage_inv_def less_eq_stage_def demo_cfg_def runner_cfg_def)
qed

end
