(* ===== verification/MissingFiles.thy ===== *)
theory MissingFiles
  imports Python
begin

text \<open>
  The script src/HaaLimits/scripts/GetMissingFilesFromELSFile.py. For each output
  file of a batch of limit computations it collects the Higgs-mass labels the file
  mentions (the text between \<open>mH\<close> and the last six characters of each line, a
  \<open>.root\<close> name and its newline) and writes to \<open>ToCommit_{file}\<close> every mass of
  the fixed list \<open>values\<close> that it does not mention, one per line. A file is its
  content; \<open>for line in f\<close> splits it after each newline (\<open>py_lines\<close>);
  \<open>str(num)\<close> of the integers and one-decimal floats of \<open>values\<close> is their
  literal (\<open>tenths_str\<close>). The printing is not modelled.
\<close>

abbreviation NL :: char where
  "NL \<equiv> CHR 0x0A"

subsection \<open>Reading a file line by line\<close>

fun split_lines :: "string \<Rightarrow> string \<Rightarrow> string list" where
  "split_lines cur [] = (if cur = [] then [] else [cur])"
| "split_lines cur (c # cs) = (if c = NL then (cur @ [c]) # split_lines [] cs else split_lines (cur @ [c]) cs)"

definition py_lines :: "string \<Rightarrow> string list" where
  "py_lines s = split_lines [] s"

subsection \<open>The masses\<close>

text \<open>\<open>str()\<close> of a mass given in tenths of GeV, as written in \<open>values\<close> (line 4):
  an integer literal for a whole mass, a one-decimal float otherwise.\<close>

definition tenths_str :: "nat \<Rightarrow> string" where
  "tenths_str k = (if k mod 10 = 0 then int_str (int (k div 10))
                   else int_str (int (k div 10)) @ ''.'' @ int_str (int (k mod 10)))"

text \<open>Line 4: \<open>10, 10.1, ..., 21\<close> and then \<open>3.7, 3.8, ..., 9.9\<close>.\<close>

definition els_values :: "string list" where
  "els_values = map tenths_str ([100..<211] @ [37..<100])"

definition fileLists :: "string list" where
  "fileLists = [''OUTPUT_DevVersion_mumu_SEP5_RooDataSet_x2.5to30_NODE.out'',
     ''OUTPUT_mumufourBody_SEP5_DCB_NODE.out'', ''OUTPUT_mumufourBody_SEP5_DG_All_NODE.out'',
     ''OUTPUT_mumufourBody_SEP5_DG_DiffNorm_NODE.out'', ''OUTPUT_mumufourBody_SEP5_DG_Final_NODE.out'',
     ''OUTPUT_mumufourBody_SEP5_PPyDG_FPyDCB_NODE.out'', ''OUTPUT_mumutautau_SEP5_PPyLmin0p75_FPyVmin0p75_NODE.out'']"

subsection \<open>The script\<close>

text \<open>Lines 15--17: the label of one line.\<close>

definition line_number :: "string \<Rightarrow> string" where
  "line_number line = (let pos = py_find line ''mH'' in py_slice line (pos + 2) (int (length line) - 6))"

definition file_numbers :: "string \<Rightarrow> string list" where
  "file_numbers content = map line_number (py_lines content)"

text \<open>Lines 19--22: the loop over \<open>values\<close>, skipping the masses found and writing
  the others, each followed by a newline.\<close>

definition write_missing :: "string list \<Rightarrow> string list \<Rightarrow> string" where
  "write_missing vals numbers =
     foldl (\<lambda>out num. if num \<in> set numbers then out else out @ num @ [NL]) [] vals"

definition process_file :: "string \<Rightarrow> string" where
  "process_file content = write_missing els_values (file_numbers content)"

text \<open>Lines 9--22: the files written, keyed by name; opening a missing input raises
  (line 10). The output is opened with \<open>w+\<close>, which empties it first.\<close>

definition commit_file :: "(string \<rightharpoonup> string) \<Rightarrow> string \<Rightarrow> (string \<rightharpoonup> string) \<Rightarrow> (string \<rightharpoonup> string) result" where
  "commit_file fs f out =
     (case fs f of
        None \<Rightarrow> Inl (IOError f)
      | Some content \<Rightarrow> Inr (out(''ToCommit_'' @ f \<mapsto> process_file content)))"

text \<open>The loop of line 9: the files on disk when the script stops, and the
  exception it stops with, if any. The outputs written before a missing input stay
  on disk.\<close>

fun commit_loop :: "(string \<rightharpoonup> string) \<Rightarrow> string list \<Rightarrow> (string \<rightharpoonup> string) \<Rightarrow>
    (string \<rightharpoonup> string) \<times> py_error option" where
  "commit_loop fs [] out = (out, None)"
| "commit_loop fs (f # files) out =
     (case commit_file fs f out of Inl e \<Rightarrow> (out, Some e) | Inr out' \<Rightarrow> commit_loop fs files out')"

definition missing_files :: "string list \<Rightarrow> (string \<rightharpoonup> string) \<Rightarrow> (string \<rightharpoonup> string) \<times> py_error option" where
  "missing_files files fs = commit_loop fs files Map.empty"

text \<open>The abstract reading of a written file: its lines without their newline.\<close>

definition read_back :: "string \<Rightarrow> string list" where
  "read_back out = map butlast (py_lines out)"

subsection \<open>Lines\<close>

lemma split_lines_line:
  "NL \<notin> set x \<Longrightarrow> split_lines cur (x @ NL # rest) = (cur @ x @ [NL]) # split_lines [] rest"
  by (induction x arbitrary: cur) auto

lemma py_lines_terminated:
  "\<forall>x\<in>set xs. NL \<notin> set x \<Longrightarrow> py_lines (concat (map (\<lambda>x. x @ [NL]) xs)) = map (\<lambda>x. x @ [NL]) xs"
proof (induction xs)
  case Nil
  then show ?case by (simp add: py_lines_def)
next
  case (Cons x xs)
  then show ?case by (simp add: py_lines_def split_lines_line)
qed

lemma split_lines_last: "NL \<notin> set x \<Longrightarrow> cur @ x \<noteq> [] \<Longrightarrow> split_lines cur x = [cur @ x]"
  by (induction x arbitrary: cur) auto

lemma NL_not_in_int_str: "NL \<notin> set (int_str i)"
proof -
  have "list_all is_dec_digit (nat_str n)" for n by (rule nat_str_digits)
  moreover have "\<not> is_dec_digit NL" by (simp add: is_dec_digit_def)
  ultimately have "NL \<notin> set (nat_str n)" for n by (metis list_all_iff)
  then show ?thesis by (simp add: int_str_def)
qed

lemma NL_not_in_values: "\<forall>v\<in>set els_values. NL \<notin> set v"
  by (auto simp: els_values_def tenths_str_def NL_not_in_int_str)

subsection \<open>The labels\<close>

lemma find_at_mH:
  "CHR ''H'' \<notin> set p \<Longrightarrow> find_at (p @ ''mH'' @ rest) ''mH'' i = int (i + length p)"
proof (induction p arbitrary: i)
  case Nil
  then show ?case by simp
next
  case (Cons c cs)
  have "take 2 (c # cs @ ''mH'' @ rest) \<noteq> ''mH''"
    using Cons.prems by (cases cs) auto
  with Cons show ?case by simp
qed

lemma line_number_general:
  assumes "CHR ''H'' \<notin> set p" and "length tl6 = 6"
  shows "line_number (p @ ''mH'' @ v @ tl6) = v"
proof -
  have "py_find (p @ ''mH'' @ v @ tl6) ''mH'' = int (length p)"
    using find_at_mH [OF assms(1), of "v @ tl6" 0] by (simp add: py_find_def)
  then show ?thesis using assms(2)
    by (simp add: line_number_def py_slice_def slice_index_def nat_add_distrib)
qed

subsection \<open>The writing loop\<close>

lemma write_missing_acc:
  "foldl (\<lambda>out num. if num \<in> set numbers then out else out @ num @ [NL]) acc vals =
   acc @ concat (map (\<lambda>v. v @ [NL]) (filter (\<lambda>v. v \<notin> set numbers) vals))"
  by (induction vals arbitrary: acc) auto

text \<open>
  C12 (refinement of the specification "the masses the file lacks"): read back line by
  line, the file written for an input is the list of the masses of \<open>values\<close> that
  the input does not mention, in order: the script implements the set difference
  \<open>values - labels\<close>, since no mass contains a newline.
\<close>

theorem process_file_refines:
  "read_back (process_file content) = filter (\<lambda>v. v \<notin> set (file_numbers content)) els_values"
proof -
  have "\<forall>v\<in>set (filter (\<lambda>v. v \<notin> set (file_numbers content)) els_values). NL \<notin> set v"
    using NL_not_in_values by simp
  then show ?thesis
    unfolding read_back_def process_file_def
    by (simp add: write_missing_acc write_missing_def py_lines_terminated comp_def)
qed

text \<open>
  C29 (round trip of the labels): a file whose lines are \<open>{p}mH{v}.root\<close> with a
  newline, for a prefix \<open>p\<close> without a capital \<open>H\<close> or a newline, yields exactly the labels
  \<open>v\<close>, in order.
\<close>

theorem file_numbers_roundtrip:
  assumes "CHR ''H'' \<notin> set p" and "NL \<notin> set p" and "\<forall>v\<in>set vs. NL \<notin> set v"
  shows "file_numbers (concat (map (\<lambda>v. p @ ''mH'' @ v @ ''.root'' @ [NL]) vs)) = vs"
proof -
  have nl: "\<forall>x\<in>set (map (\<lambda>v. p @ ''mH'' @ v @ ''.root'') vs). NL \<notin> set x"
    using assms by auto
  have "concat (map (\<lambda>v. p @ ''mH'' @ v @ ''.root'' @ [NL]) vs) =
        concat (map (\<lambda>x. x @ [NL]) (map (\<lambda>v. p @ ''mH'' @ v @ ''.root'') vs))"
    by (simp add: comp_def)
  moreover have "line_number (p @ ''mH'' @ v @ ''.root'' @ [NL]) = v" for v
    using line_number_general [OF assms(1), of "''.root'' @ [NL]" v] by simp
  ultimately show ?thesis
    unfolding file_numbers_def using py_lines_terminated [OF nl] by (simp add: comp_def)
qed

text \<open>
  C30 (a last line without its newline): \<open>for line in f\<close> gives the last line of a
  file without a newline when the file does not end with one, and the slice
  \<open>[pos+2 : len(line)-6]\<close> then also cuts the last character of the label, so that
  mass is reported missing although the file has it.
\<close>

theorem line_number_unterminated:
  assumes "CHR ''H'' \<notin> set p"
  shows "line_number (p @ ''mH'' @ v @ ''.root'') = butlast v"
proof (cases v rule: rev_cases)
  case Nil
  have "py_find (p @ ''mH'' @ ''.root'') ''mH'' = int (length p)"
    using find_at_mH [OF assms, of "''.root''" 0] by (simp add: py_find_def)
  then show ?thesis using Nil by (simp add: line_number_def py_slice_def slice_index_def)
next
  case (snoc u c)
  then show ?thesis using line_number_general [OF assms, of "c # ''.root''" u] by simp
qed

theorem line_number_unterminated_witness:
  "line_number (''a.'' @ ''mH'' @ ''10.1'' @ ''.root'') = ''10.'' \<and>
   ''10.1'' \<in> set (read_back (process_file (''a.mH10.root'' @ [NL] @ ''a.mH10.1.root'')))"
proof -
  have h: "CHR ''H'' \<notin> set ''a.''" by simp
  have 1: "line_number (''a.'' @ ''mH'' @ ''10.1'' @ ''.root'') = butlast ''10.1''"
    by (rule line_number_unterminated [OF h])
  have 2: "''10.1'' \<in> set (read_back (process_file (''a.mH10.root'' @ [NL] @ ''a.mH10.1.root'')))"
    by code_simp
  from 1 2 show ?thesis by simp
qed

subsection \<open>The files\<close>

lemma commit_files_Inr:
  "\<forall>f\<in>set files. fs f \<noteq> None \<Longrightarrow>
   \<exists>out. commit_loop fs files out0 = (out, None) \<and>
     (\<forall>k. k \<notin> (\<lambda>f. ''ToCommit_'' @ f) ` set files \<longrightarrow> out k = out0 k) \<and>
     (\<forall>f\<in>set files. out (''ToCommit_'' @ f) = map_option process_file (fs f))"
proof (induction files arbitrary: out0)
  case Nil
  then show ?case by simp
next
  case (Cons f files)
  then obtain c where c: "fs f = Some c" by auto
  define o1 where "o1 = out0(''ToCommit_'' @ f \<mapsto> process_file c)"
  from Cons.prems have "\<forall>f\<in>set files. fs f \<noteq> None" by simp
  from Cons.IH [OF this, of o1] obtain out where r: "commit_loop fs files o1 = (out, None)"
    and fr: "\<forall>k. k \<notin> (\<lambda>f. ''ToCommit_'' @ f) ` set files \<longrightarrow> out k = o1 k"
    and v: "\<forall>g\<in>set files. out (''ToCommit_'' @ g) = map_option process_file (fs g)"
    by blast
  have s: "commit_loop fs (f # files) out0 = (out, None)"
    using r c by (simp add: commit_file_def o1_def)
  have "out (''ToCommit_'' @ f) = map_option process_file (fs f)"
  proof (cases "f \<in> set files")
    case True
    then show ?thesis using v by blast
  next
    case False
    then have "''ToCommit_'' @ f \<notin> (\<lambda>f. ''ToCommit_'' @ f) ` set files" by auto
    then show ?thesis using fr c by (simp add: o1_def)
  qed
  moreover have "\<forall>k. k \<notin> (\<lambda>f. ''ToCommit_'' @ f) ` set (f # files) \<longrightarrow> out k = out0 k"
    using fr by (simp add: o1_def)
  ultimately show ?case using s v by auto
qed

text \<open>
  C31 (what the script writes): when every listed file opens, the script writes one
  file \<open>ToCommit_{f}\<close> per input \<open>f\<close> and no other, holding the masses of
  \<open>values\<close> that \<open>f\<close> does not mention.
\<close>

theorem missing_files_Inr:
  assumes "\<forall>f\<in>set files. fs f \<noteq> None"
  shows "\<exists>out. missing_files files fs = (out, None) \<and>
           dom out = (\<lambda>f. ''ToCommit_'' @ f) ` set files \<and>
           (\<forall>f\<in>set files. out (''ToCommit_'' @ f) = map_option process_file (fs f))"
proof -
  obtain out where r: "commit_loop fs files Map.empty = (out, None)"
    and fr: "\<forall>k. k \<notin> (\<lambda>f. ''ToCommit_'' @ f) ` set files \<longrightarrow> out k = None"
    and v: "\<forall>f\<in>set files. out (''ToCommit_'' @ f) = map_option process_file (fs f)"
    using commit_files_Inr [OF assms, of Map.empty] by auto
  have "dom out = (\<lambda>f. ''ToCommit_'' @ f) ` set files"
    using fr v assms by (auto simp: dom_def)
  with r v show ?thesis by (simp add: missing_files_def)
qed

lemma commit_loop_append:
  "commit_loop fs pre out0 = (out, None) \<Longrightarrow> commit_loop fs (pre @ rest) out0 = commit_loop fs rest out"
  by (induction pre arbitrary: out0) (auto split: sum.splits)

text \<open>
  C32 (a missing input): the files are processed in order, and the first that does
  not exist stops the script with \<open>IOError\<close> (line 10): the outputs of the files
  before it are on disk, as for a run over those files alone, and none after.
\<close>

theorem missing_files_IOError:
  assumes "\<forall>g\<in>set pre. fs g \<noteq> None" and "fs f = None"
  shows "\<exists>out. missing_files (pre @ f # post) fs = (out, Some (IOError f)) \<and>
           dom out = (\<lambda>g. ''ToCommit_'' @ g) ` set pre \<and>
           (\<forall>g\<in>set pre. out (''ToCommit_'' @ g) = map_option process_file (fs g))"
proof -
  obtain out where r: "commit_loop fs pre Map.empty = (out, None)"
    and fr: "\<forall>k. k \<notin> (\<lambda>g. ''ToCommit_'' @ g) ` set pre \<longrightarrow> out k = None"
    and v: "\<forall>g\<in>set pre. out (''ToCommit_'' @ g) = map_option process_file (fs g)"
    using commit_files_Inr [OF assms(1), of Map.empty] by auto
  have "dom out = (\<lambda>g. ''ToCommit_'' @ g) ` set pre"
    using fr v assms(1) by (auto simp: dom_def)
  moreover have "missing_files (pre @ f # post) fs = (out, Some (IOError f))"
    using commit_loop_append [OF r] assms(2) by (simp add: missing_files_def commit_file_def)
  ultimately show ?thesis using v by blast
qed

subsection \<open>Witnesses\<close>

theorem file_numbers_roundtrip_witness:
  "file_numbers (concat (map (\<lambda>v. ''higgsCombine.'' @ ''mH'' @ v @ ''.root'' @ [NL]) [''10'', ''10.1''])) =
   [''10'', ''10.1'']"
proof -
  have "CHR ''H'' \<notin> set ''higgsCombine.''" and "NL \<notin> set ''higgsCombine.''"
    and "\<forall>v\<in>set [''10'', ''10.1'']. NL \<notin> set v" by simp_all
  then show ?thesis by (rule file_numbers_roundtrip)
qed

theorem missing_files_Inr_witness:
  "\<exists>out. missing_files fileLists (\<lambda>f. Some []) = (out, None) \<and>
     out (''ToCommit_OUTPUT_mumufourBody_SEP5_DCB_NODE.out'') = Some (process_file [])"
proof -
  have "\<forall>f\<in>set fileLists. (\<lambda>f. Some []) f \<noteq> None" by simp
  from missing_files_Inr [OF this] show ?thesis by (auto simp: fileLists_def)
qed

theorem missing_files_IOError_witness:
  "\<exists>out. missing_files fileLists [''OUTPUT_DevVersion_mumu_SEP5_RooDataSet_x2.5to30_NODE.out'' \<mapsto> []] =
     (out, Some (IOError ''OUTPUT_mumufourBody_SEP5_DCB_NODE.out'')) \<and>
   dom out = {''ToCommit_OUTPUT_DevVersion_mumu_SEP5_RooDataSet_x2.5to30_NODE.out''}"
proof -
  let ?fs = "[''OUTPUT_DevVersion_mumu_SEP5_RooDataSet_x2.5to30_NODE.out'' \<mapsto> []]"
  have h: "\<forall>g\<in>set [''OUTPUT_DevVersion_mumu_SEP5_RooDataSet_x2.5to30_NODE.out'']. ?fs g \<noteq> None"
    and n: "?fs ''OUTPUT_mumufourBody_SEP5_DCB_NODE.out'' = None" by simp_all
  have e: "fileLists = [''OUTPUT_DevVersion_mumu_SEP5_RooDataSet_x2.5to30_NODE.out''] @
             ''OUTPUT_mumufourBody_SEP5_DCB_NODE.out'' # drop 2 fileLists"
    by (simp add: fileLists_def)
  obtain out where m: "missing_files ([''OUTPUT_DevVersion_mumu_SEP5_RooDataSet_x2.5to30_NODE.out''] @
        ''OUTPUT_mumufourBody_SEP5_DCB_NODE.out'' # drop 2 fileLists) ?fs =
        (out, Some (IOError ''OUTPUT_mumufourBody_SEP5_DCB_NODE.out''))"
    and d: "dom out = (\<lambda>g. ''ToCommit_'' @ g) ` set [''OUTPUT_DevVersion_mumu_SEP5_RooDataSet_x2.5to30_NODE.out'']"
    using missing_files_IOError [OF h n, of "drop 2 fileLists"] by blast
  have "dom out = {''ToCommit_OUTPUT_DevVersion_mumu_SEP5_RooDataSet_x2.5to30_NODE.out''}" using d by simp
  then show ?thesis by (subst e) (use m in blast)
qed

end
