(* ===== verification/YProj.thy ===== *)
theory YProj
  imports Python
begin

text \<open>
  The script src/HaaLimits/python/RootFitYProj.py. It reads the mass dataset of
  region B from a ROOT file, passes it through its own \<open>getDataset\<close> (lines
  14--24: set the \<open>x\<close> range, rename a variable \<open>y1\<close> to \<open>y\<close>, set the \<open>y\<close>
  range, rebuild the dataset) and draws its \<open>y\<close> projection against five fixed
  polynomials \<open>f1\<close> to \<open>f5\<close> (lines 45--69), \<open>TF1\<close> objects whose formula is
  a sum of terms \<open>[i]*x*...*x\<close> and whose parameters are set one by one.

  A RooFit variable is a record of its name, title and range; the argument set
  of a dataset is the list of its variables, \<open>find\<close> returning the first of a
  name (Python's \<open>None\<close> when there is none, on which a method call raises
  \<open>AttributeError\<close>). \<open>setRange(*r)\<close> takes exactly two numbers; any other
  length raises \<open>TypeError\<close>. The rebuilt dataset records its name, title,
  variables, selection and weight; its rows, the projection and the drawing are
  not modelled. A \<open>TF1\<close> formula is parsed into its terms
  \<open>(parameter, power of x)\<close>; \<open>SetParameter\<close> out of range leaves the
  parameters unchanged, as \<open>TFormula\<close> does.
\<close>

subsection \<open>RooFit variables and the script's getDataset\<close>

record roovar =
  rv_name :: string
  rv_title :: string
  rv_range :: "real \<times> real"

record roodata =
  ds_name :: string
  ds_title :: string
  ds_args :: "roovar list"
  ds_selection :: string
  ds_weight :: string

definition arg_find :: "roovar list \<Rightarrow> string \<Rightarrow> roovar option" where
  "arg_find args n = find (\<lambda>v. rv_name v = n) args"

text \<open>A method called on \<open>args.find(n)\<close>: it changes the first variable of that name.\<close>

fun arg_update :: "string \<Rightarrow> (roovar \<Rightarrow> roovar) \<Rightarrow> roovar list \<Rightarrow> roovar list" where
  "arg_update n f [] = []"
| "arg_update n f (v # vs) = (if rv_name v = n then f v # vs else v # arg_update n f vs)"

text \<open>\<open>args.find(n).setRange(*r)\<close> (lines 17 and 22).\<close>

definition set_range :: "string \<Rightarrow> real list \<Rightarrow> roovar list \<Rightarrow> roovar list result" where
  "set_range n r args =
     (case arg_find args n of
        None \<Rightarrow> Inl (AttributeError ''setRange'')
      | Some v \<Rightarrow> (case r of [lo, hi] \<Rightarrow> Inr (arg_update n (\<lambda>v. v\<lparr>rv_range := (lo, hi)\<rparr>) args)
                   | _ \<Rightarrow> Inl (TypeError ''setRange'')))"

text \<open>Lines 18--20: \<open>y1\<close> is renamed \<open>y\<close>, then the first \<open>y\<close> gets the title \<open>y\<close>.\<close>

definition rename_y1 :: "roovar list \<Rightarrow> roovar list" where
  "rename_y1 args =
     (if arg_find args ''y1'' \<noteq> None
      then arg_update ''y'' (\<lambda>v. v\<lparr>rv_title := ''y''\<rparr>) (arg_update ''y1'' (\<lambda>v. v\<lparr>rv_name := ''y''\<rparr>) args)
      else args)"

text \<open>\<open>getDataset(ds, weight='w', selection='1', xRange=[], yRange=[])\<close>, lines 14--24.\<close>

definition getDataset_roo :: "roodata \<Rightarrow> string \<Rightarrow> string \<Rightarrow> real list \<Rightarrow> real list \<Rightarrow> roodata result" where
  "getDataset_roo ds weight selection xRange yRange =
     rbind (if xRange \<noteq> [] then set_range ''x'' xRange (ds_args ds) else Inr (ds_args ds)) (\<lambda>args.
     rbind (let args = rename_y1 args in
            if yRange \<noteq> [] then set_range ''y'' yRange args else Inr args) (\<lambda>args.
     Inr \<lparr>ds_name = ds_name ds, ds_title = ds_title ds, ds_args = args,
          ds_selection = selection, ds_weight = weight\<rparr>))"

text \<open>Lines 27--29: the dataset \<open>mumufourBodymass_dataset\<close> of the region-B file
  (a file is the map of the objects it holds; \<open>Get\<close> of a missing name gives
  \<open>None\<close>, whose \<open>get()\<close> raises), with \<open>selection=''\<close>, \<open>x\<close> in \<open>[0, 30]\<close>
  and \<open>y\<close> in \<open>[150, 1200]\<close>.\<close>

definition yproj_dataset :: "(string \<rightharpoonup> roodata) \<Rightarrow> roodata result" where
  "yproj_dataset file =
     (case file ''mumufourBodymass_dataset'' of
        None \<Rightarrow> Inl (AttributeError ''get'')
      | Some ds \<Rightarrow> getDataset_roo ds ''w'' '''' [0, 30] [150, 1200])"

subsection \<open>TF1 formulas\<close>

text \<open>The terms of a formula \<open>[i]*x*...*x\<close> joined by \<open>+\<close>, the fragment of
  the \<open>TFormula\<close> syntax the script writes: \<open>(i, k)\<close> is parameter \<open>i\<close>
  times \<open>x\<close> to the \<open>k\<close>.\<close>

fun split_on :: "char \<Rightarrow> string \<Rightarrow> string \<Rightarrow> string list" where
  "split_on c cur [] = [cur]"
| "split_on c cur (d # ds) = (if d = c then cur # split_on c [] ds else split_on c (cur @ [d]) ds)"

definition x_power :: "string \<Rightarrow> nat option" where
  "x_power r = (if r = concat (replicate (length r div 2) ''*x'') then Some (length r div 2) else None)"

definition parse_term :: "string \<Rightarrow> (nat \<times> nat) option" where
  "parse_term s =
     (case s of
        [] \<Rightarrow> None
      | c # r \<Rightarrow>
          (if c \<noteq> CHR ''['' then None
           else case (digits_val (takeWhile is_dec_digit r), dropWhile is_dec_digit r) of
                  (Some i, d # r') \<Rightarrow> (if d = CHR '']'' then map_option (Pair i) (x_power r') else None)
                | _ \<Rightarrow> None))"

definition parse_formula :: "string \<Rightarrow> (nat \<times> nat) list option" where
  "parse_formula s = those (map parse_term (split_on CHR ''+'' [] s))"

text \<open>The printed form of a polynomial of degree \<open>n\<close>, the reference the
  script's five formulas are compared with.\<close>

definition term_str :: "nat \<Rightarrow> nat \<Rightarrow> string" where
  "term_str i k = ''['' @ nat_str i @ '']'' @ concat (replicate k ''*x'')"

primrec pol_formula :: "nat \<Rightarrow> string" where
  "pol_formula 0 = term_str 0 0"
| "pol_formula (Suc n) = pol_formula n @ ''+'' @ term_str (Suc n) (Suc n)"

subsection \<open>TF1 objects\<close>

record tf1 =
  tf_name :: string
  tf_terms :: "(nat \<times> nat) list option"
  tf_params :: "real list"
  tf_xmin :: real
  tf_xmax :: real

definition npar :: "(nat \<times> nat) list \<Rightarrow> nat" where
  "npar ts = foldr (\<lambda>t m. max (Suc (fst t)) m) ts 0"

text \<open>\<open>ROOT.TF1(name, formula, xmin, xmax)\<close>: the parameters start at zero.\<close>

definition TF1 :: "string \<Rightarrow> string \<Rightarrow> real \<Rightarrow> real \<Rightarrow> tf1" where
  "TF1 name formula lo hi =
     (let ts = parse_formula formula in
      \<lparr>tf_name = name, tf_terms = ts,
       tf_params = replicate (case ts of None \<Rightarrow> 0 | Some ts \<Rightarrow> npar ts) 0,
       tf_xmin = lo, tf_xmax = hi\<rparr>)"

definition SetParameter :: "nat \<Rightarrow> real \<Rightarrow> tf1 \<Rightarrow> tf1" where
  "SetParameter i v f = f\<lparr>tf_params := (tf_params f)[i := v]\<rparr>"

definition set_params :: "tf1 \<Rightarrow> (nat \<times> real) list \<Rightarrow> tf1" where
  "set_params f ps = foldl (\<lambda>f p. SetParameter (fst p) (snd p) f) f ps"

text \<open>\<open>f(x)\<close>: the sum of the terms, \<open>None\<close> for a formula that does not parse.\<close>

definition tf_eval :: "tf1 \<Rightarrow> real \<Rightarrow> real option" where
  "tf_eval f x = map_option (\<lambda>ts. sum_list (map (\<lambda>t. tf_params f ! fst t * x ^ snd t) ts)) (tf_terms f)"

subsection \<open>The five polynomials of lines 45--69\<close>

definition f1 :: tf1 where
  "f1 = set_params (TF1 ''f1'' ''[0]+[1]*x'' 150 1200) [(0, 15.74), (1, -0.0336115)]"

definition f2 :: tf1 where
  "f2 = set_params (TF1 ''f2'' ''[0]+[1]*x+[2]*x*x'' 150 1200)
          [(0, 85.35), (1, -0.412), (2, 0.000492209)]"

definition f3 :: tf1 where
  "f3 = set_params (TF1 ''f3'' ''[0]+[1]*x+[2]*x*x+[3]*x*x*x'' 150 1200)
          [(0, 251.123), (1, -1.87283), (2, 0.00460389), (3, -0.00000371114)]"

definition f4 :: tf1 where
  "f4 = set_params (TF1 ''f4'' ''[0]+[1]*x+[2]*x*x+[3]*x*x*x+[4]*x*x*x*x'' 150 1200)
          [(0, 554.088), (1, -5.61481), (2, 0.0211566), (3, 0.0211566), (4, 0.0000000214178)]"

definition f5 :: tf1 where
  "f5 = set_params (TF1 ''f5'' ''[0]+[1]*x+[2]*x*x+[3]*x*x*x+[4]*x*x*x*x+[5]*x*x*x*x*x'' 150 1200)
          [(0, 965.043), (1, -12.2521), (2, 0.0624003), (3, -0.000158721), (4, 0.000000201178),
           (5, -0.000000000101467)]"

text \<open>The reference reading of lines 16--22 on a dataset whose variables have
  distinct names, \<open>x\<close> and \<open>y1\<close> among them and no \<open>y\<close>: each variable is
  changed on its own.\<close>

definition yproj_var :: "real \<times> real \<Rightarrow> real \<times> real \<Rightarrow> roovar \<Rightarrow> roovar" where
  "yproj_var xr yr v =
     (if rv_name v = ''x'' then v\<lparr>rv_range := xr\<rparr>
      else if rv_name v = ''y1'' then v\<lparr>rv_name := ''y'', rv_title := ''y'', rv_range := yr\<rparr>
      else v)"

text \<open>A region-B file as the script expects it: the dataset's variables are the
  two masses \<open>x\<close> and \<open>y1\<close> and the weight \<open>w\<close>.\<close>

definition demo_file :: "string \<rightharpoonup> roodata" where
  "demo_file = [''mumufourBodymass_dataset'' \<mapsto>
     \<lparr>ds_name = ''mumufourBodymass_dataset'', ds_title = ''mumufourBodymass_dataset'',
      ds_args = [\<lparr>rv_name = ''x'', rv_title = ''x'', rv_range = (0, 100)\<rparr>,
                 \<lparr>rv_name = ''y1'', rv_title = ''y1'', rv_range = (0, 2000)\<rparr>,
                 \<lparr>rv_name = ''w'', rv_title = ''w'', rv_range = (0, 10)\<rparr>],
      ds_selection = ''1'', ds_weight = ''w''\<rparr>]"

subsection \<open>Properties of getDataset\<close>

lemma arg_find_None_iff: "arg_find args n = None \<longleftrightarrow> n \<notin> rv_name ` set args"
  by (induction args) (auto simp: arg_find_def)

lemma arg_find_Some: "arg_find args n = Some v \<Longrightarrow> v \<in> set args \<and> rv_name v = n"
  by (induction args) (auto simp: arg_find_def split: if_splits)

lemma arg_find_Some_mem: "arg_find args n = Some v \<Longrightarrow> n \<in> rv_name ` set args"
  using arg_find_Some by (metis image_eqI)

lemma arg_update_keep_name:
  assumes "\<And>v. rv_name (f v) = rv_name v"
  shows "map rv_name (arg_update n f args) = map rv_name args"
  by (induction args) (auto simp: assms)

lemma map_if_name_absent:
  "n \<notin> rv_name ` set args \<Longrightarrow> map (\<lambda>v. if rv_name v = n then f v else v) args = args"
  by (induction args) auto

lemma arg_update_map:
  "distinct (map rv_name args) \<Longrightarrow> arg_update n f args = map (\<lambda>v. if rv_name v = n then f v else v) args"
  by (induction args) (auto simp: map_if_name_absent)

lemma set_range_names:
  "set_range n r args = Inr args' \<Longrightarrow> map rv_name args' = map rv_name args"
  by (auto simp: set_range_def arg_update_keep_name split: option.splits list.splits)

lemma set_range_Inr_iff:
  "(\<exists>args'. set_range n r args = Inr args') \<longleftrightarrow> n \<in> rv_name ` set args \<and> length r = 2"
proof (cases "arg_find args n")
  case None
  then have "n \<notin> rv_name ` set args" using arg_find_None_iff by blast
  with None show ?thesis by (simp add: set_range_def)
next
  case (Some v)
  then have n: "n \<in> rv_name ` set args" by (rule arg_find_Some_mem)
  consider "r = []" | a where "r = [a]" | a b where "r = [a, b]" | a b c rest where "r = a # b # c # rest"
    by (metis list.exhaust)
  then show ?thesis using Some n by cases (simp_all add: set_range_def)
qed

lemma arg_update_title_names:
  "rv_name ` set (arg_update n (\<lambda>v. v\<lparr>rv_title := t\<rparr>) args) = rv_name ` set args"
proof -
  have "map rv_name (arg_update n (\<lambda>v. v\<lparr>rv_title := t\<rparr>) args) = map rv_name args"
    by (rule arg_update_keep_name) simp
  then show ?thesis by (metis set_map)
qed

lemma rename_y1_y:
  "''y'' \<in> rv_name ` set (rename_y1 args) \<longleftrightarrow> ''y'' \<in> rv_name ` set args \<or> ''y1'' \<in> rv_name ` set args"
proof -
  have a: "''y'' \<in> rv_name ` set (arg_update ''y1'' (\<lambda>v. v\<lparr>rv_name := ''y''\<rparr>) args)"
    if "''y1'' \<in> rv_name ` set args" for args using that
    by (induction args) auto
  show ?thesis
  proof (cases "''y1'' \<in> rv_name ` set args")
    case True
    then show ?thesis using a by (simp add: rename_y1_def arg_find_None_iff arg_update_title_names)
  next
    case False
    then show ?thesis by (simp add: rename_y1_def arg_find_None_iff)
  qed
qed

text \<open>
  C34 (when the script's getDataset returns): it returns exactly when an \<open>x\<close>
  range is either absent or has two bounds and the dataset has a variable
  \<open>x\<close>, and a \<open>y\<close> range is either absent or has two bounds and the dataset
  has a variable \<open>y\<close> or \<open>y1\<close>; otherwise \<open>setRange\<close> is called on \<open>None\<close>
  (\<open>AttributeError\<close>) or with the wrong number of arguments (\<open>TypeError\<close>).
\<close>

theorem getDataset_roo_Inr_iff:
  "(\<exists>d. getDataset_roo ds weight selection xRange yRange = Inr d) \<longleftrightarrow>
     (xRange = [] \<or> ''x'' \<in> rv_name ` set (ds_args ds) \<and> length xRange = 2) \<and>
     (yRange = [] \<or> (''y'' \<in> rv_name ` set (ds_args ds) \<or> ''y1'' \<in> rv_name ` set (ds_args ds)) \<and> length yRange = 2)"
    (is "?l \<longleftrightarrow> ?x \<and> ?y")
proof (cases ?x)
  case False
  then have "\<nexists>a. set_range ''x'' xRange (ds_args ds) = Inr a" and "xRange \<noteq> []"
    using set_range_Inr_iff by blast+
  then show ?thesis using False by (auto simp: getDataset_roo_def rbind_def split: sum.splits)
next
  case True
  obtain args where a: "(if xRange \<noteq> [] then set_range ''x'' xRange (ds_args ds) else Inr (ds_args ds)) = Inr args"
    and n: "rv_name ` set args = rv_name ` set (ds_args ds)"
  proof (cases "xRange = []")
    case False
    with True obtain a where "set_range ''x'' xRange (ds_args ds) = Inr a" using set_range_Inr_iff by blast
    with False that show ?thesis using set_range_names by (metis set_map)
  qed (use that in simp)
  have "(\<exists>d. rbind (if yRange \<noteq> [] then set_range ''y'' yRange (rename_y1 args) else Inr (rename_y1 args)) (\<lambda>a. Inr (g a)) = Inr d)
        \<longleftrightarrow> ?y" for g :: "roovar list \<Rightarrow> roodata"
    using set_range_Inr_iff [of "''y''" yRange "rename_y1 args"] rename_y1_y [of args] n
    by (auto simp: rbind_def split: sum.splits)
  then show ?thesis using True a by (simp add: getDataset_roo_def Let_def)
qed
theorem getDataset_roo_Inr_iff_witness:
  "\<not> (\<exists>d. getDataset_roo (the (demo_file ''mumufourBodymass_dataset'')) ''w'' '''' [0] [] = Inr d) \<and>
   (\<exists>d. getDataset_roo (the (demo_file ''mumufourBodymass_dataset'')) ''w'' '''' [] [150, 1200] = Inr d)"
  using getDataset_roo_Inr_iff [of "the (demo_file ''mumufourBodymass_dataset'')" "''w''" "''''" "[0]" "[]"]
    getDataset_roo_Inr_iff [of "the (demo_file ''mumufourBodymass_dataset'')" "''w''" "''''" "[]" "[150, 1200]"]
  by (simp add: demo_file_def)


lemma set_range_map:
  assumes "distinct (map rv_name args)" and "n \<in> rv_name ` set args"
  shows "set_range n [lo, hi] args = Inr (map (\<lambda>v. if rv_name v = n then v\<lparr>rv_range := (lo, hi)\<rparr> else v) args)"
proof -
  obtain v where "arg_find args n = Some v" using assms(2) arg_find_None_iff by (cases "arg_find args n") auto
  then show ?thesis using assms(1) by (simp add: set_range_def arg_update_map)
qed

lemma rename_names:
  "map rv_name (map (\<lambda>v. if rv_name v = ''y1'' then v\<lparr>rv_name := ''y''\<rparr> else v) args) =
   map (\<lambda>n. if n = ''y1'' then ''y'' else n) (map rv_name args)"
  by (induction args) auto

lemma rename_y1_mem:
  "''y1'' \<in> rv_name ` set args \<Longrightarrow>
   ''y'' \<in> set (map rv_name (map (\<lambda>v. if rv_name v = ''y1'' then v\<lparr>rv_name := ''y''\<rparr> else v) args))"
  by (induction args) auto

lemma rename_distinct:
  assumes d: "distinct (map rv_name args)" and y: "''y'' \<notin> rv_name ` set args"
  shows "distinct (map rv_name (map (\<lambda>v. if rv_name v = ''y1'' then v\<lparr>rv_name := ''y''\<rparr> else v) args))"
proof -
  have "inj_on (\<lambda>n. if n = ''y1'' then ''y'' else n) (set (map rv_name args))"
  proof (rule inj_onI)
    fix m n assume "m \<in> set (map rv_name args)" "n \<in> set (map rv_name args)"
      and "(if m = ''y1'' then ''y'' else m) = (if n = ''y1'' then ''y'' else n)"
    then show "m = n" using y by (simp split: if_splits)
  qed
  then show ?thesis using d by (simp only: rename_names distinct_map)
qed

text \<open>
  C35 (what the script's getDataset builds): on a dataset whose variables have
  distinct names, among them \<open>x\<close> and \<open>y1\<close> and no \<open>y\<close>, with two-bound
  ranges, the first-match updates of lines 16--22 equal the variable-wise
  reference \<open>yproj_var\<close>: \<open>x\<close> gets its range, \<open>y1\<close> becomes \<open>y\<close> with title
  \<open>y\<close> and the \<open>y\<close> range, every other variable is kept, in order.
\<close>

theorem getDataset_roo_retarget:
  assumes d: "distinct (map rv_name (ds_args ds))"
    and x: "''x'' \<in> rv_name ` set (ds_args ds)" and y1: "''y1'' \<in> rv_name ` set (ds_args ds)"
    and y: "''y'' \<notin> rv_name ` set (ds_args ds)"
  shows "getDataset_roo ds weight selection [a, b] [c, e] =
           Inr \<lparr>ds_name = ds_name ds, ds_title = ds_title ds,
                ds_args = map (yproj_var (a, b) (c, e)) (ds_args ds),
                ds_selection = selection, ds_weight = weight\<rparr>"
proof -
  let ?A = "ds_args ds"
  let ?a1 = "map (\<lambda>v. if rv_name v = ''x'' then v\<lparr>rv_range := (a, b)\<rparr> else v) ?A"
  have n1: "map rv_name ?a1 = map rv_name ?A" by (induction ?A) auto
  have s1: "set_range ''x'' [a, b] ?A = Inr ?a1" using set_range_map [OF d x] .
  let ?a2 = "map (\<lambda>v. if rv_name v = ''y1'' then v\<lparr>rv_name := ''y''\<rparr> else v) ?a1"
  have d2: "distinct (map rv_name ?a2)" using rename_distinct [of ?a1] d y n1 by (metis set_map)
  let ?a3 = "map (\<lambda>v. if rv_name v = ''y'' then v\<lparr>rv_title := ''y''\<rparr> else v) ?a2"
  have d1: "distinct (map rv_name ?a1)" by (subst n1) (rule d)
  have e1: "arg_update ''y1'' (\<lambda>v. v\<lparr>rv_name := ''y''\<rparr>) ?a1 = ?a2" by (rule arg_update_map [OF d1])
  have e2: "arg_update ''y'' (\<lambda>v. v\<lparr>rv_title := ''y''\<rparr>) ?a2 = ?a3" by (rule arg_update_map [OF d2])
  have y1a: "''y1'' \<in> rv_name ` set ?a1" using y1 n1 by (metis set_map)
  then have f: "arg_find ?a1 ''y1'' \<noteq> None" unfolding arg_find_None_iff by simp
  have r: "rename_y1 ?a1 = ?a3" unfolding rename_y1_def using f e1 e2 by (simp only: if_True simp_thms)
  have n3: "map rv_name ?a3 = map rv_name ?a2" by (induction ?a2) auto
  have "''y'' \<in> set (map rv_name ?a2)" by (rule rename_y1_mem [OF y1a])
  then have "''y'' \<in> set (map rv_name ?a3)" unfolding n3 .
  then have y3: "''y'' \<in> rv_name ` set ?a3" unfolding set_map .
  have s3: "set_range ''y'' [c, e] ?a3 =
     Inr (map (\<lambda>v. if rv_name v = ''y'' then v\<lparr>rv_range := (c, e)\<rparr> else v) ?a3)"
  proof -
    have "distinct (map rv_name ?a3)" by (subst n3) (rule d2)
    from set_range_map [OF this y3] show ?thesis .
  qed
  have "map (\<lambda>v. if rv_name v = ''y'' then v\<lparr>rv_range := (c, e)\<rparr> else v) ?a3 = map (yproj_var (a, b) (c, e)) ?A"
    using y by (auto simp: yproj_var_def) (metis image_eqI)
  then show ?thesis using s1 r s3 by (simp add: getDataset_roo_def)
qed

theorem getDataset_roo_retarget_witness:
  "yproj_dataset demo_file =
     Inr \<lparr>ds_name = ''mumufourBodymass_dataset'', ds_title = ''mumufourBodymass_dataset'',
          ds_args = [\<lparr>rv_name = ''x'', rv_title = ''x'', rv_range = (0, 30)\<rparr>,
                     \<lparr>rv_name = ''y'', rv_title = ''y'', rv_range = (150, 1200)\<rparr>,
                     \<lparr>rv_name = ''w'', rv_title = ''w'', rv_range = (0, 10)\<rparr>],
          ds_selection = [], ds_weight = ''w''\<rparr>"
proof -
  let ?ds = "the (demo_file ''mumufourBodymass_dataset'')"
  have "getDataset_roo ?ds ''w'' '''' [0, 30] [150, 1200] =
     Inr \<lparr>ds_name = ds_name ?ds, ds_title = ds_title ?ds, ds_args = map (yproj_var (0, 30) (150, 1200)) (ds_args ?ds),
          ds_selection = '''', ds_weight = ''w''\<rparr>"
    by (rule getDataset_roo_retarget) (simp_all add: demo_file_def)
  then show ?thesis by (simp add: yproj_dataset_def demo_file_def yproj_var_def)
qed

subsection \<open>Properties of the polynomials\<close>

lemma split_on_no_sep: "c \<notin> set xs \<Longrightarrow> split_on c cur xs = [cur @ xs]"
  by (induction xs arbitrary: cur) auto

lemma split_on_append: "split_on c cur (xs @ c # ys) = split_on c cur xs @ split_on c [] ys"
  by (induction xs arbitrary: cur) auto

lemma is_dec_digit_nat_str: "c \<in> set (nat_str n) \<Longrightarrow> is_dec_digit c"
  using nat_str_digits by (simp add: list_all_iff)

lemma x_power_replicate [simp]: "x_power (concat (replicate k ''*x'')) = Some k"
proof -
  have "length (concat (replicate k ''*x'')) = 2 * k" by (induction k) auto
  then show ?thesis by (simp add: x_power_def)
qed

lemma parse_term_str: "parse_term (term_str i k) = Some (i, k)"
proof -
  have d: "\<And>c. c \<in> set (nat_str i) \<Longrightarrow> is_dec_digit c" by (rule is_dec_digit_nat_str)
  have b: "\<not> is_dec_digit CHR '']''" by (simp add: is_dec_digit_def)
  have "takeWhile is_dec_digit (nat_str i @ CHR '']'' # concat (replicate k ''*x'')) = nat_str i"
    using d b by simp
  moreover have "dropWhile is_dec_digit (nat_str i @ CHR '']'' # concat (replicate k ''*x'')) =
                 CHR '']'' # concat (replicate k ''*x'')"
    using d b by simp
  ultimately show ?thesis by (simp add: parse_term_def term_str_def)
qed

lemma plus_not_in_term_str: "CHR ''+'' \<notin> set (term_str i k)"
proof -
  have "CHR ''+'' \<notin> set (nat_str i)"
    using is_dec_digit_nat_str by (fastforce simp: is_dec_digit_def)
  moreover have "CHR ''+'' \<notin> set (concat (replicate k ''*x''))" by (induction k) auto
  ultimately show ?thesis by (simp add: term_str_def)
qed

lemma split_pol_formula: "split_on CHR ''+'' [] (pol_formula n) = map (\<lambda>i. term_str i i) [0..<Suc n]"
  by (induction n) (simp_all add: split_on_append split_on_no_sep plus_not_in_term_str)

lemma those_map_Some: "(\<And>x. x \<in> set xs \<Longrightarrow> f x = Some (g x)) \<Longrightarrow> those (map f xs) = Some (map g xs)"
  by (induction xs) auto

lemma parse_pol_formula: "parse_formula (pol_formula n) = Some (map (\<lambda>i. (i, i)) [0..<Suc n])"
  unfolding parse_formula_def split_pol_formula map_map
  by (rule those_map_Some) (simp add: parse_term_str)

lemma npar_diag: "foldr (\<lambda>t m. max (Suc (fst t)) m) (map (\<lambda>i. (i, i)) [0..<n]) m = max n m"
  by (induction n arbitrary: m) (simp_all add: max.assoc)

lemma TF1_pol:
  "TF1 name (pol_formula n) lo hi =
     \<lparr>tf_name = name, tf_terms = Some (map (\<lambda>i. (i, i)) [0..<Suc n]),
      tf_params = replicate (Suc n) 0, tf_xmin = lo, tf_xmax = hi\<rparr>"
  using npar_diag [of "Suc n" 0] by (simp add: TF1_def parse_pol_formula npar_def del: upt_Suc)

lemma set_params_upt:
  "length ps = k + length cs \<Longrightarrow>
   tf_params (set_params (f\<lparr>tf_params := ps\<rparr>) (zip [k..<k + length cs] cs)) = take k ps @ cs"
proof (induction cs arbitrary: k ps)
  case Nil
  then show ?case by (simp add: set_params_def)
next
  case (Cons c cs)
  have u: "[k..<k + length (c # cs)] = k # [Suc k..<Suc k + length cs]" by (simp add: upt_rec)
  have "length (ps[k := c]) = Suc k + length cs" using Cons.prems by simp
  from Cons.IH [OF this] have "tf_params (set_params (f\<lparr>tf_params := ps[k := c]\<rparr>) (zip [Suc k..<Suc k + length cs] cs)) =
      take (Suc k) (ps[k := c]) @ cs" .
  moreover have "take (Suc k) (ps[k := c]) = take k ps @ [c]"
    using Cons.prems by (simp add: take_Suc_conv_app_nth)
  ultimately show ?case by (simp only: u) (simp add: set_params_def SetParameter_def del: upt_Suc)
qed

lemma set_params_terms [simp]: "tf_terms (set_params f ps) = tf_terms f"
  by (induction ps arbitrary: f) (simp_all add: set_params_def SetParameter_def)

lemma tf_eval_pol_sum:
  assumes "length cs = Suc n"
  shows "tf_eval (set_params (TF1 name (pol_formula n) lo hi) (zip [0..<Suc n] cs)) x =
           Some (\<Sum>i<Suc n. cs ! i * x ^ i)"
proof -
  let ?f = "set_params (TF1 name (pol_formula n) lo hi) (zip [0..<Suc n] cs)"
  have e: "(TF1 name (pol_formula n) lo hi)\<lparr>tf_params := replicate (Suc n) 0\<rparr> = TF1 name (pol_formula n) lo hi"
    by (simp add: TF1_pol del: upt_Suc)
  have "tf_params (set_params ((TF1 name (pol_formula n) lo hi)\<lparr>tf_params := replicate (Suc n) 0\<rparr>)
          (zip [0..<0 + length cs] cs)) = take 0 (replicate (Suc n) 0) @ cs"
    using assms by (intro set_params_upt) simp
  then have p: "tf_params ?f = cs" using assms by (simp only: e) simp
  have t: "tf_terms ?f = Some (map (\<lambda>i. (i, i)) [0..<Suc n])"
    by (simp add: TF1_pol del: upt_Suc)
  have "(\<Sum>i<Suc n. cs ! i * x ^ i) = sum_list (map (\<lambda>i. cs ! i * x ^ i) [0..<Suc n])"
    by (simp add: sum_set_upt_conv_sum_list_nat [symmetric] atLeast0LessThan del: upt_Suc)
  then show ?thesis using p t by (simp add: tf_eval_def comp_def del: upt_Suc)
qed

lemma script_formulas:
  "''[0]+[1]*x'' = pol_formula 1"
  "''[0]+[1]*x+[2]*x*x'' = pol_formula 2"
  "''[0]+[1]*x+[2]*x*x+[3]*x*x*x'' = pol_formula 3"
  "''[0]+[1]*x+[2]*x*x+[3]*x*x*x+[4]*x*x*x*x'' = pol_formula 4"
  "''[0]+[1]*x+[2]*x*x+[3]*x*x*x+[4]*x*x*x*x+[5]*x*x*x*x*x'' = pol_formula 5"
  by code_simp+

lemma upt_Suc_numerals:
  "[0..<Suc 1] = [0, 1::nat]" "[0..<Suc 2] = [0, 1, 2::nat]" "[0..<Suc 3] = [0, 1, 2, 3::nat]"
  "[0..<Suc 4] = [0, 1, 2, 3, 4::nat]" "[0..<Suc 5] = [0, 1, 2, 3, 4, 5::nat]"
  by (simp_all add: upt_rec numeral_eq_Suc)

lemma script_pols:
  "f1 = set_params (TF1 ''f1'' (pol_formula 1) 150 1200) (zip [0..<Suc 1] [15.74, -0.0336115])"
  "f2 = set_params (TF1 ''f2'' (pol_formula 2) 150 1200) (zip [0..<Suc 2] [85.35, -0.412, 0.000492209])"
  "f3 = set_params (TF1 ''f3'' (pol_formula 3) 150 1200)
          (zip [0..<Suc 3] [251.123, -1.87283, 0.00460389, -0.00000371114])"
  "f4 = set_params (TF1 ''f4'' (pol_formula 4) 150 1200)
          (zip [0..<Suc 4] [554.088, -5.61481, 0.0211566, 0.0211566, 0.0000000214178])"
  "f5 = set_params (TF1 ''f5'' (pol_formula 5) 150 1200)
          (zip [0..<Suc 5] [965.043, -12.2521, 0.0624003, -0.000158721, 0.000000201178, -0.000000000101467])"
  unfolding upt_Suc_numerals script_formulas [symmetric]
  by (simp_all add: f1_def f2_def f3_def f4_def f5_def del: upt_Suc)

lemma f4_eval:
  "tf_eval f4 x = Some (554.088 - 5.61481 * x + 0.0211566 * x ^ 2 + 0.0211566 * x ^ 3 + 0.0000000214178 * x ^ 4)"
  unfolding script_pols(4) by (subst tf_eval_pol_sum) (simp_all add: numeral_eq_Suc)


lemma f4_bound:
  assumes "150 \<le> x"
  shows "70000 \<le> 554.088 - 5.61481 * x + 0.0211566 * x ^ 2 + 0.0211566 * x ^ 3 + 0.0000000214178 * (x::real) ^ 4"
proof -
  have x2: "150 * x \<le> x ^ 2" using assms by (simp add: power2_eq_square mult_right_mono)
  have "150 * x ^ 2 \<le> x ^ 3" using assms by (simp add: power3_eq_cube power2_eq_square mult_right_mono)
  then have x3: "22500 * x \<le> x ^ 3" using x2 by linarith
  have x4: "0 \<le> x ^ 4" by simp
  have "(70000::real) \<le> 554.088 + (0.0211566 * 22500 + 0.0211566 * 150 - 5.61481) * 150" by simp
  moreover have "(0.0211566 * 22500 + 0.0211566 * 150 - 5.61481) * 150 \<le> (0.0211566 * 22500 + 0.0211566 * 150 - 5.61481) * (x::real)"
    using assms by (intro mult_left_mono) simp_all
  ultimately show ?thesis using x2 x3 by (simp add: algebra_simps) (use x4 in linarith)
qed

lemma script_values_300:
  "tf_eval f1 300 = Some 5.65655" "tf_eval f2 300 = Some 6.04881"
  "tf_eval f3 300 = Some 3.42332" "tf_eval f5 300 = Some 2.94999"
  by code_simp+

text \<open>
  C37 (the fourth polynomial is off scale): \<open>f4\<close> sets parameter 3, the
  coefficient of \<open>x^3\<close>, to the value of parameter 2 (\<open>0.0211566\<close>, line 61):
  over its whole range, from \<open>x = 150\<close> on, it exceeds 70000, while at
  \<open>x = 300\<close> the four other polynomials lie between 0 and 10.
\<close>

theorem f4_off_scale:
  assumes "150 \<le> x"
  shows "(\<exists>v. tf_eval f4 x = Some v \<and> 70000 \<le> v) \<and>
         (\<forall>g\<in>set [f1, f2, f3, f5]. case tf_eval g 300 of Some w \<Rightarrow> 0 < w \<and> w < 10 | None \<Rightarrow> False)"
  using f4_eval [of x] f4_bound [OF assms] script_values_300 by simp

theorem f4_off_scale_witness:
  "(\<exists>v. tf_eval f4 300 = Some v \<and> 70000 \<le> v) \<and>
   (case tf_eval f5 300 of Some w \<Rightarrow> 0 < w \<and> w < 10 | None \<Rightarrow> False)"
  using f4_off_scale [of 300] by simp

end
