(* ===== verification/Spec2Isabelle.thy ===== *)
theory Spec2Isabelle
  imports Loaders Pipeline MissingFiles YProj
begin

text \<open>
  \<^bold>\<open>A verification development of the HaaLimits scripts.\<close>

  \<^bold>\<open>The program.\<close> The runner script
  src/HaaLimits/python/newRunningHaaLimitsKyle_KinFit_mumufourBody.py loads signal and
  data datasets from ROOT files into a three-level dictionary
  \<open>histMap[region][shift][process]\<close> and hands it to the class \<open>HaaLimits2D\<close>
  (src/HaaLimits/python/HaaLimits2D.py). That class builds the background model of each
  region, interpolates the signal shapes fitted at a grid of pseudoscalar masses into
  splines (\<open>buildSpline\<close>, the numerical core), adds the observed or Asimov data,
  writes the datacard and saves. ROOT, RooFit and the \<open>Models\<close> module are external:
  every value the code takes from them (a fit's parameters, a graph fit, an integral,
  the name format \<open>SPLINENAME\<close>) is a field of the interface record \<open>ext\<close> of
  Spline.thy, over a type variable for histograms and datasets, so every theorem holds
  for any behaviour of the library that meets its stated hypotheses.

  \<^bold>\<open>Theories, in import order.\<close>
  \<^item> Prelude: Python exceptions as values (\<open>py_error + 'a\<close>, \<open>rbind\<close>), \<open>dict\<close> as a
    map, subscripting (\<open>getitem\<close>, raising \<open>KeyError\<close>), the nested dictionary
    \<open>dict3\<close> with \<open>setitem3\<close> and \<open>store_all\<close>, for-loops whose body may raise
    (\<open>rfold\<close>) or run forever (\<open>ofold\<close>, \<open>None\<close> for a body that does not return),
    with their append, invariant and early-exit lemmas.
  \<^item> Python: \<open>str()\<close> of an integer, \<open>float()\<close> of a decimal string, \<open>str.find\<close>,
    slicing, \<open>int()\<close> of a float, with the round trip \<open>float(str(i)) = i\<close>.
  \<^item> MassGrid: the run configuration (\<open>limits_cfg\<close>, the runner's values in
    \<open>runner_cfg\<close>), the mass grid of \<open>buildSpline\<close> (lines 153--163) and the label
    conversion \<open>float(str(a).replace('p','.'))\<close>.
  \<^item> ShapeTables: the shapes fitted at one mass point (lines 166--283) and their
    \<open>[init, low, high]\<close> declarations; the bounds claims.
  \<^item> Sampling: the two \<open>while\<close> loops of lines 393--402 as \<open>while_option\<close> over
    exact reals: they return exactly when the range is not empty, with the points
    from the lower bound on, a hundredth of the range apart, up to the last one not
    beyond the upper bound. The number of points is not stated as a property of the
    scripts: exact reals give 101, the scripts' floats 100 for some ranges.
  \<^item> Spline: the whole of \<open>buildSpline\<close> (lines 144--572): the fits, the
    parameter curves, both splines in direct and fit mode, the integrals and the four
    workspace objects (\<open>wsobj\<close>); when it returns and which \<open>KeyError\<close> it raises.
  \<^item> Templates: what a returned \<open>buildSpline\<close> stored: the splines interpolate the
    fitted values at the grid nodes (direct mode) or the fitted polynomials at the
    samples (fit mode), and exactly four names are added.
  \<^item> Loaders: the runner's \<open>getDataset\<close>, \<open>getTH1F\<close>, \<open>GetPPData\<close>,
    \<open>GetFPData\<close>, \<open>GetPPSignal\<close>, \<open>GetFPSignal\<close> and the dictionary of lines
    229--306, with \<open>runner_histmap\<close> the map the runner hands to the class.
  \<^item> Driver: the limits object as a record of the workspace, the datasets and the
    datacard; \<open>_buildYModel\<close>, \<open>buildModel\<close>, \<open>fitBackground\<close>,
    \<open>addBackgroundModels\<close> and \<open>addSignalModels\<close>, each loop body a definition
    of its own (\<open>background_region\<close>, \<open>signal_region\<close>); the references
    between workspace objects and their closure.
  \<^item> Datacard: \<open>setupDatacard\<close>, \<open>addData\<close> and the processes and path of
    \<open>save\<close> (loop bodies \<open>datacard_region\<close>, \<open>data_region\<close>), and what the
    card names after the loops of Driver.
  \<^item> Pipeline: the order of the runner's calls (lines 338--346) as an inductive step
    relation \<open>haa_step\<close> on a stage and the state, parametric in the flags
    \<open>asimov\<close> and \<open>addControl\<close> the runner passes (both \<open>True\<close>); the stages
    are ordered (\<open>linorder\<close>) and \<open>stage_inv\<close> says what each has produced (the
    background pdfs, the observed datasets, the datacard's bins), an invariant of
    every reachable state proved by rule induction; and the progress of the whole
    sequence to the datacard, with the runner's flags, under stated inputs.
  \<^item> MissingFiles: the script src/HaaLimits/scripts/GetMissingFilesFromELSFile.py as
    functions of its input files' contents: the label of each line by \<open>str.find\<close>
    and slicing, the writing loop against its specification (the masses of
    \<open>values\<close> the file lacks), the round trip of well-formed lines, and the
    \<open>IOError\<close> of a missing input, which leaves the outputs of the inputs before
    it on disk (the loop returns the files written and the exception, if any).
  \<^item> YProj: the script src/HaaLimits/python/RootFitYProj.py: its own
    \<open>getDataset\<close> on an argument set modelled as a list of named RooFit variables
    (\<open>find\<close> returns the first of a name, \<open>setRange\<close> on \<open>None\<close> or with other
    than two bounds raises), the dataset it reads, and the five \<open>TF1\<close>
    polynomials with the fragment of the \<open>TFormula\<close> syntax they use: formulas
    parse back to their terms and evaluate to the sum of their coefficients'
    monomials; \<open>f4\<close> is off scale.
  \<^item> Spec2Isabelle (this theory): the composition of the runner's loaders with the
    signal loop, and with \<open>setupDatacard(addControl=IFCONTROL)\<close>, whose control
    bin reads the control histogram the runner's dictionary stores; the runner's
    constants of lines 25--27 and the path of its final \<open>save\<close>.

  \<^bold>\<open>The lemma groups.\<close> Each component proves the functional behaviour of its
  operations on every branch, errors included (\<open>KeyError\<close>, \<open>NameError\<close>,
  \<open>ValueError\<close>, \<open>AttributeError\<close> of a method called on a missing workspace
  object or on \<open>None\<close>, \<open>IOError\<close> of a missing file, \<open>TypeError\<close> of a call
  with the wrong arguments), as \<open>Inr\<close>/\<open>Inl\<close> results; loops are
  related to flat reference definitions (the signal loaders' loop nest against a flat
  list of stores, the missing-mass writer against a filter) or characterised by
  induction over the list they iterate. Across components: the workspace stays closed
  under references through the background and signal loops; every state of the
  runner's sequence holds what its stage produced for the datacard; the datacard names only objects the loops imported; the sequence
  reaches the datacard when its inputs are complete; and the runner's own map, fed to
  the signal loop, makes it raise (below).

  \<^bold>\<open>Bounds and fuel.\<close> No fuel is used. The sampling loops are \<open>while_option\<close>,
  whose \<open>None\<close> is non-termination; that they return on a proper range is proved,
  and that they diverge on an empty one. The signal loop is \<open>ofold\<close> over the
  finite calls, \<open>None\<close> only where a sampling loop diverges. Reals are exact: the
  float accumulation of line 397 is a finding, not modelled (for \<open>[0, 30]\<close>, the
  runner's \<open>XRANGE\<close> of the signal call, floats give 100 samples, exact reals
  101), so the sampling theorems state the shape of the list and not its length. The masses of the
  missing-mass script are given in tenths and printed as their literals. The
  coefficients of RootFitYProj.py's polynomials are exact decimals (the script's
  \<open>e\<close>-notation written out), and its polynomials are evaluated exactly.

  \<^bold>\<open>Not modelled.\<close> Plotting, printing and file output (the plots of
  \<open>fitBackground\<close> and \<open>buildSpline\<close>, \<open>printCard\<close>, the print statements of
  the scripts, and the projection, drawing and output of RootFitYProj.py, lines
  30--43 and 71--116, whose values are ROOT's); the rows of a dataset; the fit
  itself and every numeric routine of ROOT (the interface fields instead; being
  functions, they always return: \<open>graphFit\<close> in particular is total, and a ROOT
  fit that fails is not modelled); the base
  class \<open>Limits\<close> and the module \<open>HaaLimits2DNew\<close>, which are not in the
  repository: the datacard operations of the base class are modelled from their names,
  \<open>_buildXModel\<close> as an opaque pdf, and \<open>addSystematics\<close> (lines 741--747: a
  tuple of names, then five methods of the base class) and the control-region
  methods not at all; HaaLimits2D.py defines no control-region method, and its
  \<open>addSystematics\<close> takes no \<open>addControl\<close>, so the runner's calls of lines 337,
  343 and 347 only bind to the class of \<open>HaaLimits2DNew\<close>. The runner imports its class from \<open>HaaLimits2DNew\<close>; its
  sequence is modelled with the methods of HaaLimits2D.py, without the control-region
  calls, \<open>addSystematics\<close> and \<open>save\<close>.
\<close>

definition root_ext :: "rootobj ext" where
  "root_ext = \<lparr>fit2D = \<lambda>ms hist. (\<lambda>k. Some 1, \<lambda>k. Some 1), graphFit = \<lambda>fn xs vs es x. 0,
      integral = \<lambda>hist. 1, SPLINENAME = \<lambda>h. ''sig''\<rparr>"


text \<open>The runner's module constants of lines 25--27 and the path its final
  \<open>save(name=name, subdirectory=subdirectoryName)\<close> (line 348) writes to.\<close>

definition runner_subdirectory :: string where
  "runner_subdirectory = ''mumufourBody_SEP5_DG_WithQCD/''"

definition runner_name :: string where
  "runner_name = ''mmmt_mm_parametric''"

definition IFCONTROL :: bool where
  "IFCONTROL = True"

definition runner_save_path :: string where
  "runner_save_path = save_path runner_name runner_subdirectory"

definition root_dext :: "(rootobj, unit) driver_ext_scheme" where
  "root_dext = \<lparr>fit2D = \<lambda>ms hist. (\<lambda>k. Some 1, \<lambda>k. Some 1), graphFit = \<lambda>fn xs vs es x. 0,
      integral = \<lambda>hist. 1, SPLINENAME = \<lambda>h. ''sig'', controlIntegral = \<lambda>hist. 2, funcVal = \<lambda>n x. 0\<rparr>"


lemma SIGNAME_sig_name: "SIGNAME h a = sig_name h a"
  by (simp add: SIGNAME_def sig_name_def)

text \<open>What the signal loop reads of region \<open>FP\<close> of the runner's map: every shift
  slot exists; the dataset shifts hold every loaded signal; \<open>FakeUp\<close> holds none.\<close>

lemma runner_FP_lookup:
  assumes "runner_histmap = Inr hm"
  shows "\<exists>hr. hm ''FP'' = Some hr \<and> (\<forall>s\<in>set shift_keys. hr s \<noteq> None) \<and>
    (\<forall>s tag h a. (s, tag) \<in> set roo_tags \<longrightarrow> h \<in> set (HMASSES runner_cfg) \<longrightarrow> a \<in> set (AMASSES runner_cfg) \<longrightarrow>
        \<not> runner_skip h a \<longrightarrow> lookup3 hm ''FP'' s (sig_name h a) \<noteq> None) \<and>
    (\<forall>h a. lookup3 hm ''FP'' ''FakeUp'' (sig_name h a) = None)"
proof -
  obtain hm' where r: "runner_histmap = Inr hm'"
    and sl: "\<forall>r s. has_slot hm' r s \<longleftrightarrow> (r \<in> {''PP'', ''FP''} \<and> s \<in> set shift_keys) \<or> (r = ''control'' \<and> s = '''')"
    and fp: "\<forall>s k. lookup3 hm' ''FP'' s k =
           (case store_keys fp_sig_entries (s, k) of
              Some v \<Rightarrow> Some v | None \<Rightarrow> store_keys (data_entries (runner_data f_RegionB) (runner_data f_RegionB) (runner_data f_RegionB)) (s, k))"
    by (rule runner_histmap_Inr) blast
  have e: "hm' = hm" using r assms by (metis sum.inject(2))
  have "has_slot hm ''FP'' ''''" using sl e by (simp add: shift_keys_def)
  then obtain hr where hr: "hm ''FP'' = Some hr" by (auto simp: has_slot_def split: option.splits)
  have slots: "\<forall>s\<in>set shift_keys. hr s \<noteq> None"
  proof
    fix s assume "s \<in> set shift_keys"
    then have "has_slot hm ''FP'' s" using sl e by blast
    then show "hr s \<noteq> None" using hr by (simp add: has_slot_def)
  qed
  have hs: "set (HMASSES runner_cfg) \<subseteq> {125, 300, 750}" by (simp add: runner_cfg_def)
  have sig: "\<forall>s tag h a. (s, tag) \<in> set roo_tags \<longrightarrow> h \<in> set (HMASSES runner_cfg) \<longrightarrow> a \<in> set (AMASSES runner_cfg) \<longrightarrow>
        \<not> runner_skip h a \<longrightarrow> lookup3 hm ''FP'' s (sig_name h a) \<noteq> None"
  proof (intro allI impI)
    fix s tag h a
    assume "(s, tag) \<in> set roo_tags" "h \<in> set (HMASSES runner_cfg)" "a \<in> set (AMASSES runner_cfg)" "\<not> runner_skip h a"
    from signal_store_keys [OF hs this(2,3,4,1)]
    show "lookup3 hm ''FP'' s (sig_name h a) \<noteq> None" using fp e by simp
  qed
  have "''FakeUp'' \<notin> fst ` set roo_tags" by (simp add: roo_tags_def)
  then have fake: "\<forall>h a. lookup3 hm ''FP'' ''FakeUp'' (sig_name h a) = None"
    using fp e by (simp add: signal_store_keys_None data_store_keys_sig_name)
  show ?thesis using hr slots sig fake by blast
qed

lemma runner_grid_loaded:
  "h \<in> set (HMASSES runner_cfg) \<Longrightarrow> \<forall>a\<in>set (grid_amasses (AMASSES runner_cfg) h). a \<in> set (AMASSES runner_cfg) \<and> \<not> runner_skip h a"
  by (auto simp: runner_cfg_def grid_amasses_def runner_skip_iff)

text \<open>Every call of the signal loop on region \<open>FP\<close> of the runner's map whose
  shift is one the signal loaders store returns.\<close>

lemma runner_FP_call_Inr:
  assumes "fit_reports_params E" and "runner_histmap = Inr hm"
    and h: "h \<in> set (HMASSES runner_cfg)" and t: "(s, tag) \<in> set roo_tags"
  shows "\<exists>ws'. buildSpline E (runner_cfg\<lparr>XRANGE := (0, 30)\<rparr>) hm ws h ''FP'' s ''V'' opts = Some (Inr ws')"
proof -
  define cfg where "cfg = runner_cfg\<lparr>XRANGE := (0, 30)\<rparr>"
  obtain hr where hr: "hm ''FP'' = Some hr" and sl: "\<forall>s\<in>set shift_keys. hr s \<noteq> None"
    and sig: "\<forall>s tag h a. (s, tag) \<in> set roo_tags \<longrightarrow> h \<in> set (HMASSES runner_cfg) \<longrightarrow> a \<in> set (AMASSES runner_cfg) \<longrightarrow>
        \<not> runner_skip h a \<longrightarrow> lookup3 hm ''FP'' s (sig_name h a) \<noteq> None"
    using runner_FP_lookup [OF assms(2)] by blast
  from t have "s \<in> set shift_keys" by (auto simp: roo_tags_def shift_keys_def)
  with sl obtain hs where hs: "hr s = Some hs" by blast
  have g1: "\<forall>a\<in>set (grid_amasses (AMASSES cfg) h). hs (SIGNAME h a) \<noteq> None"
  proof
    fix a assume "a \<in> set (grid_amasses (AMASSES cfg) h)"
    then have "a \<in> set (AMASSES runner_cfg)" and "\<not> runner_skip h a"
      using runner_grid_loaded [OF h] by (simp_all add: cfg_def)
    with sig t h have "lookup3 hm ''FP'' s (sig_name h a) \<noteq> None" by blast
    then show "hs (SIGNAME h a) \<noteq> None" using hr hs by (simp add: lookup3_def SIGNAME_sig_name)
  qed
  obtain avals where av: "avals_of (AMASSES cfg) h = Inr avals"
    using h avals_runner_cases by (force simp: cfg_def runner_cfg_def)
  have x: "fst (XRANGE cfg) < snd (XRANGE cfg)" and y: "fst (YRANGE cfg) < snd (YRANGE cfg)"
    by (simp_all add: cfg_def runner_cfg_def)
  show ?thesis unfolding cfg_def [symmetric]
    by (rule buildSpline_V_Inr [where histMap = hm and region = "''FP''" and hr = hr and shift = s and hm = hs, OF assms(1) av hr hs g1 x y])
qed

text \<open>The call for \<open>FakeUp\<close> and Higgs mass 125 raises on its first signal.\<close>

lemma runner_FakeUp_call_KeyError:
  assumes "runner_histmap = Inr hm"
  shows "buildSpline E (runner_cfg\<lparr>XRANGE := (0, 30)\<rparr>) hm ws 125 ''FP'' ''FakeUp'' ''V'' opts =
           Some (Inl (KeyError ''HToAAH125A3p6''))"
proof -
  define cfg where "cfg = runner_cfg\<lparr>XRANGE := (0, 30)\<rparr>"
  obtain hr where hr: "hm ''FP'' = Some hr" and sl: "\<forall>s\<in>set shift_keys. hr s \<noteq> None"
    and fake: "\<forall>h a. lookup3 hm ''FP'' ''FakeUp'' (sig_name h a) = None"
    using runner_FP_lookup [OF assms] by blast
  obtain hs where hs: "hr ''FakeUp'' = Some hs" using sl by (force simp: shift_keys_def)
  have g: "grid_amasses (AMASSES cfg) 125 = PStr ''3p6'' # tl (AMASSES runner_cfg)"
    by (simp add: cfg_def runner_cfg_def grid_amasses_def)
  have n: "hs (SIGNAME 125 (PStr ''3p6'')) = None"
    using fake hr hs by (simp add: lookup3_def SIGNAME_sig_name)
  have a: "avals_of (AMASSES cfg) 125 = Inr [3.6, 4, 5, 6, 7, 9, 11, 13, 15, 17, 19, 21]"
    using avals_runner_cases(1) [of 125] by (simp add: cfg_def)
  have v: "yfunc_of ''V'' = Some V" by (simp add: yfunc_of_def)
  have sn: "SIGNAME 125 (PStr ''3p6'') = ''HToAAH125A3p6''"
    by code_simp
  show ?thesis
    unfolding cfg_def [symmetric] sn [symmetric]
    by (rule buildSpline_signal_KeyError [where histMap = hm and region = "''FP''" and hr = hr and shift = "''FakeUp''" and hm = hs, OF a hr hs v g aval_of_3p6 n])
qed

text \<open>
  C11 (the runner's signal models do not build): with the map the runner's loaders
  build, the configuration the runner sets (\<open>XRANGE = [0, 30]\<close> around the call,
  line 340) and the default \<open>yFitFunc = 'V'\<close>, the \<open>addSignalModels\<close> of
  HaaLimits2D.py (the runner imports its class from a module \<open>HaaLimits2DNew\<close> that
  is not in the repository) does not return a model, whatever the fit reports: the first region \<open>FP\<close> builds its central,
  \<open>Pileup\<close>, \<open>ID\<close> and \<open>Iso\<close> templates for the three Higgs masses, and the first
  \<open>Fake\<close> variation (\<open>FakeUp\<close>, \<open>h = 125\<close>) raises \<open>KeyError\<close> on its first signal,
  \<open>HToAAH125A3p6\<close>: the runner's \<open>SHIFTS\<close> name \<open>Fake\<close>, and its loaders store no
  signal under \<open>FakeUp\<close>.
\<close>

theorem runner_signal_models_KeyError:
  assumes "fit_reports_params E" and "runner_histmap = Inr hm"
  shows "addSignalModels E (runner_cfg\<lparr>XRANGE := (0, 30)\<rparr>) hm ''V'' opts st =
           Some (Inl (KeyError ''HToAAH125A3p6''))"
proof -
  define cfg where "cfg = runner_cfg\<lparr>XRANGE := (0, 30)\<rparr>"
  let ?f = "\<lambda>c ws. buildSpline E cfg hm ws (snd c) ''FP'' (fst c) ''V'' opts"
  define pre where "pre = map (Pair []) (HMASSES runner_cfg) @
     concat (map (\<lambda>s. concat (map (\<lambda>h. [(s @ ''Up'', h), (s @ ''Down'', h)]) (HMASSES runner_cfg))) [''Pileup'', ''ID'', ''Iso''])"
  have calls: "spline_calls cfg = pre @ (''FakeUp'', 125) #
      [(''FakeDown'', 125), (''FakeUp'', 300), (''FakeDown'', 300), (''FakeUp'', 750), (''FakeDown'', 750)]"
    by (simp add: spline_calls_def pre_def cfg_def runner_cfg_def)
  have ok: "\<forall>c\<in>set pre. \<forall>ws. \<exists>ws'. ?f c ws = Some (Inr ws')"
  proof (intro ballI allI)
    fix c ws assume c: "c \<in> set pre"
    then have h: "snd c \<in> set (HMASSES runner_cfg)" by (auto simp: pre_def)
    from c obtain tag where t: "(fst c, tag) \<in> set roo_tags" by (auto simp: pre_def roo_tags_def runner_cfg_def)
    show "\<exists>ws'. ?f c ws = Some (Inr ws')"
      unfolding cfg_def by (rule runner_FP_call_Inr [OF assms h t])
  qed
  have k: "\<forall>ws. ?f (''FakeUp'', 125) ws = Some (Inl (KeyError ''HToAAH125A3p6''))"
    unfolding cfg_def fst_conv snd_conv using runner_FakeUp_call_KeyError [OF assms(2)] by blast
  have "ofold ?f (spline_calls cfg) ws = Some (Inl (KeyError ''HToAAH125A3p6''))" for ws
    unfolding calls by (rule ofold_stops [where xs = pre and y = "(''FakeUp'', 125)", OF ok k])
  then have "signal_region E cfg hm ''V'' opts ''FP'' sv = Some (Inl (KeyError ''HToAAH125A3p6''))" for sv
    by (simp add: signal_region_def)
  moreover have "REGIONS cfg = ''FP'' # [''PP'']" by (simp add: cfg_def runner_cfg_def)
  ultimately show ?thesis by (simp add: addSignalModels_def cfg_def [symmetric])
qed

theorem runner_signal_models_KeyError_witness:
  "\<exists>hm. runner_histmap = Inr hm \<and>
     addSignalModels root_ext (runner_cfg\<lparr>XRANGE := (0, 30)\<rparr>) hm ''V''
       \<lparr>fit = False, ygausOnly = False, doBackgroundSignal = False\<rparr>
       \<lparr>workspace = Map.empty, datasets = Map.empty, card = empty_card\<rparr> =
     Some (Inl (KeyError ''HToAAH125A3p6''))"
proof -
  obtain hm where r: "runner_histmap = Inr hm" by (rule runner_histmap_Inr) blast
  have f: "fit_reports_params root_ext" by (simp add: fit_reports_params_def root_ext_def)
  show ?thesis using r runner_signal_models_KeyError [OF f r] by blast
qed

text \<open>
  C33 (the runner's datacard with the control bin): with the map the runner's
  loaders build, \<open>setupDatacard(addControl=IFCONTROL)\<close> (runner line 346, with
  \<open>IFCONTROL = True\<close>) returns: its bins are the regions \<open>FP\<close>, \<open>PP\<close> and then
  \<open>control\<close>; the control bin expects of the background the \<open>controlIntegral\<close> of
  the control file's \<open>mmMass\<close> histogram, the one histogram the runner's control
  loader stores, and is observed; the workspace is untouched. The card is saved
  under the runner's subdirectory: \<open>save\<close> appends the name to the subdirectory
  with no separator (line 760), and the runner's subdirectory ends in \<open>/\<close>.
\<close>

theorem runner_datacard_control:
  assumes "runner_histmap = Inr hm"
  shows "\<exists>st'. setupDatacard D runner_cfg hm IFCONTROL st = Inr st' \<and>
           workspace st' = workspace st \<and>
           dc_bins (card st') = dc_bins (card st) @ [''FP'', ''PP'', ''control''] \<and>
           dc_expected (card st') (''bg'', ''control'') = Some (controlIntegral D (FileGet control_file ''mmMass'')) \<and>
           dc_observed (card st') ''control'' = Some (-1) \<and>
           runner_save_path = ''datacards_shape/MuMuTauTau/mumufourBody_SEP5_DG_WithQCD/mmmt_mm_parametric''"
proof -
  obtain hm' where r: "runner_histmap = Inr hm'"
    and pp: "\<forall>s k. lookup3 hm' ''PP'' s k =
           (case store_keys (data_entries (runner_data f_FRC) (runner_data f_FRU) (runner_data f_FRD)) (s, k) of
              Some v \<Rightarrow> Some v | None \<Rightarrow> store_keys pp_sig_entries (s, k))"
    and fp: "\<forall>s k. lookup3 hm' ''FP'' s k =
           (case store_keys fp_sig_entries (s, k) of
              Some v \<Rightarrow> Some v | None \<Rightarrow> store_keys (data_entries (runner_data f_RegionB) (runner_data f_RegionB) (runner_data f_RegionB)) (s, k))"
    and c: "\<forall>k. lookup3 hm' ''control'' [] k =
           (if k = ''data'' \<or> k = ''dataNoSig'' then Some (FileGet control_file ''mmMass'') else None)"
    by (rule runner_histmap_Inr) blast
  have e: "hm' = hm" using r assms by (metis sum.inject(2))
  have reg: "REGIONS runner_cfg = [''FP'', ''PP'']" by (simp add: runner_cfg_def)
  have "lookup3 hm ''PP'' [] ''dataNoSig'' = Some (runner_data f_FRC)"
    using pp [rule_format, of "[]" "''dataNoSig''"] e by (simp add: data_entries_def store_keys_Cons)
  moreover have "lookup3 hm ''FP'' [] ''dataNoSig'' = Some (runner_data f_RegionB)"
    using fp [rule_format, of "[]" "''dataNoSig''"] e signal_store_keys_dataNoSig
    by (simp add: data_entries_def store_keys_Cons)
  ultimately have sl: "\<forall>r\<in>set (REGIONS runner_cfg). lookup3 hm r [] ''dataNoSig'' \<noteq> None"
    using reg by simp
  have ch: "lookup3 hm ''control'' [] ''dataNoSig'' = Some (FileGet control_file ''mmMass'')"
    using c e by simp
  have "runner_save_path = ''datacards_shape/MuMuTauTau/mumufourBody_SEP5_DG_WithQCD/mmmt_mm_parametric''"
    by (simp add: runner_save_path_def save_path_def runner_name_def runner_subdirectory_def)
  then show ?thesis using setupDatacard_control_Inr [OF sl ch, of D st] reg by (auto simp: IFCONTROL_def)
qed

theorem runner_datacard_control_witness:
  "\<exists>hm st'. runner_histmap = Inr hm \<and>
     setupDatacard root_dext runner_cfg hm True
       \<lparr>workspace = Map.empty, datasets = Map.empty, card = empty_card\<rparr> = Inr st' \<and>
     dc_bins (card st') = [''FP'', ''PP'', ''control''] \<and>
     dc_expected (card st') (''bg'', ''control'') = Some 2"
proof -
  obtain hm where r: "runner_histmap = Inr hm" by (rule runner_histmap_Inr) blast
  obtain st' where "setupDatacard root_dext runner_cfg hm True
       \<lparr>workspace = Map.empty, datasets = Map.empty, card = empty_card\<rparr> = Inr st'"
    and "dc_bins (card st') = [''FP'', ''PP'', ''control'']"
    and "dc_expected (card st') (''bg'', ''control'') = Some 2"
    using runner_datacard_control [OF r, of root_dext "\<lparr>workspace = Map.empty, datasets = Map.empty, card = empty_card\<rparr>"]
    by (auto simp: root_dext_def empty_card_def IFCONTROL_def)
  then show ?thesis using r by blast
qed

end
